theory Spec2Isabelle
  imports Complex_Main
begin

section \<open>JavaScript values used by the storefront\<close>

text \<open>
  A property that may be \<^verbatim>\<open>undefined\<close> is an option. The operator \<^verbatim>\<open>a || b\<close> on such
  string properties yields \<^verbatim>\<open>a\<close> when it is truthy (defined and not the empty string).
\<close>

definition truthy :: "string option \<Rightarrow> bool" where
  "truthy v = (case v of None \<Rightarrow> False | Some s \<Rightarrow> s \<noteq> [])"

definition js_or :: "string option \<Rightarrow> string option \<Rightarrow> string option" where
  "js_or a b = (if truthy a then a else b)"

text \<open>
  A string is the list of its code units, here 8-bit ones. White space as \<^verbatim>\<open>trim\<close> and the
  class \<^verbatim>\<open>\s\<close> of a regular expression see it: tab, line feed, vertical tab, form feed,
  carriage return, space and the no-break space.
\<close>

definition is_space :: "char \<Rightarrow> bool" where
  "is_space c = (of_char c \<in> {9, 10, 11, 12, 13, 32, 160 :: nat})"

definition trim :: "string \<Rightarrow> string" where
  "trim s = rev (dropWhile is_space (rev (dropWhile is_space s)))"

definition is_digit :: "char \<Rightarrow> bool" where
  "is_digit c = (48 \<le> (of_char c :: nat) \<and> (of_char c :: nat) \<le> 57)"

definition is_letter :: "char \<Rightarrow> bool" where
  "is_letter c =
     ((65 \<le> (of_char c :: nat) \<and> (of_char c :: nat) \<le> 90) \<or>
      (97 \<le> (of_char c :: nat) \<and> (of_char c :: nat) \<le> 122))"

text \<open>\<^verbatim>\<open>String.prototype.includes\<close>: some suffix of the text starts with the pattern.\<close>

fun str_includes :: "string \<Rightarrow> string \<Rightarrow> bool" where
  "str_includes [] sub = (sub = [])"
| "str_includes (c # cs) sub = (take (length sub) (c # cs) = sub \<or> str_includes cs sub)"

text \<open>
  Numbers are IEEE 754 doubles. A finite double is the real number it denotes; the two
  zeros are the one value 0, since the code modelled never divides and \<^verbatim>\<open>JSON.stringify\<close>
  writes both as \<^verbatim>\<open>0\<close>. The arithmetic operations compute the exact result and round it.
\<close>

datatype number = Fin real | PosInf | NegInf | NaN

text \<open>The number of binary digits of a natural number, and the powers of two.\<close>

fun bitlen :: "nat \<Rightarrow> nat" where
  "bitlen n = (if n = 0 then 0 else Suc (bitlen (n div 2)))"

declare bitlen.simps [simp del]

definition pow2 :: "int \<Rightarrow> real" where
  "pow2 e = (if 0 \<le> e then 2 ^ nat e else 1 / 2 ^ nat (- e))"

text \<open>The exponent of the leading binary digit of a positive number.\<close>

definition ilog2 :: "real \<Rightarrow> int" where
  "ilog2 q =
     (if 1 \<le> q then int (bitlen (nat \<lfloor>q\<rfloor>)) - 1
      else (let l = int (bitlen (nat \<lfloor>1 / q\<rfloor>)) in if pow2 (1 - l) \<le> q then 1 - l else - l))"

text \<open>The nearest integer, the even one of two that are equally near.\<close>

definition round_even :: "real \<Rightarrow> int" where
  "round_even x =
     (let f = \<lfloor>x\<rfloor>; d = x - of_int f in
      if d < 1 / 2 then f else if 1 / 2 < d then f + 1 else if even f then f else f + 1)"

text \<open>
  Rounding to the nearest double: 53 significant binary digits, the last of them no finer
  than 2 to the power -1074, ties to the even significand, and an infinity when the rounded
  magnitude reaches 2 to the power 1024.
\<close>

definition round64 :: "real \<Rightarrow> number" where
  "round64 q =
     (if q = 0 then Fin 0
      else (let e = max (ilog2 \<bar>q\<bar> - 52) (- 1074);
                r = of_int (round_even (q / pow2 e)) * pow2 e
            in if 2 ^ 1024 \<le> \<bar>r\<bar> then (if 0 < q then PosInf else NegInf) else Fin r))"

fun num_add :: "number \<Rightarrow> number \<Rightarrow> number" where
  "num_add (Fin x) (Fin y) = round64 (x + y)"
| "num_add NaN b = NaN"
| "num_add a NaN = NaN"
| "num_add PosInf NegInf = NaN"
| "num_add NegInf PosInf = NaN"
| "num_add PosInf b = PosInf"
| "num_add a PosInf = PosInf"
| "num_add NegInf b = NegInf"
| "num_add a NegInf = NegInf"

fun num_sub :: "number \<Rightarrow> number \<Rightarrow> number" where
  "num_sub (Fin x) (Fin y) = round64 (x - y)"
| "num_sub NaN b = NaN"
| "num_sub a NaN = NaN"
| "num_sub PosInf PosInf = NaN"
| "num_sub NegInf NegInf = NaN"
| "num_sub PosInf b = PosInf"
| "num_sub a PosInf = NegInf"
| "num_sub NegInf b = NegInf"
| "num_sub a NegInf = PosInf"

fun num_mul :: "number \<Rightarrow> number \<Rightarrow> number" where
  "num_mul (Fin x) (Fin y) = round64 (x * y)"
| "num_mul NaN b = NaN"
| "num_mul a NaN = NaN"
| "num_mul PosInf (Fin y) = (if y = 0 then NaN else if 0 < y then PosInf else NegInf)"
| "num_mul NegInf (Fin y) = (if y = 0 then NaN else if 0 < y then NegInf else PosInf)"
| "num_mul (Fin x) PosInf = (if x = 0 then NaN else if 0 < x then PosInf else NegInf)"
| "num_mul (Fin x) NegInf = (if x = 0 then NaN else if 0 < x then NegInf else PosInf)"
| "num_mul PosInf PosInf = PosInf"
| "num_mul PosInf NegInf = NegInf"
| "num_mul NegInf PosInf = NegInf"
| "num_mul NegInf NegInf = PosInf"

text \<open>The comparison \<^verbatim>\<open>a >= b\<close>, the truthiness of a number, and an integer as a number.\<close>

fun num_ge :: "number \<Rightarrow> number \<Rightarrow> bool" where
  "num_ge (Fin x) (Fin y) = (y \<le> x)"
| "num_ge NaN b = False"
| "num_ge a NaN = False"
| "num_ge PosInf b = True"
| "num_ge a NegInf = True"
| "num_ge a PosInf = False"
| "num_ge NegInf b = False"

fun num_truthy :: "number \<Rightarrow> bool" where
  "num_truthy (Fin x) = (x \<noteq> 0)"
| "num_truthy NaN = False"
| "num_truthy a = True"

definition num_of_int :: "int \<Rightarrow> number" where
  "num_of_int k = round64 (of_int k)"

text \<open>What a \<^verbatim>\<open>throw\<close> carries: an \<^verbatim>\<open>Error\<close> with its message, or \<^verbatim>\<open>undefined\<close>.\<close>

datatype thrown = Error string | ThrownUndefined

section \<open>Cart lines and products (js/cart.js)\<close>

text \<open>
  A cart line as \<^verbatim>\<open>addToCart\<close> builds it; \<open>item_id\<close> is the property \<^verbatim>\<open>id\<close> that
  \<^verbatim>\<open>findCartItem\<close> also inspects. The display-only properties \<^verbatim>\<open>image\<close> and \<^verbatim>\<open>sku\<close>
  are left out.
\<close>

record cart_item =
  productId :: "string option"
  item_id :: "string option"
  name :: string
  price :: number
  salePrice :: "number option"
  quantity :: int
  stock :: "int option"

record product =
  p_id :: "string option"
  p__id :: "string option"
  p_name :: string
  p_price :: number
  p_salePrice :: "number option"
  p_stock :: "int option"

section \<open>The network and the browser storage\<close>

datatype http_method = GET | POST | PUT | DELETE

datatype endpoint =
  EpCart | EpCartQuery string | EpCartItems | EpCartMerge | EpOrders | EpLogin | EpRegister

text \<open>Shipping details and the order payload of \<^verbatim>\<open>createOrder\<close>.\<close>

record totals =
  t_subtotal :: number
  t_discount :: number
  t_subtotalAfterDiscount :: number
  t_vat :: number
  t_shipping :: number
  t_total :: number

record shipping_info =
  fullName :: string
  email :: string
  phone :: string
  street :: string
  city :: string
  province :: string
  postalCode :: string
  country :: string

record order_data =
  o_items :: "cart_item list"
  o_shippingInfo :: shipping_info
  o_shippingMethod :: string
  o_paymentMethod :: string
  o_orderNotes :: string
  o_couponCode :: string
  o_discount :: number
  o_totals :: totals

text \<open>The data \<^verbatim>\<open>handleCheckoutSubmit\<close> reads from the checkout page.\<close>

record checkout_form =
  cf_name :: string
  cf_phone :: string
  cf_line1 :: string
  cf_line2 :: string
  cf_city :: string
  cf_province :: string
  cf_postalCode :: string
  cf_guestEmail :: string
  cf_notes :: string

datatype payload =
  NoBody
| ItemsBody "cart_item list"
| SessionBody string
| OrderBody order_data
| AddItemBody "string option" int string
| CredentialsBody string string
| RegistrationBody string string string
| FormBody checkout_form

record request =
  r_method :: http_method
  r_url :: endpoint
  r_auth :: "string option"
  r_body :: payload

text \<open>
  The JSON body of a response, with the properties the client reads: \<^verbatim>\<open>success\<close>,
  \<^verbatim>\<open>message\<close>, \<^verbatim>\<open>token\<close>, \<^verbatim>\<open>cart\<close> (and its \<^verbatim>\<open>items\<close>), \<^verbatim>\<open>order\<close>, \<^verbatim>\<open>paymentData\<close> and the
  nested \<^verbatim>\<open>data\<close> object. A payment payload is the list of its keys, in the order of
  \<^verbatim>\<open>Object.keys\<close>, each with its value.
\<close>

datatype pval = PBool bool | PStr string

type_synonym payment_data = "(string \<times> pval) list"

record order_ref =
  ord_id :: "string option"
  ord__id :: "string option"

record inner_data =
  i_token :: "string option"
  i_order :: "order_ref option"
  i_paymentData :: "payment_data option"
  i_id :: "string option"
  i__id :: "string option"

record api_data =
  d_success :: bool
  d_message :: "string option"
  d_token :: "string option"
  d_cart :: "cart_item list option option"
  d_order :: "order_ref option"
  d_paymentData :: "payment_data option"
  d_data :: "inner_data option"

text \<open>An HTTP response: its status and its body, \<open>None\<close> when the body is not JSON.\<close>

record http_response =
  status :: nat
  json :: "api_data option"

definition ok :: "http_response \<Rightarrow> bool" where
  "ok r = (200 \<le> status r \<and> status r \<le> 299)"

text \<open>
  What one call of \<^verbatim>\<open>fetch\<close> meets: a response, a transport failure with the
  browser's message, or no answer before the timeout aborts the request.
\<close>

datatype fetch_result = Responds http_response | Fails string | TimesOut

text \<open>
  The errors raised inside the cart service, one constructor for each message:
  \<^verbatim>\<open>Quantity must be at least 1\<close>, \<^verbatim>\<open>Only ${stock} items available in stock\<close>,
  \<^verbatim>\<open>Cannot add more. Only ${stock} items available in stock\<close> and
  \<^verbatim>\<open>Item not found in cart\<close>.
\<close>

datatype cart_error = QuantityBelowOne | OnlyInStock int | CannotAddMore int | ItemNotFound

text \<open>
  The entries of the error lists of \<^verbatim>\<open>validateCart\<close> and \<^verbatim>\<open>validateCheckout\<close>:
  \<^verbatim>\<open>Your cart is empty\<close>, \<^verbatim>\<open>Invalid quantity for ${item.name}\<close>,
  \<^verbatim>\<open>${item.name} - Only ${item.stock} items available\<close>, and any other text.
\<close>

datatype issue = CartEmpty | InvalidQuantityFor string | OnlyAvailable string int | OtherIssue string

text \<open>
  What \<^verbatim>\<open>createOrder\<close> throws: the joined validation errors, an error of the request
  layer, the rejection message of the backend, or the \<^verbatim>\<open>TypeError\<close> raised in its \<^verbatim>\<open>catch\<close>
  block.
\<close>

datatype checkout_error =
  ValidationFailed "issue list" | RequestFailed thrown | OrderRejected string | CatchTypeError

text \<open>The calls of \<^verbatim>\<open>showNotification\<close>.\<close>

datatype notification =
  CartFailure cart_error
| AddedToCart string
| CartUpdated
| RemovedFromCart string
| CartCleared
| CheckoutFailure checkout_error
| OrderPlaced
| PageError string
| PageSuccess string

text \<open>
  The HTML form of \<^verbatim>\<open>redirectToPayFast\<close> and what a page handler leaves to happen
  next: a navigation, the submission of that form, a navigation to the order page
  with the id it found, or the \<^verbatim>\<open>TypeError\<close> of reading the id of an undefined order
  inside the timer callback.
\<close>

record form =
  f_method :: http_method
  f_action :: string
  f_fields :: "(string \<times> string) list"

datatype page_action =
  Navigate string
| SubmitForm form
| NavigateOrderDetails "string option"
| TimerTypeError

text \<open>
  Everything outside the service objects: the keys of \<^verbatim>\<open>localStorage\<close> the code uses,
  the outcomes the next fetches will meet, and logs of the requests sent, of the
  back-off delays slept (in milliseconds) and of the notifications shown; \<open>uncaught\<close>
  counts the exceptions that left a page handler.
\<close>

record world =
  ls_authToken :: "string option"
  ls_user :: "string option"
  ls_sessionId :: "string option"
  ls_cart :: "cart_item list option"
  net :: "fetch_result list"
  requests :: "request list"
  sleeps :: "nat list"
  shown :: "notification list"
  scheduled :: "page_action list"
  uncaught :: nat

section \<open>The request layer (APIService)\<close>

text \<open>
  The fields of an \<^verbatim>\<open>APIService\<close> object. The constructor replaces a falsy (zero)
  configured value by its default.
\<close>

record api_service =
  token :: "string option"
  retryAttempts :: nat
  retryDelay :: nat

definition new_APIService :: "nat \<Rightarrow> nat \<Rightarrow> world \<Rightarrow> api_service" where
  "new_APIService cfg_attempts cfg_delay w =
     \<lparr> token = ls_authToken w,
       retryAttempts = (if cfg_attempts = 0 then 3 else cfg_attempts),
       retryDelay = (if cfg_delay = 0 then 1000 else cfg_delay) \<rparr>"

definition getHeaders :: "api_service \<Rightarrow> bool \<Rightarrow> string option" where
  "getHeaders api includeAuth = (if includeAuth \<and> truthy (token api) then token api else None)"

definition message_or :: "api_data \<Rightarrow> string \<Rightarrow> string" where
  "message_or d dflt = (case js_or (d_message d) (Some dflt) of Some m \<Rightarrow> m | None \<Rightarrow> dflt)"

definition success_only :: api_data where
  "success_only = \<lparr> d_success = True, d_message = None, d_token = None, d_cart = None,
     d_order = None, d_paymentData = None, d_data = None \<rparr>"

definition handleResponse :: "http_response option \<Rightarrow> world \<Rightarrow> (thrown + api_data) \<times> world" where
  "handleResponse response w =
     (case response of
        None \<Rightarrow> (Inl (Error ''Network error. Please check your internet connection.''), w)
      | Some r \<Rightarrow>
          (case json r of
             None \<Rightarrow>
               (if ok r then (Inr success_only, w)
                else (Inl (Error ''Server response error. Please try again later.''), w))
           | Some d \<Rightarrow>
               (if \<not> ok r then
                  (if status r = 400 then
                     (Inl (Error (message_or d ''Invalid request. Please check your input.'')), w)
                   else if status r = 401 then
                     (Inl (Error ''Session expired. Please login again.''),
                      w\<lparr>ls_authToken := None, ls_user := None\<rparr>)
                   else if status r = 403 then
                     (Inl (Error ''Access denied. You do not have permission.''), w)
                   else if status r = 404 then
                     (Inl (Error (message_or d ''Resource not found.'')), w)
                   else if status r = 500 then
                     (Inl (Error ''Server error. Please try again later.''), w)
                   else if status r = 503 then
                     (Inl (Error ''Service temporarily unavailable. Please try again later.''), w)
                   else
                     (Inl (Error (message_or d ''Something went wrong. Please try again.'')), w))
                else (Inr d, w))))"

text \<open>
  \<^verbatim>\<open>fetchWithTimeout\<close>: the request goes out and meets the next outcome of the network;
  an exhausted script is a transport failure.
\<close>

definition fetchWithTimeout :: "request \<Rightarrow> world \<Rightarrow> (thrown + http_response) \<times> world" where
  "fetchWithTimeout req w =
     (let w' = w\<lparr>requests := requests w @ [req], net := tl (net w)\<rparr>
      in case net w of
           [] \<Rightarrow> (Inl (Error ''Failed to fetch''), w')
         | Responds r # _ \<Rightarrow> (Inr r, w')
         | Fails m # _ \<Rightarrow> (Inl (Error m), w')
         | TimesOut # _ \<Rightarrow> (Inl (Error ''Request timeout. Please try again.''), w'))"

text \<open>The test of \<^verbatim>\<open>retryRequest\<close> for an error that must not be retried.\<close>

definition client_error :: "thrown \<Rightarrow> bool" where
  "client_error e =
     (case e of
        ThrownUndefined \<Rightarrow> False
      | Error m \<Rightarrow>
          m \<noteq> [] \<and>
          (str_includes m ''Invalid request'' \<or> str_includes m ''Session expired'' \<or>
           str_includes m ''Access denied'' \<or> str_includes m ''not found''))"

text \<open>
  The loop of \<^verbatim>\<open>retryRequest\<close>, from iteration \<open>i\<close> with \<open>n\<close> iterations left
  (\<open>i + n = attempts\<close>); \<open>lastError\<close> is \<open>None\<close> while it is \<^verbatim>\<open>undefined\<close>.
\<close>

fun retry_loop ::
  "nat \<Rightarrow> nat \<Rightarrow> (world \<Rightarrow> (thrown + 'a) \<times> world) \<Rightarrow> nat \<Rightarrow> nat \<Rightarrow> thrown option \<Rightarrow> world
     \<Rightarrow> (thrown + 'a) \<times> world" where
  "retry_loop delay attempts requestFn 0 i lastError w =
     (case lastError of None \<Rightarrow> (Inl ThrownUndefined, w) | Some e \<Rightarrow> (Inl e, w))"
| "retry_loop delay attempts requestFn (Suc n) i lastError w =
     (case requestFn w of
        (Inr v, w') \<Rightarrow> (Inr v, w')
      | (Inl e, w') \<Rightarrow>
          if client_error e then (Inl e, w')
          else retry_loop delay attempts requestFn n (Suc i) (Some e)
                 (if i < attempts - 1 then w'\<lparr>sleeps := sleeps w' @ [delay * 2 ^ i]\<rparr> else w'))"

definition retryRequest ::
  "api_service \<Rightarrow> (world \<Rightarrow> (thrown + 'a) \<times> world) \<Rightarrow> nat \<Rightarrow> world \<Rightarrow> (thrown + 'a) \<times> world" where
  "retryRequest api requestFn attempts w =
     retry_loop (retryDelay api) attempts requestFn attempts 0 None w"

text \<open>One attempt of a request: fetch, then \<^verbatim>\<open>handleResponse\<close>.\<close>

definition attempt :: "request \<Rightarrow> world \<Rightarrow> (thrown + api_data) \<times> world" where
  "attempt req w =
     (case fetchWithTimeout req w of
        (Inl e, w') \<Rightarrow> (Inl e, w')
      | (Inr r, w') \<Rightarrow> handleResponse (Some r) w')"

definition api_get :: "api_service \<Rightarrow> endpoint \<Rightarrow> bool \<Rightarrow> world \<Rightarrow> (thrown + api_data) \<times> world" where
  "api_get api url includeAuth w =
     retryRequest api
       (attempt \<lparr> r_method = GET, r_url = url, r_auth = getHeaders api includeAuth, r_body = NoBody \<rparr>)
       (retryAttempts api) w"

definition api_post ::
  "api_service \<Rightarrow> endpoint \<Rightarrow> payload \<Rightarrow> bool \<Rightarrow> world \<Rightarrow> (thrown + api_data) \<times> world" where
  "api_post api url body includeAuth w =
     retryRequest api
       (attempt \<lparr> r_method = POST, r_url = url, r_auth = getHeaders api includeAuth, r_body = body \<rparr>)
       (retryAttempts api) w"

section \<open>The cart service (js/cart.js)\<close>

record cart_service =
  cs_api :: api_service
  cart :: "cart_item list"
  syncInProgress :: bool

definition saveCart :: "cart_service \<Rightarrow> world \<Rightarrow> world" where
  "saveCart cs w = w\<lparr>ls_cart := Some (cart cs)\<rparr>"

text \<open>The test of \<^verbatim>\<open>findCartItem\<close> and of \<^verbatim>\<open>removeFromCart\<close>, with \<^verbatim>\<open>===\<close> on both properties.\<close>

definition matches :: "string option \<Rightarrow> cart_item \<Rightarrow> bool" where
  "matches pid item = (productId item = pid \<or> item_id item = pid)"

definition findCartItem :: "cart_service \<Rightarrow> string option \<Rightarrow> cart_item option" where
  "findCartItem cs pid = find (matches pid) (cart cs)"

text \<open>\<^verbatim>\<open>Array.prototype.findIndex\<close>, with \<open>None\<close> for \<^verbatim>\<open>-1\<close>.\<close>

fun findIndex :: "('a \<Rightarrow> bool) \<Rightarrow> 'a list \<Rightarrow> nat option" where
  "findIndex P [] = None"
| "findIndex P (x # xs) = (if P x then Some 0 else map_option Suc (findIndex P xs))"

definition getCartCount :: "cart_service \<Rightarrow> int" where
  "getCartCount cs =
     foldl (\<lambda>total item. total + (if quantity item = 0 then 1 else quantity item)) 0 (cart cs)"

text \<open>\<^verbatim>\<open>item.salePrice || item.price\<close>, and the sum of \<^verbatim>\<open>price * (item.quantity || 1)\<close>.\<close>

definition unit_price :: "cart_item \<Rightarrow> number" where
  "unit_price item =
     (case salePrice item of None \<Rightarrow> price item | Some s \<Rightarrow> if num_truthy s then s else price item)"

definition getCartSubtotal :: "cart_service \<Rightarrow> number" where
  "getCartSubtotal cs =
     foldl (\<lambda>total item.
              num_add total
                (num_mul (unit_price item) (num_of_int (if quantity item = 0 then 1 else quantity item))))
       (Fin 0) (cart cs)"

definition isInCart :: "cart_service \<Rightarrow> string option \<Rightarrow> bool" where
  "isInCart cs pid = (findCartItem cs pid \<noteq> None)"

text \<open>
  \<^verbatim>\<open>syncWithBackend\<close>: nothing is sent for a guest or while a sync is running; otherwise
  the whole cart is posted, a failure of the request is only logged, and the flag is
  lowered at the end.
\<close>

definition syncWithBackend :: "cart_service \<Rightarrow> world \<Rightarrow> cart_service \<times> world" where
  "syncWithBackend cs w =
     (if \<not> truthy (ls_authToken w) \<or> syncInProgress cs then (cs, w)
      else case api_post (cs_api cs) EpCart (ItemsBody (cart cs)) True w of
             (_, w') \<Rightarrow> (cs\<lparr>syncInProgress := False\<rparr>, w'))"

text \<open>
  The \<^verbatim>\<open>catch\<close> block shared by the three mutating operations: the error is shown
  and the operation returns \<^verbatim>\<open>false\<close>. A result \<open>Inl e\<close> stands for the exception \<open>e\<close>
  leaving a block, \<open>Inr b\<close> for the value returned.
\<close>

definition catch_notify ::
  "(cart_error + bool) \<times> cart_service \<times> world \<Rightarrow> (cart_error + bool) \<times> cart_service \<times> world" where
  "catch_notify r =
     (case r of
        (Inl e, cs, w) \<Rightarrow> (Inr False, cs, w\<lparr>shown := shown w @ [CartFailure e]\<rparr>)
      | (Inr b, cs, w) \<Rightarrow> (Inr b, cs, w))"

definition removeFromCart_try ::
  "cart_service \<Rightarrow> string option \<Rightarrow> world \<Rightarrow> (cart_error + bool) \<times> cart_service \<times> world" where
  "removeFromCart_try cs pid w =
     (case findIndex (matches pid) (cart cs) of
        None \<Rightarrow> (Inl ItemNotFound, cs, w)
      | Some index \<Rightarrow>
          (let item = cart cs ! index;
               cs1 = cs\<lparr>cart := take index (cart cs) @ drop (Suc index) (cart cs)\<rparr>;
               w1 = saveCart cs1 w
           in case syncWithBackend cs1 w1 of
                (cs2, w2) \<Rightarrow> (Inr True, cs2, w2\<lparr>shown := shown w2 @ [RemovedFromCart (name item)]\<rparr>)))"

definition removeFromCart ::
  "cart_service \<Rightarrow> string option \<Rightarrow> world \<Rightarrow> (cart_error + bool) \<times> cart_service \<times> world" where
  "removeFromCart cs pid w = catch_notify (removeFromCart_try cs pid w)"

definition updateQuantity_try ::
  "cart_service \<Rightarrow> string option \<Rightarrow> int \<Rightarrow> world \<Rightarrow> (cart_error + bool) \<times> cart_service \<times> world" where
  "updateQuantity_try cs pid q w =
     (if q < 1 then removeFromCart cs pid w
      else case findIndex (matches pid) (cart cs) of
        None \<Rightarrow> (Inl ItemNotFound, cs, w)
      | Some index \<Rightarrow>
          (let item = cart cs ! index in
           if stock item \<noteq> None \<and> the (stock item) < q then (Inl (OnlyInStock (the (stock item))), cs, w)
           else
             (let cs1 = cs\<lparr>cart := (cart cs)[index := item\<lparr>quantity := q\<rparr>]\<rparr>;
                  w1 = saveCart cs1 w
              in case syncWithBackend cs1 w1 of
                   (cs2, w2) \<Rightarrow> (Inr True, cs2, w2\<lparr>shown := shown w2 @ [CartUpdated]\<rparr>))))"

definition updateQuantity ::
  "cart_service \<Rightarrow> string option \<Rightarrow> int \<Rightarrow> world \<Rightarrow> (cart_error + bool) \<times> cart_service \<times> world" where
  "updateQuantity cs pid q w = catch_notify (updateQuantity_try cs pid q w)"

definition addToCart_try ::
  "cart_service \<Rightarrow> product \<Rightarrow> int \<Rightarrow> world \<Rightarrow> (cart_error + bool) \<times> cart_service \<times> world" where
  "addToCart_try cs p q w =
     (if q < 1 then (Inl QuantityBelowOne, cs, w)
      else if p_stock p \<noteq> None \<and> the (p_stock p) < q then (Inl (OnlyInStock (the (p_stock p))), cs, w)
      else case findCartItem cs (js_or (p_id p) (p__id p)) of
        Some existingItem \<Rightarrow>
          (let newQuantity = quantity existingItem + q in
           if p_stock p \<noteq> None \<and> the (p_stock p) < newQuantity
           then (Inl (CannotAddMore (the (p_stock p))), cs, w)
           else updateQuantity cs (js_or (productId existingItem) (item_id existingItem)) newQuantity w)
      | None \<Rightarrow>
          (let cartItem = \<lparr> productId = js_or (p_id p) (p__id p), item_id = None, name = p_name p,
                 price = p_price p, salePrice = p_salePrice p, quantity = q, stock = p_stock p \<rparr>;
               cs1 = cs\<lparr>cart := cart cs @ [cartItem]\<rparr>;
               w1 = saveCart cs1 w
           in case syncWithBackend cs1 w1 of
                (cs2, w2) \<Rightarrow> (Inr True, cs2, w2\<lparr>shown := shown w2 @ [AddedToCart (p_name p)]\<rparr>)))"

definition addToCart ::
  "cart_service \<Rightarrow> product \<Rightarrow> int \<Rightarrow> world \<Rightarrow> (cart_error + bool) \<times> cart_service \<times> world" where
  "addToCart cs p q w = catch_notify (addToCart_try cs p q w)"

definition clearCart :: "cart_service \<Rightarrow> world \<Rightarrow> cart_service \<times> world" where
  "clearCart cs w =
     (let cs1 = cs\<lparr>cart := []\<rparr>; w1 = saveCart cs1 w
      in case syncWithBackend cs1 w1 of
           (cs2, w2) \<Rightarrow> (cs2, w2\<lparr>shown := shown w2 @ [CartCleared]\<rparr>))"

text \<open>
  The body of the \<^verbatim>\<open>forEach\<close> of \<^verbatim>\<open>loadFromBackend\<close>: the first local line that
  \<^verbatim>\<open>findCartItem\<close> returns for the backend line's \<^verbatim>\<open>productId\<close> takes the backend
  quantity; without such a line the backend line is pushed.
\<close>

definition merge_item :: "cart_item list \<Rightarrow> cart_item \<Rightarrow> cart_item list" where
  "merge_item c backendItem =
     (case findIndex (matches (productId backendItem)) c of
        Some index \<Rightarrow> c[index := (c ! index)\<lparr>quantity := quantity backendItem\<rparr>]
      | None \<Rightarrow> c @ [backendItem])"

definition loadFromBackend :: "cart_service \<Rightarrow> world \<Rightarrow> cart_service \<times> world" where
  "loadFromBackend cs w =
     (case api_get (cs_api cs) EpCart True w of
        (Inl e, w') \<Rightarrow> (cs, w')
      | (Inr response, w') \<Rightarrow>
          (if d_success response \<and> d_cart response \<noteq> None then
             (let backendCart = (case the (d_cart response) of None \<Rightarrow> [] | Some items \<Rightarrow> items);
                  cs1 = cs\<lparr>cart := foldl merge_item (cart cs) backendCart\<rparr>
              in (cs1, saveCart cs1 w'))
           else (cs, w')))"

record validation =
  isValid :: bool
  errors :: "issue list"

definition item_issues :: "cart_item \<Rightarrow> issue list" where
  "item_issues item =
     (if quantity item < 1 then [InvalidQuantityFor (name item)] else []) @
     (if stock item \<noteq> None \<and> the (stock item) < quantity item
      then [OnlyAvailable (name item) (the (stock item))] else [])"

definition validateCart :: "cart_service \<Rightarrow> validation" where
  "validateCart cs =
     (if length (cart cs) = 0 then \<lparr> isValid = False, errors = [CartEmpty] \<rparr>
      else (let errs = concat (map item_issues (cart cs))
            in \<lparr> isValid = (length errs = 0), errors = errs \<rparr>))"

section \<open>Form validation (js/security.js)\<close>

text \<open>
  The tests of the patterns in \<^verbatim>\<open>VALIDATION_RULES\<close>, each anchored at both ends:
  \<^verbatim>\<open>/^[a-zA-Z\s'-]{2,50}$/\<close> for a name, \<^verbatim>\<open>/^[^\s@]+@[^\s@]+\.[^\s@]+$/\<close> for an email
  address, \<^verbatim>\<open>/^(\+27|0)[6-8][0-9]{8}$/\<close> for a phone number and \<^verbatim>\<open>/^\d{4}$/\<close> for a postal
  code. In an email address the part before the \<^verbatim>\<open>@\<close> is the longest prefix free of white
  space and \<^verbatim>\<open>@\<close>; the rest after the \<^verbatim>\<open>@\<close> is free of them too and has a dot that is
  neither its first nor its last character.
\<close>

definition name_pattern :: "string \<Rightarrow> bool" where
  "name_pattern s =
     (2 \<le> length s \<and> length s \<le> 50 \<and>
      list_all (\<lambda>c. is_letter c \<or> is_space c \<or> c = CHR 0x27 \<or> c = CHR ''-'') s)"

definition email_char :: "char \<Rightarrow> bool" where
  "email_char c = (\<not> is_space c \<and> c \<noteq> CHR ''@'')"

definition email_pattern :: "string \<Rightarrow> bool" where
  "email_pattern s =
     (let local = takeWhile email_char s; rest = dropWhile email_char s
      in local \<noteq> [] \<and> rest \<noteq> [] \<and> hd rest = CHR ''@'' \<and> list_all email_char (tl rest) \<and>
         CHR ''.'' \<in> set (butlast (tl (tl rest))))"

definition phone_pattern :: "string \<Rightarrow> bool" where
  "phone_pattern s =
     (let rest = (if take 3 s = ''+27'' then Some (drop 3 s)
                  else if take 1 s = ''0'' then Some (drop 1 s) else None)
      in case rest of
           None \<Rightarrow> False
         | Some r \<Rightarrow> length r = 9 \<and> 54 \<le> (of_char (hd r) :: nat) \<and> (of_char (hd r) :: nat) \<le> 56 \<and>
                     list_all is_digit (tl r))"

definition postal_pattern :: "string \<Rightarrow> bool" where
  "postal_pattern s = (length s = 4 \<and> list_all is_digit s)"

text \<open>The result of a field validator: \<^verbatim>\<open>{ isValid, message }\<close>.\<close>

record field_validation =
  fv_isValid :: bool
  fv_message :: string

definition validateEmail :: "string \<Rightarrow> field_validation" where
  "validateEmail email' =
     (if email' = [] then \<lparr> fv_isValid = False, fv_message = ''Email is required'' \<rparr>
      else (let trimmedEmail = trim email' in
        if length trimmedEmail = 0 then \<lparr> fv_isValid = False, fv_message = ''Email is required'' \<rparr>
        else if 254 < length trimmedEmail then \<lparr> fv_isValid = False, fv_message = ''Email is too long'' \<rparr>
        else if \<not> email_pattern trimmedEmail
          then \<lparr> fv_isValid = False, fv_message = ''Please enter a valid email address'' \<rparr>
        else \<lparr> fv_isValid = True, fv_message = [] \<rparr>))"

definition validatePhone :: "string \<Rightarrow> field_validation" where
  "validatePhone phone' =
     (if phone' = [] then \<lparr> fv_isValid = False, fv_message = ''Phone number is required'' \<rparr>
      else (let cleanPhone = filter (\<lambda>c. \<not> (is_space c \<or> c = CHR ''-'')) phone' in
        if \<not> phone_pattern cleanPhone
          then \<lparr> fv_isValid = False,
                 fv_message = ''Please enter a valid South African phone number (e.g., 071 555 1234)'' \<rparr>
        else \<lparr> fv_isValid = True, fv_message = [] \<rparr>))"

definition validateName :: "string \<Rightarrow> string \<Rightarrow> field_validation" where
  "validateName name' fieldName =
     (if name' = [] then \<lparr> fv_isValid = False, fv_message = fieldName @ '' is required'' \<rparr>
      else (let trimmedName = trim name' in
        if length trimmedName < 2
          then \<lparr> fv_isValid = False, fv_message = fieldName @ '' must be at least 2 characters'' \<rparr>
        else if 50 < length trimmedName
          then \<lparr> fv_isValid = False, fv_message = fieldName @ '' must be less than 50 characters'' \<rparr>
        else if \<not> name_pattern trimmedName
          then \<lparr> fv_isValid = False,
                 fv_message = ''Name must be 2-50 characters and contain only letters, spaces, hyphens, and apostrophes'' \<rparr>
        else \<lparr> fv_isValid = True, fv_message = [] \<rparr>))"

definition validatePostalCode :: "string \<Rightarrow> field_validation" where
  "validatePostalCode code =
     (if code = [] then \<lparr> fv_isValid = False, fv_message = ''Postal code is required'' \<rparr>
      else (let cleanCode = trim code in
        if \<not> postal_pattern cleanCode
          then \<lparr> fv_isValid = False, fv_message = ''Please enter a valid 4-digit postal code'' \<rparr>
        else \<lparr> fv_isValid = True, fv_message = [] \<rparr>))"

text \<open>\<^verbatim>\<open>validateAddress\<close>, on the street, city, province and postal code it is given.\<close>

definition validateAddress :: "string \<Rightarrow> string \<Rightarrow> string \<Rightarrow> string \<Rightarrow> validation" where
  "validateAddress street' city' province' postalCode' =
     (let errs =
            (if street' = [] \<or> length (trim street') < 5
             then [OtherIssue ''Street address must be at least 5 characters''] else []) @
            (if city' = [] \<or> length (trim city') < 2 then [OtherIssue ''City is required''] else []) @
            (if province' = [] \<or> length (trim province') < 2 then [OtherIssue ''Province is required''] else []) @
            (let postalCodeValidation = validatePostalCode postalCode' in
             if \<not> fv_isValid postalCodeValidation then [OtherIssue (fv_message postalCodeValidation)] else [])
      in \<lparr> isValid = (length errs = 0), errors = errs \<rparr>)"

section \<open>The checkout service (js/checkout.js)\<close>

record checkout_data =
  step :: nat
  shippingInfo :: shipping_info
  shippingMethod :: string
  paymentMethod :: string
  orderNotes :: string
  couponCode :: string
  discount :: number
  agreeToTerms :: bool

record checkout_service =
  co_api :: api_service
  co_cart :: cart_service
  checkoutData :: checkout_data

text \<open>
  The constants of \<^verbatim>\<open>APP_CONFIG\<close> the totals use; js/config.js sets them as below. The
  literal \<^verbatim>\<open>0.15\<close> is the double nearest to 15/100.
\<close>

record app_config =
  VAT_RATE :: number
  FREE_THRESHOLD :: number
  STANDARD_COST :: number
  EXPRESS_COST :: number

definition APP_CONFIG :: app_config where
  "APP_CONFIG = \<lparr> VAT_RATE = round64 (15 / 100), FREE_THRESHOLD = Fin 1500, STANDARD_COST = Fin 150,
     EXPRESS_COST = Fin 250 \<rparr>"

definition getDefaultCheckoutData :: checkout_data where
  "getDefaultCheckoutData =
     \<lparr> step = 1,
       shippingInfo = \<lparr> fullName = [], email = [], phone = [], street = [], city = [],
         province = [], postalCode = [], country = ''South Africa'' \<rparr>,
       shippingMethod = ''standard'', paymentMethod = [], orderNotes = [], couponCode = [],
       discount = Fin 0, agreeToTerms = False \<rparr>"

definition clearCheckoutData :: "checkout_service \<Rightarrow> checkout_service" where
  "clearCheckoutData co = co\<lparr>checkoutData := getDefaultCheckoutData\<rparr>"

definition calculateShipping :: "app_config \<Rightarrow> checkout_service \<Rightarrow> string \<Rightarrow> number" where
  "calculateShipping cfg co method =
     (let cartSubtotal = getCartSubtotal (co_cart co) in
      if num_ge cartSubtotal (FREE_THRESHOLD cfg) then Fin 0
      else if method = ''standard'' then STANDARD_COST cfg
      else if method = ''express'' then EXPRESS_COST cfg
      else if method = ''pickup'' then Fin 0
      else STANDARD_COST cfg)"

definition calculateTotals :: "app_config \<Rightarrow> checkout_service \<Rightarrow> totals" where
  "calculateTotals cfg co =
     (let cartSubtotal = getCartSubtotal (co_cart co);
          discount' = (if num_truthy (discount (checkoutData co)) then discount (checkoutData co) else Fin 0);
          subtotalAfterDiscount = num_sub cartSubtotal discount';
          vat = num_mul subtotalAfterDiscount (VAT_RATE cfg);
          shipping = calculateShipping cfg co (shippingMethod (checkoutData co));
          total = num_add (num_add subtotalAfterDiscount vat) shipping
      in \<lparr> t_subtotal = cartSubtotal, t_discount = discount',
           t_subtotalAfterDiscount = subtotalAfterDiscount, t_vat = vat, t_shipping = shipping,
           t_total = total \<rparr>)"

definition validateShippingInfo :: "shipping_info \<Rightarrow> validation" where
  "validateShippingInfo info =
     (let nameValidation = validateName (fullName info) ''Full name'';
          emailValidation = validateEmail (email info);
          phoneValidation = validatePhone (phone info);
          addressValidation = validateAddress (street info) (city info) (province info) (postalCode info);
          errs =
            (if \<not> fv_isValid nameValidation then [OtherIssue (fv_message nameValidation)] else []) @
            (if \<not> fv_isValid emailValidation then [OtherIssue (fv_message emailValidation)] else []) @
            (if \<not> fv_isValid phoneValidation then [OtherIssue (fv_message phoneValidation)] else []) @
            (if \<not> isValid addressValidation then errors addressValidation else [])
      in \<lparr> isValid = (length errs = 0), errors = errs \<rparr>)"

definition validateCheckout :: "checkout_service \<Rightarrow> validation" where
  "validateCheckout co =
     (let cartValidation = validateCart (co_cart co);
          shippingValidation = validateShippingInfo (shippingInfo (checkoutData co));
          errs =
            (if \<not> isValid cartValidation then errors cartValidation else []) @
            (if \<not> isValid shippingValidation then errors shippingValidation else []) @
            (if shippingMethod (checkoutData co) = [] then [OtherIssue ''Please select a shipping method''] else []) @
            (if paymentMethod (checkoutData co) = [] then [OtherIssue ''Please select a payment method''] else []) @
            (if \<not> agreeToTerms (checkoutData co) then [OtherIssue ''Please agree to the terms and conditions''] else [])
      in \<lparr> isValid = (length errs = 0), errors = errs \<rparr>)"

text \<open>The \<^verbatim>\<open>orderData\<close> object of \<^verbatim>\<open>createOrder\<close>, without its timestamp.\<close>

definition orderData :: "app_config \<Rightarrow> checkout_service \<Rightarrow> order_data" where
  "orderData cfg co =
     \<lparr> o_items = cart (co_cart co),
       o_shippingInfo = shippingInfo (checkoutData co),
       o_shippingMethod = shippingMethod (checkoutData co),
       o_paymentMethod = paymentMethod (checkoutData co),
       o_orderNotes = orderNotes (checkoutData co),
       o_couponCode = couponCode (checkoutData co),
       o_discount = discount (checkoutData co),
       o_totals = calculateTotals cfg co \<rparr>"

definition createOrder_try ::
  "app_config \<Rightarrow> checkout_service \<Rightarrow> world \<Rightarrow> (checkout_error + order_ref) \<times> checkout_service \<times> world" where
  "createOrder_try cfg co w =
     (let validation = validateCheckout co in
      if \<not> isValid validation then (Inl (ValidationFailed (errors validation)), co, w)
      else
        (case api_post (co_api co) EpOrders (OrderBody (orderData cfg co)) True w of
           (Inl e, w1) \<Rightarrow> (Inl (RequestFailed e), co, w1)
         | (Inr response, w1) \<Rightarrow>
             (if d_success response \<and> d_order response \<noteq> None then
                (case clearCart (co_cart co) w1 of
                   (cs2, w2) \<Rightarrow>
                     (Inr (the (d_order response)),
                      clearCheckoutData (co\<lparr>co_cart := cs2\<rparr>),
                      w2\<lparr>shown := shown w2 @ [OrderPlaced]\<rparr>))
              else (Inl (OrderRejected (message_or response ''Failed to create order'')), co, w1))))"

text \<open>
  The \<^verbatim>\<open>catch\<close> block of \<^verbatim>\<open>createOrder\<close> shows the message of the error and throws the error
  again. When the request layer threw \<^verbatim>\<open>undefined\<close>, reading its message raises a
  \<^verbatim>\<open>TypeError\<close> in the block: nothing is shown and that error is thrown instead.
\<close>

definition createOrder ::
  "app_config \<Rightarrow> checkout_service \<Rightarrow> world \<Rightarrow> (checkout_error + order_ref) \<times> checkout_service \<times> world" where
  "createOrder cfg co w =
     (case createOrder_try cfg co w of
        (Inl e, co', w') \<Rightarrow>
          (if e = RequestFailed ThrownUndefined then (Inl CatchTypeError, co', w')
           else (Inl e, co', w'\<lparr>shown := shown w' @ [CheckoutFailure e]\<rparr>))
      | (Inr order, co', w') \<Rightarrow> (Inr order, co', w'))"

section \<open>Sessions, login and the guest cart (APIService, js/login.js, register page)\<close>

definition setToken :: "api_service \<Rightarrow> string \<Rightarrow> world \<Rightarrow> api_service \<times> world" where
  "setToken api t w = (api\<lparr>token := Some t\<rparr>, w\<lparr>ls_authToken := Some t\<rparr>)"

text \<open>\<^verbatim>\<open>response.token || response.data.token\<close>, read only when one of them is truthy.\<close>

definition response_token :: "api_data \<Rightarrow> string option" where
  "response_token response =
     js_or (d_token response) (case d_data response of None \<Rightarrow> None | Some d \<Rightarrow> i_token d)"

definition store_token ::
  "(thrown + api_data) \<times> world \<Rightarrow> api_service \<Rightarrow> (thrown + api_data) \<times> api_service \<times> world" where
  "store_token r api =
     (case r of
        (Inl e, w1) \<Rightarrow> (Inl e, api, w1)
      | (Inr response, w1) \<Rightarrow>
          (if truthy (response_token response) then
             (case setToken api (the (response_token response)) w1 of
                (api', w2) \<Rightarrow> (Inr response, api', w2))
           else (Inr response, api, w1)))"

definition login ::
  "api_service \<Rightarrow> string \<Rightarrow> string \<Rightarrow> world \<Rightarrow> (thrown + api_data) \<times> api_service \<times> world" where
  "login api email' password w =
     store_token (api_post api EpLogin (CredentialsBody email' password) False w) api"

definition register ::
  "api_service \<Rightarrow> string \<Rightarrow> string \<Rightarrow> string \<Rightarrow> world
     \<Rightarrow> (thrown + api_data) \<times> api_service \<times> world" where
  "register api name' email' password w =
     store_token (api_post api EpRegister (RegistrationBody name' email' password) False w) api"

text \<open>
  \<^verbatim>\<open>getOrCreateSessionId\<close>; \<open>fresh\<close> is the text the clock and the random generator
  contribute to a new identifier.
\<close>

definition getOrCreateSessionId :: "string \<Rightarrow> world \<Rightarrow> string \<times> world" where
  "getOrCreateSessionId fresh w =
     (if \<not> truthy (ls_sessionId w) then
        (let sessionId = ''session_'' @ fresh in (sessionId, w\<lparr>ls_sessionId := Some sessionId\<rparr>))
      else (the (ls_sessionId w), w))"

definition getCart :: "api_service \<Rightarrow> string \<Rightarrow> world \<Rightarrow> (thrown + api_data) \<times> world" where
  "getCart api fresh w =
     (case getOrCreateSessionId fresh w of
        (sessionId, w1) \<Rightarrow> api_get api (EpCartQuery sessionId) (truthy (token api)) w1)"

definition api_addToCart ::
  "api_service \<Rightarrow> string option \<Rightarrow> int \<Rightarrow> string \<Rightarrow> world \<Rightarrow> (thrown + api_data) \<times> world" where
  "api_addToCart api variantId q fresh w =
     (case getOrCreateSessionId fresh w of
        (sessionId, w1) \<Rightarrow>
          api_post api EpCartItems (AddItemBody variantId q sessionId) (truthy (token api)) w1)"

definition mergeCart :: "api_service \<Rightarrow> world \<Rightarrow> world" where
  "mergeCart api w =
     (if truthy (ls_sessionId w) \<and> truthy (token api) then
        (case api_post api EpCartMerge (SessionBody (the (ls_sessionId w))) True w of
           (Inr response, w1) \<Rightarrow> w1\<lparr>ls_sessionId := None\<rparr>
         | (Inl e, w1) \<Rightarrow> w1)
      else w)"

definition showError :: "string \<Rightarrow> world \<Rightarrow> world" where
  "showError m w = w\<lparr>shown := shown w @ [PageError m]\<rparr>"

definition showSuccess :: "string \<Rightarrow> world \<Rightarrow> world" where
  "showSuccess m w = w\<lparr>shown := shown w @ [PageSuccess m]\<rparr>"

definition schedule :: "page_action \<Rightarrow> world \<Rightarrow> world" where
  "schedule a w = w\<lparr>scheduled := scheduled w @ [a]\<rparr>"

text \<open>
  The \<^verbatim>\<open>catch\<close> block of a page handler: \<^verbatim>\<open>showError(error.message || dflt)\<close>. On a thrown
  \<^verbatim>\<open>undefined\<close> reading the message raises a \<^verbatim>\<open>TypeError\<close> that leaves the handler, and
  nothing is shown.
\<close>

definition catch_show :: "thrown \<Rightarrow> string \<Rightarrow> world \<Rightarrow> world" where
  "catch_show e dflt w =
     (case e of
        Error m \<Rightarrow> showError (if m \<noteq> [] then m else dflt) w
      | ThrownUndefined \<Rightarrow> w\<lparr>uncaught := Suc (uncaught w)\<rparr>)"

text \<open>
  What \<^verbatim>\<open>handleLogin\<close> and \<^verbatim>\<open>handleRegister\<close> do with the outcome of the call: on a
  response with \<^verbatim>\<open>success\<close>, \<^verbatim>\<open>data\<close> or \<^verbatim>\<open>token\<close> the guest cart is merged and the page
  moves on; anything else ends in the \<^verbatim>\<open>catch\<close> block.
\<close>

definition after_auth ::
  "(thrown + api_data) \<times> api_service \<times> world \<Rightarrow> string \<Rightarrow> string \<Rightarrow> string \<Rightarrow> string
     \<Rightarrow> api_service \<times> world" where
  "after_auth r greeting target failed failed_catch =
     (case r of
        (Inl e, api', w1) \<Rightarrow> (api', catch_show e failed_catch w1)
      | (Inr response, api', w1) \<Rightarrow>
          (if d_success response \<or> d_data response \<noteq> None \<or> truthy (d_token response) then
             (api', schedule (Navigate target) (showSuccess greeting (mergeCart api' w1)))
           else (api', catch_show (Error (message_or response failed)) failed_catch w1)))"

text \<open>
  \<^verbatim>\<open>handleLogin\<close>, on the values of the email and password inputs and the \<^verbatim>\<open>redirect\<close>
  parameter of the page address.
\<close>

definition handleLogin ::
  "api_service \<Rightarrow> string \<Rightarrow> string \<Rightarrow> string option \<Rightarrow> world \<Rightarrow> api_service \<times> world" where
  "handleLogin api emailValue password redirect w =
     (let email' = trim emailValue in
      if email' = [] then (api, showError ''Please enter your email'' w)
      else if password = [] then (api, showError ''Please enter your password'' w)
      else after_auth (login api email' password w) ''Login successful! Redirecting...''
             (the (js_or redirect (Some ''/index.html''))) ''Login failed''
             ''Login failed. Please check your credentials.'')"

text \<open>
  \<^verbatim>\<open>handleRegister\<close>, on the values of the name, email and password inputs;
  \<open>confirmPassword\<close> is \<open>None\<close> on a page without the confirmation field. The email
  pattern of the page is that of the form validation.
\<close>

definition handleRegister ::
  "api_service \<Rightarrow> string \<Rightarrow> string \<Rightarrow> string \<Rightarrow> string option \<Rightarrow> world \<Rightarrow> api_service \<times> world" where
  "handleRegister api nameValue emailValue password confirmPassword w =
     (let name' = trim nameValue; email' = trim emailValue in
      if name' = [] then (api, showError ''Please enter your name'' w)
      else if length name' < 2 then (api, showError ''Name must be at least 2 characters'' w)
      else if email' = [] then (api, showError ''Please enter your email'' w)
      else if \<not> email_pattern email' then (api, showError ''Please enter a valid email address'' w)
      else if password = [] then (api, showError ''Please enter a password'' w)
      else if length password < 8 then (api, showError ''Password must be at least 8 characters'' w)
      else if confirmPassword \<noteq> None \<and> Some password \<noteq> confirmPassword
        then (api, showError ''Passwords do not match'' w)
      else after_auth (register api name' email' password w)
             ''Account created successfully! Redirecting...'' ''/index.html'' ''Registration failed''
             ''Registration failed. Please try again.'')"

section \<open>The checkout page and the payment hand-off\<close>

definition pval_truthy :: "pval option \<Rightarrow> bool" where
  "pval_truthy v = (case v of None \<Rightarrow> False | Some (PBool b) \<Rightarrow> b | Some (PStr s) \<Rightarrow> s \<noteq> [])"

definition to_string :: "pval \<Rightarrow> string" where
  "to_string v = (case v of PBool b \<Rightarrow> (if b then ''true'' else ''false'') | PStr s \<Rightarrow> s)"

text \<open>\<^verbatim>\<open>redirectToPayFast\<close> builds the form it then submits.\<close>

definition redirectToPayFast :: "payment_data \<Rightarrow> form" where
  "redirectToPayFast paymentData =
     \<lparr> f_method = POST,
       f_action = (if pval_truthy (map_of paymentData ''sandbox'')
                   then ''https://sandbox.payfast.co.za/eng/process''
                   else ''https://www.payfast.co.za/eng/process''),
       f_fields = map (\<lambda>key. (key, to_string (the (map_of paymentData key))))
                    (filter (\<lambda>key. key \<noteq> ''sandbox'') (map fst paymentData)) \<rparr>"

definition api_createOrder :: "api_service \<Rightarrow> checkout_form \<Rightarrow> world \<Rightarrow> (thrown + api_data) \<times> world" where
  "api_createOrder api formData w = api_post api EpOrders (FormBody formData) True w"

text \<open>\<^verbatim>\<open>response.order || response.data?.order || response.data\<close>\<close>

definition response_order :: "api_data \<Rightarrow> order_ref option" where
  "response_order response =
     (case d_order response of
        Some order \<Rightarrow> Some order
      | None \<Rightarrow>
          (case d_data response of
             None \<Rightarrow> None
           | Some d \<Rightarrow>
               (case i_order d of
                  Some order \<Rightarrow> Some order
                | None \<Rightarrow> Some \<lparr> ord_id = i_id d, ord__id = i__id d \<rparr>)))"

text \<open>\<^verbatim>\<open>response.paymentData || response.data?.paymentData\<close>\<close>

definition response_paymentData :: "api_data \<Rightarrow> payment_data option" where
  "response_paymentData response =
     (case d_paymentData response of
        Some pd \<Rightarrow> Some pd
      | None \<Rightarrow> (case d_data response of None \<Rightarrow> None | Some d \<Rightarrow> i_paymentData d))"

text \<open>
  \<^verbatim>\<open>handleCheckoutSubmit\<close>; \<open>currentUser\<close> tells whether a user is signed in,
  \<open>emailRegex\<close> is the test of the page's email pattern, and \<open>terms\<close> is the state of
  the terms checkbox, \<open>None\<close> on a page without it.
\<close>

definition handleCheckoutSubmit ::
  "api_service \<Rightarrow> bool \<Rightarrow> (string \<Rightarrow> bool) \<Rightarrow> bool option \<Rightarrow> checkout_form \<Rightarrow> world \<Rightarrow> world" where
  "handleCheckoutSubmit api currentUser emailRegex terms formData w =
     (if cf_name formData = [] then showError ''Please enter your full name'' w
      else if cf_phone formData = [] then showError ''Please enter your phone number'' w
      else if cf_line1 formData = [] then showError ''Please enter your street address'' w
      else if cf_city formData = [] then showError ''Please enter your city'' w
      else if cf_province formData = [] then showError ''Please select your province'' w
      else if cf_postalCode formData = [] then showError ''Please enter your postal code'' w
      else if \<not> currentUser \<and> cf_guestEmail formData = [] then showError ''Please enter your email address'' w
      else if \<not> currentUser \<and> cf_guestEmail formData \<noteq> [] \<and> \<not> emailRegex (cf_guestEmail formData)
        then showError ''Please enter a valid email address'' w
      else if terms = Some False then showError ''Please agree to the terms and conditions'' w
      else
        (case api_createOrder api formData w of
           (Inl e, w1) \<Rightarrow> catch_show e ''Failed to create order. Please try again.'' w1
         | (Inr response, w1) \<Rightarrow>
             (if d_success response \<or> d_data response \<noteq> None then
                (case response_paymentData response of
                   Some paymentData \<Rightarrow>
                     schedule (SubmitForm (redirectToPayFast paymentData))
                       (showSuccess ''Order created! Redirecting to payment...'' w1)
                 | None \<Rightarrow>
                     schedule
                       (case response_order response of
                          None \<Rightarrow> TimerTypeError
                        | Some order \<Rightarrow> NavigateOrderDetails (js_or (ord_id order) (ord__id order)))
                       (showSuccess ''Order created successfully!'' w1))
              else catch_show (Error (message_or response ''Failed to create order''))
                     ''Failed to create order. Please try again.'' w1)))"

section \<open>Notions of the properties and concrete scenarios\<close>

text \<open>A guest's browser before anything happened, and a quiet network.\<close>

definition w0 :: world where
  "w0 = \<lparr> ls_authToken = None, ls_user = None, ls_sessionId = None, ls_cart = None,
     net = [], requests = [], sleeps = [], shown = [], scheduled = [], uncaught = 0 \<rparr>"

definition failure_body :: "string option \<Rightarrow> api_data" where
  "failure_body m = success_only\<lparr>d_success := False, d_message := m\<rparr>"

definition get_cart_request :: request where
  "get_cart_request = \<lparr> r_method = GET, r_url = EpCart, r_auth = None, r_body = NoBody \<rparr>"

text \<open>A 404 whose JSON body carries the backend's own message.\<close>

definition not_found_response :: http_response where
  "not_found_response = \<lparr> status = 404, json = Some (failure_body (Some ''No such product'')) \<rparr>"

definition wig :: product where
  "wig = \<lparr> p_id = Some ''wig-1'', p__id = None, p_name = ''Lace wig'', p_price = Fin 1000,
     p_salePrice = None, p_stock = Some 5 \<rparr>"

definition wig_line :: "int \<Rightarrow> cart_item" where
  "wig_line q = \<lparr> productId = Some ''wig-1'', item_id = None, name = ''Lace wig'', price = Fin 1000,
     salePrice = None, quantity = q, stock = Some 5 \<rparr>"

definition guest_api :: api_service where
  "guest_api = new_APIService 3 1000 w0"

definition cart_of :: "cart_item list \<Rightarrow> cart_service" where
  "cart_of c = \<lparr> cs_api = guest_api, cart = c, syncInProgress = False \<rparr>"

definition offline_member :: world where
  "offline_member = w0\<lparr>ls_authToken := Some ''token-1'', net := [TimesOut, Fails ''Failed to fetch'']\<rparr>"

definition member_cart :: "cart_item list \<Rightarrow> cart_service" where
  "member_cart c = \<lparr> cs_api = new_APIService 3 1000 offline_member, cart = c, syncInProgress = False \<rparr>"

text \<open>
  The cart of the data model: every line is identified by its \<^verbatim>\<open>productId\<close> alone (an
  \<^verbatim>\<open>id\<close> property, when present, repeats it), no two lines share one, and every quantity is
  at least 1.
\<close>

definition keyed :: "cart_item \<Rightarrow> bool" where
  "keyed x = (productId x \<noteq> None \<and> (item_id x = None \<or> item_id x = productId x))"

definition unique_lines :: "cart_item list \<Rightarrow> bool" where
  "unique_lines c = ((\<forall>x\<in>set c. keyed x) \<and> distinct (map productId c))"

definition positive :: "cart_item list \<Rightarrow> bool" where
  "positive c = (\<forall>x\<in>set c. 1 \<le> quantity x)"

text \<open>A successful answer of the backend to the cart request, carrying the given lines.\<close>

definition remote_cart :: "cart_item list \<Rightarrow> http_response" where
  "remote_cart items = \<lparr> status = 200, json = Some (success_only\<lparr>d_cart := Some (Some items)\<rparr>) \<rparr>"

definition backend_answers :: "cart_item list \<Rightarrow> world" where
  "backend_answers items = w0\<lparr>net := [Responds (remote_cart items)]\<rparr>"

text \<open>
  The merge in closed form: a local line takes the quantity of the backend line with its
  product id, and the backend lines whose product id the cart does not hold follow.
\<close>

definition remote_wins :: "cart_item list \<Rightarrow> cart_item \<Rightarrow> cart_item" where
  "remote_wins remote l =
     (case find (\<lambda>r. productId r = productId l) remote of
        None \<Rightarrow> l
      | Some r \<Rightarrow> l\<lparr>quantity := quantity r\<rparr>)"

definition remote_only :: "cart_item list \<Rightarrow> cart_item list \<Rightarrow> cart_item list" where
  "remote_only c remote = filter (\<lambda>r. productId r \<notin> productId ` set c) remote"

definition hat_line :: "int \<Rightarrow> cart_item" where
  "hat_line q = \<lparr> productId = Some ''hat-9'', item_id = None, name = ''Wig cap'', price = Fin 80,
     salePrice = None, quantity = q, stock = None \<rparr>"

definition bundle_line :: "int \<Rightarrow> cart_item" where
  "bundle_line q = \<lparr> productId = Some ''bundle-4'', item_id = None, name = ''Hair bundle'', price = Fin 450,
     salePrice = Some (Fin 400), quantity = q, stock = Some 20 \<rparr>"


definition variant_only_line :: "int \<Rightarrow> cart_item" where
  "variant_only_line q = \<lparr> productId = None, item_id = Some ''item-77'', name = ''Hair bundle'',
     price = Fin 450, salePrice = None, quantity = q, stock = None \<rparr>"




text \<open>A line of bundles at the given unit price.\<close>

definition priced_line :: "number \<Rightarrow> int \<Rightarrow> cart_item" where
  "priced_line p q = \<lparr> productId = Some ''bundle-4'', item_id = None, name = ''Hair bundle'',
     price = p, salePrice = None, quantity = q, stock = None \<rparr>"

text \<open>A checkout over the given cart with the given coupon discount, the rest as it starts.\<close>

definition checkout_of :: "cart_item list \<Rightarrow> number \<Rightarrow> checkout_service" where
  "checkout_of c d = \<lparr> co_api = guest_api, co_cart = cart_of c,
     checkoutData = getDefaultCheckoutData\<lparr>discount := d\<rparr> \<rparr>"

text \<open>The request \<^verbatim>\<open>createOrder\<close> sends to the order endpoint.\<close>

definition order_request :: "app_config \<Rightarrow> checkout_service \<Rightarrow> request" where
  "order_request cfg co = \<lparr> r_method = POST, r_url = EpOrders, r_auth = getHeaders (co_api co) True,
     r_body = OrderBody (orderData cfg co) \<rparr>"

text \<open>
  A checkout ready to be submitted: shipping details that the field validators accept, two
  wigs in the cart, a payment method and the terms agreed; and a backend that creates the
  order.
\<close>

definition thandi :: shipping_info where
  "thandi = \<lparr> fullName = ''Thandi Mokoena'', email = ''thandi@example.com'', phone = ''082 123 4567'',
     street = ''12 Main Road'', city = ''Soweto'', province = ''Gauteng'', postalCode = ''1818'',
     country = ''South Africa'' \<rparr>"

definition ready_checkout :: checkout_service where
  "ready_checkout = \<lparr> co_api = guest_api, co_cart = cart_of [wig_line 2],
     checkoutData = getDefaultCheckoutData\<lparr>shippingInfo := thandi, paymentMethod := ''payfast'',
       agreeToTerms := True\<rparr> \<rparr>"

definition order_17 :: order_ref where
  "order_17 = \<lparr> ord_id = Some ''order-17'', ord__id = None \<rparr>"

definition order_created :: http_response where
  "order_created = \<lparr> status = 201, json = Some (success_only\<lparr>d_order := Some order_17\<rparr>) \<rparr>"

definition backend_accepts :: world where
  "backend_accepts = w0\<lparr>net := [Responds order_created]\<rparr>"

definition checkout_with :: "cart_item list \<Rightarrow> checkout_service" where
  "checkout_with c = ready_checkout\<lparr>co_cart := cart_of c\<rparr>"

text \<open>None of the checks \<^verbatim>\<open>handleCheckoutSubmit\<close> makes before its request fails.\<close>

definition form_complete :: "bool \<Rightarrow> (string \<Rightarrow> bool) \<Rightarrow> bool option \<Rightarrow> checkout_form \<Rightarrow> bool" where
  "form_complete currentUser emailRegex terms formData =
     (cf_name formData \<noteq> [] \<and> cf_phone formData \<noteq> [] \<and> cf_line1 formData \<noteq> [] \<and>
      cf_city formData \<noteq> [] \<and> cf_province formData \<noteq> [] \<and> cf_postalCode formData \<noteq> [] \<and>
      (currentUser \<or> (cf_guestEmail formData \<noteq> [] \<and> emailRegex (cf_guestEmail formData))) \<and>
      terms \<noteq> Some False)"

text \<open>
  A payment payload with the sandbox flag set, a guest's checkout form, an email pattern
  that accepts it, and a backend that answers the order request with the given body.
\<close>

definition payfast_data :: payment_data where
  "payfast_data = [(''merchant_id'', PStr ''10000100''), (''sandbox'', PBool True),
     (''amount'', PStr ''1185.00'')]"

definition guest_form :: checkout_form where
  "guest_form = \<lparr> cf_name = ''Thandi M'', cf_phone = ''0821234567'', cf_line1 = ''12 Main Rd'',
     cf_line2 = [], cf_city = ''Soweto'', cf_province = ''Gauteng'', cf_postalCode = ''1818'',
     cf_guestEmail = ''thandi@example.com'', cf_notes = [] \<rparr>"

definition any_email :: "string \<Rightarrow> bool" where
  "any_email e = True"

definition backend_answers_order :: "api_data \<Rightarrow> world" where
  "backend_answers_order d = w0\<lparr>net := [Responds \<lparr> status = 201, json = Some d \<rparr>]\<rparr>"

definition order_with_payment :: api_data where
  "order_with_payment = success_only\<lparr>d_order := Some order_17, d_paymentData := Some payfast_data\<rparr>"

definition order_without_payment :: api_data where
  "order_without_payment = success_only\<lparr>d_order := Some order_17\<rparr>"

text \<open>The requests of the login flow.\<close>

definition login_request :: "string \<Rightarrow> string \<Rightarrow> request" where
  "login_request email' password =
     \<lparr> r_method = POST, r_url = EpLogin, r_auth = None, r_body = CredentialsBody email' password \<rparr>"

definition register_request :: "string \<Rightarrow> string \<Rightarrow> string \<Rightarrow> request" where
  "register_request name' email' password =
     \<lparr> r_method = POST, r_url = EpRegister, r_auth = None, r_body = RegistrationBody name' email' password \<rparr>"

definition merge_request :: "string \<Rightarrow> string \<Rightarrow> request" where
  "merge_request t sessionId =
     \<lparr> r_method = POST, r_url = EpCartMerge, r_auth = Some t, r_body = SessionBody sessionId \<rparr>"

definition cart_request :: "string \<Rightarrow> string \<Rightarrow> request" where
  "cart_request t sessionId =
     \<lparr> r_method = GET, r_url = EpCartQuery sessionId, r_auth = Some t, r_body = NoBody \<rparr>"

text \<open>
  The guest-to-user scenario: a guest adds two units of a variant, registers, and reads the
  cart. The backend accepts the added item, answers the registration with a token, accepts
  the merge, and answers the cart request with the two units.
\<close>

definition variant_line :: "int \<Rightarrow> cart_item" where
  "variant_line q = \<lparr> productId = Some ''variant-V'', item_id = None, name = ''Body wave 18in'',
     price = Fin 950, salePrice = None, quantity = q, stock = None \<rparr>"

definition accepted :: http_response where
  "accepted = \<lparr> status = 200, json = Some success_only \<rparr>"

definition token_response :: http_response where
  "token_response = \<lparr> status = 201, json = Some (success_only\<lparr>d_token := Some ''token-1''\<rparr>) \<rparr>"

definition guest_network :: world where
  "guest_network = w0\<lparr>net := [Responds accepted, Responds token_response, Responds accepted,
     Responds (remote_cart [variant_line 2])]\<rparr>"

definition guest_adds :: "(thrown + api_data) \<times> world" where
  "guest_adds = api_addToCart guest_api (Some ''variant-V'') 2 ''1700000000000_k3j9x2m1q'' guest_network"

definition then_registers :: "api_service \<times> world" where
  "then_registers = handleRegister guest_api '' Thandi'' ''thandi@example.com ''
     ''correct-horse'' (Some ''correct-horse'') (snd guest_adds)"

definition then_reads :: "(thrown + api_data) \<times> world" where
  "then_reads = getCart (fst then_registers) ''1700000009999_z8y7x6w5v'' (snd then_registers)"

text \<open>
  The same guest when the merge endpoint is down: the login is answered with a token and
  every merge request with a 503.
\<close>

definition unavailable :: http_response where
  "unavailable = \<lparr> status = 503, json = Some (failure_body None) \<rparr>"

definition merge_down :: world where
  "merge_down = (snd guest_adds)\<lparr>net := [Responds token_response, Responds unavailable,
     Responds unavailable, Responds unavailable]\<rparr>"

section \<open>Properties of the double arithmetic\<close>

text \<open>The binary digits of a positive number bracket it between two powers of two.\<close>

lemma bitlen_bounds: "0 < n \<Longrightarrow> 2 ^ (bitlen n - 1) \<le> n \<and> n < 2 ^ bitlen n"
proof (induction n rule: bitlen.induct)
  case (1 n)
  show ?case
  proof (cases "n div 2 = 0")
    case True
    with 1(2) have "n = 1" by (cases n) auto
    then show ?thesis by (simp add: bitlen.simps)
  next
    case False
    then have p: "0 < n div 2" by simp
    from 1(2) have n0: "n \<noteq> 0" by simp
    from 1(1)[OF n0 p] have lo: "2 ^ (bitlen (n div 2) - 1) \<le> n div 2" and hi: "n div 2 < 2 ^ bitlen (n div 2)"
      by simp_all
    have b: "bitlen n = Suc (bitlen (n div 2))" using n0 by (simp add: bitlen.simps)
    have pos: "0 < bitlen (n div 2)" using p by (simp add: bitlen.simps)
    from lo have "2 * 2 ^ (bitlen (n div 2) - 1) \<le> n" by linarith
    moreover have "2 * 2 ^ (bitlen (n div 2) - 1) = (2::nat) ^ bitlen (n div 2)"
      using pos by (cases "bitlen (n div 2)") simp_all
    ultimately have l: "2 ^ bitlen (n div 2) \<le> n" by simp
    from hi have "n < 2 * 2 ^ bitlen (n div 2)" by linarith
    with l b show ?thesis by simp
  qed
qed

lemma pow2_powi: "pow2 e = 2 powi e"
  by (simp add: pow2_def power_int_def field_simps)

lemma pow2_pos: "0 < pow2 e"
  by (simp add: pow2_def)

lemma pow2_add: "pow2 (a + b) = pow2 a * pow2 b"
  by (simp add: pow2_powi power_int_add)

lemma pow2_mono: "a \<le> b \<Longrightarrow> pow2 a \<le> pow2 b"
  by (simp add: pow2_powi power_int_increasing)

lemma pow2_less: "pow2 a < pow2 b \<Longrightarrow> a < b"
  using pow2_mono[of b a] by (cases "a < b") auto

lemma pow2_nat: "pow2 (int n) = 2 ^ n"
  by (simp add: pow2_def)


lemma floor_bitlen:
  fixes x :: real
  assumes "1 \<le> x"
  shows "2 ^ (bitlen (nat \<lfloor>x\<rfloor>) - 1) \<le> x" and "x < 2 ^ bitlen (nat \<lfloor>x\<rfloor>)"
    and "0 < bitlen (nat \<lfloor>x\<rfloor>)"
proof -
  let ?n = "nat \<lfloor>x\<rfloor>"
  from assms have f: "1 \<le> \<lfloor>x\<rfloor>" by simp
  then have n: "0 < ?n" by simp
  from bitlen_bounds[OF n] have lo: "2 ^ (bitlen ?n - 1) \<le> ?n" and hi: "?n < 2 ^ bitlen ?n" by simp_all
  have rn: "real ?n = of_int \<lfloor>x\<rfloor>" using f by simp
  from lo have "real (2 ^ (bitlen ?n - 1)) \<le> real ?n" by (rule of_nat_mono)
  then have "2 ^ (bitlen ?n - 1) \<le> real ?n" by simp
  also have "\<dots> \<le> x" using rn by simp
  finally show "2 ^ (bitlen ?n - 1) \<le> x" .
  from hi have "Suc ?n \<le> 2 ^ bitlen ?n" by (rule Suc_leI)
  then have "real (Suc ?n) \<le> real (2 ^ bitlen ?n)" by (rule of_nat_mono)
  then have "real ?n + 1 \<le> 2 ^ bitlen ?n" by simp
  moreover have "x < real ?n + 1" using rn by linarith
  ultimately show "x < 2 ^ bitlen ?n" by linarith
  show "0 < bitlen ?n" using n by (simp add: bitlen.simps)
qed

lemma ilog2_bounds:
  assumes "0 < q"
  shows "pow2 (ilog2 q) \<le> q" and "q < pow2 (ilog2 q + 1)"
proof -
  have "pow2 (ilog2 q) \<le> q \<and> q < pow2 (ilog2 q + 1)"
  proof (cases "1 \<le> q")
    case True
    note b = floor_bitlen[OF True]
    let ?l = "bitlen (nat \<lfloor>q\<rfloor>)"
    have i: "ilog2 q = int ?l - 1" using True by (simp add: ilog2_def)
    have "int ?l - 1 = int (?l - 1)" using b(3) by simp
    then have "pow2 (int ?l - 1) = 2 ^ (?l - 1)" by (simp only: pow2_nat)
    moreover have "pow2 (int ?l - 1 + 1) = 2 ^ ?l" using pow2_nat[of ?l] by simp
    ultimately show ?thesis using b i by simp
  next
    case False
    with assms have x: "1 \<le> 1 / q" by simp
    note b = floor_bitlen[OF x]
    let ?l = "bitlen (nat \<lfloor>1 / q\<rfloor>)"
    have "int ?l - 1 = int (?l - 1)" using b(3) by simp
    then have p1: "pow2 (int ?l - 1) = 2 ^ (?l - 1)" by (simp only: pow2_nat)
    have inv: "pow2 (- e) = 1 / pow2 e" for e
      using pow2_add[of "- e" e] pow2_pos[of e] by (simp add: pow2_def field_simps)
    have lo: "pow2 (int ?l - 1) \<le> 1 / q" using b(1) p1 by simp
    have hi: "1 / q < pow2 (int ?l)" using b(2) by (simp add: pow2_nat)
    have "pow2 (1 - int ?l) = 1 / pow2 (int ?l - 1)" using inv[of "int ?l - 1"] by simp
    moreover from lo assms have "q \<le> 1 / pow2 (int ?l - 1)"
      using pow2_pos[of "int ?l - 1"] by (simp add: field_simps)
    ultimately have up: "q \<le> pow2 (1 - int ?l)" by simp
    have "pow2 (- int ?l) = 1 / pow2 (int ?l)" by (rule inv)
    moreover from hi assms have "1 / pow2 (int ?l) < q"
      using pow2_pos[of "int ?l"] by (simp add: field_simps)
    ultimately have dn: "pow2 (- int ?l) < q" by simp
    show ?thesis
    proof (cases "pow2 (1 - int ?l) \<le> q")
      case True
      then have i: "ilog2 q = 1 - int ?l" using False by (simp add: ilog2_def Let_def)
      have "pow2 (1 - int ?l) < pow2 (1 - int ?l + 1)"
        using pow2_add[of "1 - int ?l" 1] pow2_pos[of "1 - int ?l"] by (simp add: pow2_def)
      with up True i show ?thesis by simp
    next
      case F: False
      then have i: "ilog2 q = - int ?l" using False by (simp add: ilog2_def Let_def)
      have "- int ?l + 1 = 1 - int ?l" by simp
      with F dn i show ?thesis by simp
    qed
  qed
  then show "pow2 (ilog2 q) \<le> q" and "q < pow2 (ilog2 q + 1)" by simp_all
qed

text \<open>
  Rounding moves a number by at most half a unit in the last place: below \<open>2 ^ k\<close> that is
  at most \<open>2 ^ k / 2 ^ 54\<close>, and the result is finite.
\<close>

lemma round_even_near: "\<bar>of_int (round_even x) - x\<bar> \<le> 1 / 2"
proof -
  have "of_int \<lfloor>x\<rfloor> \<le> x" "x < of_int \<lfloor>x\<rfloor> + 1" by linarith+
  then show ?thesis by (auto simp: round_even_def Let_def)
qed

lemma round64_near:
  assumes q: "\<bar>q\<bar> < 2 ^ k" and k: "k \<le> 1023"
  shows "\<exists>r. round64 q = Fin r \<and> \<bar>r - q\<bar> \<le> 2 ^ k / 2 ^ 54"
proof (cases "q = 0")
  case True
  then show ?thesis by (simp add: round64_def)
next
  case False
  then have aq: "0 < \<bar>q\<bar>" by simp
  let ?e = "max (ilog2 \<bar>q\<bar> - 52) (- 1074)"
  let ?m = "round_even (q / pow2 ?e)"
  let ?r = "of_int ?m * pow2 ?e"
  from ilog2_bounds(1)[OF aq] q have "pow2 (ilog2 \<bar>q\<bar>) < pow2 (int k)" by (simp add: pow2_nat)
  then have "ilog2 \<bar>q\<bar> < int k" by (rule pow2_less)
  then have e: "?e \<le> int k - 53" by simp
  have "pow2 (int k - 53) * 2 ^ 53 = 2 ^ k"
    using pow2_add[of "int k - 53" 53] pow2_nat[of k] pow2_nat[of 53] by simp
  then have pk: "pow2 (int k - 53) = 2 ^ k / 2 ^ 53" by (simp add: field_simps)
  from pow2_mono[OF e] pk have pe: "pow2 ?e \<le> 2 ^ k / 2 ^ 53" by simp
  have pp: "0 < pow2 ?e" by (rule pow2_pos)
  have "\<bar>?r - q\<bar> = \<bar>of_int ?m - q / pow2 ?e\<bar> * pow2 ?e"
  proof -
    have "?r - q = (of_int ?m - q / pow2 ?e) * pow2 ?e" using pp by (simp add: field_simps)
    then show ?thesis using pp by (simp add: abs_mult)
  qed
  also have "\<dots> \<le> 1 / 2 * pow2 ?e"
    using round_even_near[of "q / pow2 ?e"] pp by (intro mult_right_mono) simp_all
  also have "\<dots> \<le> 2 ^ k / 2 ^ 54" using pe by simp
  finally have near: "\<bar>?r - q\<bar> \<le> 2 ^ k / 2 ^ 54" .
  have "(2::real) ^ k / 2 ^ 54 < 2 ^ k" by (simp add: field_simps)
  with near q have "\<bar>?r\<bar> < 2 * 2 ^ k" by linarith
  also have "\<dots> = (2::real) ^ Suc k" by simp
  also have "\<dots> \<le> 2 ^ 1024" using k by (intro power_increasing) simp_all
  finally have "\<not> 2 ^ 1024 \<le> \<bar>?r\<bar>" by simp
  then have "round64 q = Fin ?r" using False by (simp add: round64_def Let_def)
  with near show ?thesis by blast
qed


text \<open>The double that the literal \<^verbatim>\<open>0.15\<close> denotes.\<close>

lemma vat_rate_value: "round64 (15 / 100) = Fin (5404319552844595 / 2 ^ 55)"
  by (simp add: round64_def ilog2_def bitlen.simps pow2_def round_even_def Let_def)

text \<open>
  The four rounded operations of the total stay within a millionth of the exact value for
  amounts up to \<open>2 ^ 29\<close>.
\<close>

lemma totals_near:
  assumes s: "\<bar>s\<bar> \<le> 2 ^ 29" and d: "\<bar>d\<bar> \<le> 2 ^ 29" and sh: "\<bar>sh\<bar> \<le> 2 ^ 29"
  shows "\<exists>t. num_add (num_add (num_sub (Fin s) (Fin d))
                 (num_mul (num_sub (Fin s) (Fin d)) (round64 (15 / 100)))) (Fin sh) = Fin t \<and>
             \<bar>t - ((s - d) * (115 / 100) + sh)\<bar> \<le> 1 / 10 ^ 6"
proof -
  define c :: real where "c = 5404319552844595 / 2 ^ 55"
  have c: "\<bar>c - 15 / 100\<bar> \<le> 1 / 2 ^ 57" "\<bar>c\<bar> \<le> 1 / 4" by (simp_all add: c_def)
  from s d sh have s': "\<bar>s\<bar> \<le> 536870912" and d': "\<bar>d\<bar> \<le> 536870912"
    and sh': "\<bar>sh\<bar> \<le> 536870912" by simp_all
  from s' d' have "\<bar>s - d\<bar> < 2147483648" by linarith
  then have "\<bar>s - d\<bar> < 2 ^ 31" by simp
  from round64_near[OF this] obtain a where
    a: "round64 (s - d) = Fin a" and "\<bar>a - (s - d)\<bar> \<le> 2 ^ 31 / 2 ^ 54" by auto
  then have a2: "\<bar>a - (s - d)\<bar> \<le> 1 / 8388608" by simp
  from a2 s' d' have ab: "\<bar>a\<bar> \<le> 1073741825" by linarith
  have "\<bar>a * c\<bar> = \<bar>a\<bar> * \<bar>c\<bar>" by (rule abs_mult)
  also have "\<dots> \<le> 1073741825 * (1 / 4)" using ab c(2) by (intro mult_mono) simp_all
  finally have acb: "\<bar>a * c\<bar> < 536870912" by simp
  then have "\<bar>a * c\<bar> < 2 ^ 29" by simp
  from round64_near[OF this] obtain v where
    v: "round64 (a * c) = Fin v" and "\<bar>v - a * c\<bar> \<le> 2 ^ 29 / 2 ^ 54" by auto
  then have v2: "\<bar>v - a * c\<bar> \<le> 1 / 33554432" by simp
  from v2 acb have vb: "\<bar>v\<bar> \<le> 536870913" by linarith
  from ab vb have "\<bar>a + v\<bar> < 2147483648" by linarith
  then have "\<bar>a + v\<bar> < 2 ^ 31" by simp
  from round64_near[OF this] obtain u where
    u: "round64 (a + v) = Fin u" and "\<bar>u - (a + v)\<bar> \<le> 2 ^ 31 / 2 ^ 54" by auto
  then have u2: "\<bar>u - (a + v)\<bar> \<le> 1 / 8388608" by simp
  from u2 ab vb sh' have "\<bar>u + sh\<bar> < 4294967296" by linarith
  then have "\<bar>u + sh\<bar> < 2 ^ 32" by simp
  from round64_near[OF this] obtain t where
    t: "round64 (u + sh) = Fin t" and "\<bar>t - (u + sh)\<bar> \<le> 2 ^ 32 / 2 ^ 54" by auto
  then have t2: "\<bar>t - (u + sh)\<bar> \<le> 1 / 4194304" by simp
  have "\<bar>a * (c - 15 / 100)\<bar> = \<bar>a\<bar> * \<bar>c - 15 / 100\<bar>" by (rule abs_mult)
  also have "\<dots> \<le> 1073741825 * (1 / 2 ^ 57)" using ab c(1) by (intro mult_mono) simp_all
  finally have "\<bar>a * (c - 15 / 100)\<bar> \<le> 1 / 67108864" by simp
  then have e1: "\<bar>a * c - a * 15 / 100\<bar> \<le> 1 / 67108864" by (simp add: algebra_simps)
  define p where "p = a * c"
  have "\<bar>t - ((s - d) * (115 / 100) + sh)\<bar> \<le> 1 / 1000000"
    using a2 v2 u2 t2 e1 unfolding p_def[symmetric] by argo
  then have "\<bar>t - ((s - d) * (115 / 100) + sh)\<bar> \<le> 1 / 10 ^ 6" by simp
  moreover have "num_add (num_add (num_sub (Fin s) (Fin d))
                 (num_mul (num_sub (Fin s) (Fin d)) (round64 (15 / 100)))) (Fin sh) = Fin t"
    using a v u t unfolding vat_rate_value c_def by simp
  ultimately show ?thesis by blast
qed

section \<open>Properties of the form validation\<close>

text \<open>
  The test of the email pattern accepts exactly the strings that split into a local part,
  \<^verbatim>\<open>@\<close>, a domain part, a dot and a last part, the three parts not empty and free of white
  space and \<^verbatim>\<open>@\<close>.
\<close>

lemma email_pattern_iff:
  "email_pattern s \<longleftrightarrow>
     (\<exists>a b c. s = a @ CHR ''@'' # b @ CHR ''.'' # c \<and> a \<noteq> [] \<and> b \<noteq> [] \<and> c \<noteq> [] \<and>
        list_all email_char a \<and> list_all email_char b \<and> list_all email_char c)"
proof
  assume e: "email_pattern s"
  let ?a = "takeWhile email_char s" and ?rest = "dropWhile email_char s"
  from e have a: "?a \<noteq> []" and r: "?rest \<noteq> []" "hd ?rest = CHR ''@''"
    and d: "list_all email_char (tl ?rest)" and dot: "CHR ''.'' \<in> set (butlast (tl (tl ?rest)))"
    by (simp_all add: email_pattern_def Let_def)
  let ?d = "tl ?rest"
  from r have s: "s = ?a @ CHR ''@'' # ?d"
    by (metis hd_Cons_tl takeWhile_dropWhile_id)
  from dot have ne: "tl ?d \<noteq> []" by auto
  then have dne: "?d \<noteq> []" by auto
  from dot obtain u v where uv: "butlast (tl ?d) = u @ CHR ''.'' # v" by (auto simp: in_set_conv_decomp)
  have "tl ?d = butlast (tl ?d) @ [last (tl ?d)]" using ne by simp
  with uv have t: "tl ?d = u @ CHR ''.'' # (v @ [last (tl ?d)])" by simp
  from dne have "?d = hd ?d # tl ?d" by simp
  with t have dd: "?d = (hd ?d # u) @ CHR ''.'' # (v @ [last (tl ?d)])" by simp
  from d dd have "list_all email_char ((hd ?d # u) @ CHR ''.'' # (v @ [last (tl ?d)]))" by simp
  then have l: "list_all email_char (hd ?d # u)" "list_all email_char (v @ [last (tl ?d)])"
    by simp_all
  have la: "list_all email_char ?a" by (simp add: list_all_iff) (meson set_takeWhileD)
  from s dd have "s = ?a @ CHR ''@'' # (hd ?d # u) @ CHR ''.'' # (v @ [last (tl ?d)])" by simp
  with a l la show "\<exists>a b c. s = a @ CHR ''@'' # b @ CHR ''.'' # c \<and> a \<noteq> [] \<and> b \<noteq> [] \<and> c \<noteq> [] \<and>
        list_all email_char a \<and> list_all email_char b \<and> list_all email_char c"
    by blast
next
  assume "\<exists>a b c. s = a @ CHR ''@'' # b @ CHR ''.'' # c \<and> a \<noteq> [] \<and> b \<noteq> [] \<and> c \<noteq> [] \<and>
        list_all email_char a \<and> list_all email_char b \<and> list_all email_char c"
  then obtain a b c where s: "s = a @ CHR ''@'' # b @ CHR ''.'' # c" and ne: "a \<noteq> []" "b \<noteq> []" "c \<noteq> []"
    and l: "list_all email_char a" "list_all email_char b" "list_all email_char c" by blast
  have at: "\<not> email_char CHR ''@''" by (simp add: email_char_def)
  have dt: "email_char CHR ''.''" by (simp add: email_char_def is_space_def)
  from l(1) have la: "\<forall>x\<in>set a. email_char x" by (simp add: list_all_iff)
  have tw: "takeWhile email_char s = a" using s la at by (simp add: takeWhile_append2)
  have dw: "dropWhile email_char s = CHR ''@'' # b @ CHR ''.'' # c"
    using s la at by (simp add: dropWhile_append2)
  from ne(2) obtain b0 bs where b: "b = b0 # bs" by (cases b) auto
  from ne(3) have bl: "butlast (bs @ CHR ''.'' # c) = bs @ CHR ''.'' # butlast c"
    by (simp add: butlast_append)
  show "email_pattern s"
    using tw dw ne l dt b bl by (simp add: email_pattern_def Let_def)
qed

section \<open>Properties of the request layer\<close>

lemma unavailable_not_client_error:
  "\<not> client_error (Error ''Service temporarily unavailable. Please try again later.'')"
  by (simp add: client_error_def)

lemma attempt_unavailable:
  assumes "net w = Responds r # rest" "status r = 503" "json r \<noteq> None"
  shows "attempt req w =
    (Inl (Error ''Service temporarily unavailable. Please try again later.''),
     w\<lparr>requests := requests w @ [req], net := rest\<rparr>)"
  using assms by (auto simp: attempt_def fetchWithTimeout_def handleResponse_def ok_def Let_def)

lemma attempt_ok:
  assumes "net w = Responds r # rest" "ok r" "json r = Some d"
  shows "attempt req w = (Inr d, w\<lparr>requests := requests w @ [req], net := rest\<rparr>)"
  using assms by (auto simp: attempt_def fetchWithTimeout_def handleResponse_def Let_def)

text \<open>
  Two 503 responses and then a good one: with three attempts or more the third answer is
  returned after exactly three requests, with the delay doubled between them.
\<close>

lemma retry_two_unavailable_then_ok:
  assumes att: "3 \<le> attempts"
    and net: "net w = Responds r1 # Responds r2 # Responds r3 # rest"
    and r1: "status r1 = 503" "json r1 \<noteq> None"
    and r2: "status r2 = 503" "json r2 \<noteq> None"
    and r3: "ok r3" "json r3 = Some d"
  shows "retryRequest api (attempt req) attempts w =
    (Inr d, w\<lparr>requests := requests w @ [req, req, req], net := rest,
               sleeps := sleeps w @ [retryDelay api, retryDelay api * 2]\<rparr>)"
proof -
  from att obtain n where n: "attempts = Suc (Suc (Suc n))"
    by (metis add_2_eq_Suc' le_Suc_ex numeral_3_eq_3 add_Suc)
  show ?thesis
    unfolding retryRequest_def n
    by (simp add: attempt_unavailable[OF net r1]
          attempt_unavailable[where rest="Responds r3 # rest", OF _ r2]
          attempt_ok[where rest=rest, OF _ r3] unavailable_not_client_error)
qed

text \<open>
  An error that \<open>client_error\<close> recognises ends the loop at once: one request, no delay.
\<close>

lemma retry_client_error_immediate:
  assumes "requestFn w = (Inl e, w')" "client_error e" "0 < attempts"
  shows "retryRequest api requestFn attempts w = (Inl e, w')"
proof -
  from assms(3) obtain n where "attempts = Suc n" by (cases attempts) auto
  with assms(1,2) show ?thesis by (simp add: retryRequest_def)
qed

text \<open>
  C7. The request layer is meant not to retry a 4xx answer. It recognises such an answer by
  four phrases in the error message, and a 404 whose body has a message of its own
  (\<^verbatim>\<open>No such product\<close>) carries none of them: with three attempts configured the
  request is sent three times, with delays of 1000 and 2000 ms, before the error is thrown.
\<close>

theorem not_found_with_backend_message_is_retried:
  "api_get (new_APIService 3 1000 w0) EpCart False
     (w0\<lparr>net := [Responds not_found_response, Responds not_found_response, Responds not_found_response]\<rparr>) =
   (Inl (Error ''No such product''),
    w0\<lparr>requests := [get_cart_request, get_cart_request, get_cart_request], sleeps := [1000, 2000]\<rparr>)"
  by (simp add: api_get_def new_APIService_def w0_def failure_body_def retryRequest_def attempt_def
   fetchWithTimeout_def handleResponse_def ok_def message_or_def js_or_def truthy_def client_error_def
   getHeaders_def success_only_def numeral_3_eq_3 not_found_response_def get_cart_request_def)

section \<open>Properties of the cart service\<close>

lemma findIndex_None: "findIndex P xs = None \<longleftrightarrow> (\<forall>x\<in>set xs. \<not> P x)"
  by (induction xs) auto

lemma findIndex_Some:
  "findIndex P xs = Some i \<Longrightarrow> i < length xs \<and> P (xs ! i) \<and> (\<forall>j<i. \<not> P (xs ! j))"
proof (induction xs arbitrary: i)
  case Nil
  then show ?case by simp
next
  case (Cons x xs)
  show ?case
  proof (cases "P x")
    case True
    with Cons.prems show ?thesis by simp
  next
    case False
    with Cons.prems obtain k where k: "findIndex P xs = Some k" "i = Suc k" by auto
    from Cons.IH[OF k(1)] False k(2) show ?thesis by (auto simp: less_Suc_eq_0_disj)
  qed
qed

lemma find_findIndex: "find P xs = map_option (nth xs) (findIndex P xs)"
  by (induction xs) (auto simp: option.map_comp comp_def)

lemma retry_loop_keeps:
  assumes step: "\<And>w. f (snd (requestFn w)) = f w"
    and sleep: "\<And>w x. f (w\<lparr>sleeps := x\<rparr>) = f w"
  shows "f (snd (retry_loop d a requestFn n i l w)) = f w"
proof (induction n arbitrary: i l w)
  case 0
  show ?case by (simp split: option.split)
next
  case (Suc n)
  obtain r w' where rw: "requestFn w = (r, w')" by (cases "requestFn w")
  then have w': "f w' = f w" using step[of w] by simp
  show ?case
  proof (cases r)
    case (Inl e)
    then show ?thesis using rw w' Suc.IH sleep by simp
  next
    case (Inr v)
    then show ?thesis using rw w' by simp
  qed
qed

lemma attempt_ls_cart: "ls_cart (snd (attempt req w)) = ls_cart w"
  by (auto simp: attempt_def fetchWithTimeout_def handleResponse_def Let_def
      split: list.splits fetch_result.splits option.splits)

lemma attempt_shown: "shown (snd (attempt req w)) = shown w"
  by (auto simp: attempt_def fetchWithTimeout_def handleResponse_def Let_def
      split: list.splits fetch_result.splits option.splits)

lemma api_post_ls_cart: "ls_cart (snd (api_post a url b auth w)) = ls_cart w"
  unfolding api_post_def retryRequest_def
  by (rule retry_loop_keeps) (simp_all add: attempt_ls_cart)

lemma api_post_shown: "shown (snd (api_post a url b auth w)) = shown w"
  unfolding api_post_def retryRequest_def
  by (rule retry_loop_keeps) (simp_all add: attempt_shown)

lemma sync_cart: "cart (fst (syncWithBackend cs w)) = cart cs"
  by (auto simp: syncWithBackend_def split: prod.split)

lemma sync_ls_cart: "ls_cart (snd (syncWithBackend cs w)) = ls_cart w"
  using api_post_ls_cart[of "cs_api cs" EpCart "ItemsBody (cart cs)" True w]
  by (auto simp: syncWithBackend_def split: prod.split)

lemma sync_shown: "shown (snd (syncWithBackend cs w)) = shown w"
  using api_post_shown[of "cs_api cs" EpCart "ItemsBody (cart cs)" True w]
  by (auto simp: syncWithBackend_def split: prod.split)

lemma removeFromCart_missing:
  assumes "findIndex (matches pid) (cart cs) = None"
  shows "removeFromCart cs pid w = (Inr False, cs, w\<lparr>shown := shown w @ [CartFailure ItemNotFound]\<rparr>)"
  using assms by (simp add: removeFromCart_def removeFromCart_try_def catch_notify_def)

lemma removeFromCart_found:
  assumes "findIndex (matches pid) (cart cs) = Some i"
  shows "fst (removeFromCart cs pid w) = Inr True"
    and "cart (fst (snd (removeFromCart cs pid w))) = take i (cart cs) @ drop (Suc i) (cart cs)"
    and "ls_cart (snd (snd (removeFromCart cs pid w))) = Some (take i (cart cs) @ drop (Suc i) (cart cs))"
    and "shown (snd (snd (removeFromCart cs pid w))) = shown w @ [RemovedFromCart (name (cart cs ! i))]"
proof -
  let ?cs1 = "cs\<lparr>cart := take i (cart cs) @ drop (Suc i) (cart cs)\<rparr>"
  let ?w1 = "saveCart ?cs1 w"
  obtain cs2 w2 where s: "syncWithBackend ?cs1 ?w1 = (cs2, w2)" by (cases "syncWithBackend ?cs1 ?w1")
  have r: "removeFromCart cs pid w =
      (Inr True, cs2, w2\<lparr>shown := shown w2 @ [RemovedFromCart (name (cart cs ! i))]\<rparr>)"
    using assms s by (simp add: removeFromCart_def removeFromCart_try_def catch_notify_def Let_def)
  have c: "cart cs2 = cart ?cs1" using sync_cart[of ?cs1 ?w1] s by simp
  have l: "ls_cart w2 = ls_cart ?w1" using sync_ls_cart[of ?cs1 ?w1] s by simp
  have n: "shown w2 = shown ?w1" using sync_shown[of ?cs1 ?w1] s by simp
  show "fst (removeFromCart cs pid w) = Inr True" using r by simp
  show "cart (fst (snd (removeFromCart cs pid w))) = take i (cart cs) @ drop (Suc i) (cart cs)"
    using r c by simp
  show "ls_cart (snd (snd (removeFromCart cs pid w))) = Some (take i (cart cs) @ drop (Suc i) (cart cs))"
    using r l by (simp add: saveCart_def)
  show "shown (snd (snd (removeFromCart cs pid w))) = shown w @ [RemovedFromCart (name (cart cs ! i))]"
    using r n by (simp add: saveCart_def)
qed

lemma sync_local:
  assumes "syncWithBackend cs1 w1 = (cs2, w2)"
  shows "cart cs2 = cart cs1" "ls_cart w2 = ls_cart w1" "shown w2 = shown w1"
  using sync_cart[of cs1 w1] sync_ls_cart[of cs1 w1] sync_shown[of cs1 w1] assms by simp_all

lemma catch_notify_returned: "fst r = Inr b \<Longrightarrow> catch_notify r = r"
  by (cases r) (auto simp: catch_notify_def)

lemma catch_notify_returns: "\<exists>b. fst (catch_notify r) = Inr b"
  by (cases r) (auto simp: catch_notify_def split: sum.splits)

lemma updateQuantity_low:
  assumes "q < 1"
  shows "updateQuantity cs pid q w = removeFromCart cs pid w"
proof -
  obtain b where "fst (removeFromCart cs pid w) = Inr b"
    using catch_notify_returns[of "removeFromCart_try cs pid w"] by (auto simp: removeFromCart_def)
  then show ?thesis
    using assms by (simp add: updateQuantity_def updateQuantity_try_def catch_notify_returned)
qed

lemma updateQuantity_missing:
  assumes "1 \<le> q" "findIndex (matches pid) (cart cs) = None"
  shows "updateQuantity cs pid q w = (Inr False, cs, w\<lparr>shown := shown w @ [CartFailure ItemNotFound]\<rparr>)"
  using assms by (simp add: updateQuantity_def updateQuantity_try_def catch_notify_def)

lemma updateQuantity_over:
  assumes "1 \<le> q" "findIndex (matches pid) (cart cs) = Some i" "stock (cart cs ! i) = Some s" "s < q"
  shows "updateQuantity cs pid q w = (Inr False, cs, w\<lparr>shown := shown w @ [CartFailure (OnlyInStock s)]\<rparr>)"
  using assms by (simp add: updateQuantity_def updateQuantity_try_def catch_notify_def)

lemma updateQuantity_set:
  assumes "1 \<le> q" "findIndex (matches pid) (cart cs) = Some i"
    and "stock (cart cs ! i) = None \<or> q \<le> the (stock (cart cs ! i))"
  shows "fst (updateQuantity cs pid q w) = Inr True"
    and "cart (fst (snd (updateQuantity cs pid q w))) = (cart cs)[i := (cart cs ! i)\<lparr>quantity := q\<rparr>]"
    and "ls_cart (snd (snd (updateQuantity cs pid q w))) = Some ((cart cs)[i := (cart cs ! i)\<lparr>quantity := q\<rparr>])"
    and "shown (snd (snd (updateQuantity cs pid q w))) = shown w @ [CartUpdated]"
proof -
  let ?c = "(cart cs)[i := (cart cs ! i)\<lparr>quantity := q\<rparr>]"
  let ?cs1 = "cs\<lparr>cart := ?c\<rparr>"
  let ?w1 = "saveCart ?cs1 w"
  obtain cs2 w2 where s: "syncWithBackend ?cs1 ?w1 = (cs2, w2)" by (cases "syncWithBackend ?cs1 ?w1")
  have r: "updateQuantity cs pid q w = (Inr True, cs2, w2\<lparr>shown := shown w2 @ [CartUpdated]\<rparr>)"
    using assms s by (auto simp: updateQuantity_def updateQuantity_try_def catch_notify_def Let_def)
  note l = sync_local[OF s]
  show "fst (updateQuantity cs pid q w) = Inr True" using r by simp
  show "cart (fst (snd (updateQuantity cs pid q w))) = ?c" using r l by simp
  show "ls_cart (snd (snd (updateQuantity cs pid q w))) = Some ?c" using r l by (simp add: saveCart_def)
  show "shown (snd (snd (updateQuantity cs pid q w))) = shown w @ [CartUpdated]"
    using r l by (simp add: saveCart_def)
qed

lemma addToCart_low:
  assumes "q < 1"
  shows "addToCart cs p q w = (Inr False, cs, w\<lparr>shown := shown w @ [CartFailure QuantityBelowOne]\<rparr>)"
  using assms by (simp add: addToCart_def addToCart_try_def catch_notify_def)

lemma addToCart_over:
  assumes "1 \<le> q" "p_stock p = Some s" "s < q"
  shows "addToCart cs p q w = (Inr False, cs, w\<lparr>shown := shown w @ [CartFailure (OnlyInStock s)]\<rparr>)"
  using assms by (simp add: addToCart_def addToCart_try_def catch_notify_def)

lemma addToCart_existing_over:
  assumes "1 \<le> q" "findCartItem cs (js_or (p_id p) (p__id p)) = Some x"
    and "p_stock p = Some s" "q \<le> s" "s < quantity x + q"
  shows "addToCart cs p q w = (Inr False, cs, w\<lparr>shown := shown w @ [CartFailure (CannotAddMore s)]\<rparr>)"
  using assms by (simp add: addToCart_def addToCart_try_def catch_notify_def Let_def)

lemma addToCart_existing:
  assumes "1 \<le> q" "findCartItem cs (js_or (p_id p) (p__id p)) = Some x"
    and "p_stock p = None \<or> (q \<le> the (p_stock p) \<and> quantity x + q \<le> the (p_stock p))"
  shows "addToCart cs p q w = updateQuantity cs (js_or (productId x) (item_id x)) (quantity x + q) w"
proof -
  obtain b where "fst (updateQuantity cs (js_or (productId x) (item_id x)) (quantity x + q) w) = Inr b"
    using catch_notify_returns[of "updateQuantity_try cs (js_or (productId x) (item_id x)) (quantity x + q) w"]
    by (auto simp: updateQuantity_def)
  then show ?thesis
    using assms by (auto simp: addToCart_def addToCart_try_def Let_def catch_notify_returned)
qed

lemma addToCart_new:
  assumes "1 \<le> q" "findCartItem cs (js_or (p_id p) (p__id p)) = None"
    and "p_stock p = None \<or> q \<le> the (p_stock p)"
  shows "fst (addToCart cs p q w) = Inr True"
    and "cart (fst (snd (addToCart cs p q w))) = cart cs @
          [\<lparr> productId = js_or (p_id p) (p__id p), item_id = None, name = p_name p,
             price = p_price p, salePrice = p_salePrice p, quantity = q, stock = p_stock p \<rparr>]"
    and "ls_cart (snd (snd (addToCart cs p q w))) = Some (cart (fst (snd (addToCart cs p q w))))"
    and "shown (snd (snd (addToCart cs p q w))) = shown w @ [AddedToCart (p_name p)]"
proof -
  let ?line = "\<lparr> productId = js_or (p_id p) (p__id p), item_id = None, name = p_name p,
             price = p_price p, salePrice = p_salePrice p, quantity = q, stock = p_stock p \<rparr>"
  let ?cs1 = "cs\<lparr>cart := cart cs @ [?line]\<rparr>"
  let ?w1 = "saveCart ?cs1 w"
  obtain cs2 w2 where s: "syncWithBackend ?cs1 ?w1 = (cs2, w2)" by (cases "syncWithBackend ?cs1 ?w1")
  have r: "addToCart cs p q w = (Inr True, cs2, w2\<lparr>shown := shown w2 @ [AddedToCart (p_name p)]\<rparr>)"
    using assms s by (auto simp: addToCart_def addToCart_try_def catch_notify_def Let_def)
  note l = sync_local[OF s]
  show "fst (addToCart cs p q w) = Inr True" using r by simp
  show c: "cart (fst (snd (addToCart cs p q w))) = cart cs @ [?line]" using r l by simp
  show "ls_cart (snd (snd (addToCart cs p q w))) = Some (cart (fst (snd (addToCart cs p q w))))"
    using r l by (simp add: saveCart_def)
  show "shown (snd (snd (addToCart cs p q w))) = shown w @ [AddedToCart (p_name p)]"
    using r l by (simp add: saveCart_def)
qed

text \<open>
  C3. A request for more than the known stock (a count, so not negative) is refused and
  nothing changes: \<^verbatim>\<open>addToCart\<close>
  with a quantity above the product's stock, or with a total above it for a line already in
  the cart, and \<^verbatim>\<open>updateQuantity\<close> with a quantity above the stock kept on the line, show
  the stock message, return \<^verbatim>\<open>false\<close> and leave the cart service and the storage as they
  were. A quantity from 1 up to the stock is written to the line in place; clamping it to
  the stock leaves it as it is.
\<close>
theorem stock_limit_rejects_without_change:
  "(p_stock p = Some s \<and> 0 \<le> s \<and> s < q \<longrightarrow>
      addToCart cs p q w = (Inr False, cs, w\<lparr>shown := shown w @ [CartFailure (OnlyInStock s)]\<rparr>)) \<and>
   (findCartItem cs (js_or (p_id p) (p__id p)) = Some x \<and> p_stock p = Some s \<and> 1 \<le> q \<and> q \<le> s \<and>
    s < quantity x + q \<longrightarrow>
      addToCart cs p q w = (Inr False, cs, w\<lparr>shown := shown w @ [CartFailure (CannotAddMore s)]\<rparr>)) \<and>
   (findIndex (matches pid) (cart cs) = Some i \<and> stock (cart cs ! i) = Some s \<and> 0 \<le> s \<and> s < q \<longrightarrow>
      updateQuantity cs pid q w = (Inr False, cs, w\<lparr>shown := shown w @ [CartFailure (OnlyInStock s)]\<rparr>)) \<and>
   (findIndex (matches pid) (cart cs) = Some i \<and> stock (cart cs ! i) = Some s \<and> 1 \<le> q \<and> q \<le> s \<longrightarrow>
      fst (updateQuantity cs pid q w) = Inr True \<and>
      cart (fst (snd (updateQuantity cs pid q w))) = (cart cs)[i := (cart cs ! i)\<lparr>quantity := min q s\<rparr>])"
proof (intro conjI impI)
  assume "p_stock p = Some s \<and> 0 \<le> s \<and> s < q"
  then show "addToCart cs p q w = (Inr False, cs, w\<lparr>shown := shown w @ [CartFailure (OnlyInStock s)]\<rparr>)"
    using addToCart_over[of q p s cs w] by simp
next
  assume "findCartItem cs (js_or (p_id p) (p__id p)) = Some x \<and> p_stock p = Some s \<and> 1 \<le> q \<and> q \<le> s \<and>
    s < quantity x + q"
  then show "addToCart cs p q w = (Inr False, cs, w\<lparr>shown := shown w @ [CartFailure (CannotAddMore s)]\<rparr>)"
    using addToCart_existing_over[of q cs p x s w] by simp
next
  assume "findIndex (matches pid) (cart cs) = Some i \<and> stock (cart cs ! i) = Some s \<and> 0 \<le> s \<and> s < q"
  then show "updateQuantity cs pid q w = (Inr False, cs, w\<lparr>shown := shown w @ [CartFailure (OnlyInStock s)]\<rparr>)"
    using updateQuantity_over[of q pid cs i s w] by simp
next
  assume a: "findIndex (matches pid) (cart cs) = Some i \<and> stock (cart cs ! i) = Some s \<and> 1 \<le> q \<and> q \<le> s"
  then show "fst (updateQuantity cs pid q w) = Inr True"
    using updateQuantity_set(1)[of q pid cs i w] by simp
  from a have "min q s = q" by simp
  with a show "cart (fst (snd (updateQuantity cs pid q w))) = (cart cs)[i := (cart cs ! i)\<lparr>quantity := min q s\<rparr>]"
    using updateQuantity_set(2)[of q pid cs i w] by simp
qed

lemma wig_found: "findIndex (matches (Some ''wig-1'')) (cart (cart_of [wig_line 2])) = Some 0"
  by (simp add: cart_of_def wig_line_def matches_def)

lemma wig_found': "findCartItem (cart_of [wig_line 2]) (js_or (p_id wig) (p__id wig)) = Some (wig_line 2)"
  by (simp add: cart_of_def wig_line_def matches_def findCartItem_def wig_def js_or_def truthy_def)

text \<open>The stock limit on a cart holding two wigs of a product with five in stock.\<close>
theorem stock_limit_rejects_without_change_witness:
  "addToCart (cart_of [wig_line 2]) wig 6 w0 =
     (Inr False, cart_of [wig_line 2], w0\<lparr>shown := [CartFailure (OnlyInStock 5)]\<rparr>) \<and>
   addToCart (cart_of [wig_line 2]) wig 4 w0 =
     (Inr False, cart_of [wig_line 2], w0\<lparr>shown := [CartFailure (CannotAddMore 5)]\<rparr>) \<and>
   updateQuantity (cart_of [wig_line 2]) (Some ''wig-1'') 6 w0 =
     (Inr False, cart_of [wig_line 2], w0\<lparr>shown := [CartFailure (OnlyInStock 5)]\<rparr>) \<and>
   fst (updateQuantity (cart_of [wig_line 2]) (Some ''wig-1'') 4 w0) = Inr True \<and>
   cart (fst (snd (updateQuantity (cart_of [wig_line 2]) (Some ''wig-1'') 4 w0))) = [wig_line 4]"
proof -
  have s: "p_stock wig = Some 5" "stock (cart (cart_of [wig_line 2]) ! 0) = Some 5" "quantity (wig_line 2) = 2"
    "shown w0 = []"
    by (simp_all add: wig_def cart_of_def wig_line_def w0_def)
  have u: "[wig_line 2][0 := (wig_line 2)\<lparr>quantity := 4\<rparr>] = [wig_line 4]" "cart (cart_of [wig_line 2]) = [wig_line 2]"
    by (simp_all add: wig_line_def cart_of_def)
  show ?thesis
    using stock_limit_rejects_without_change[of wig 5 6 "cart_of [wig_line 2]" w0 "wig_line 2" "Some ''wig-1''" 0]
      stock_limit_rejects_without_change[of wig 5 4 "cart_of [wig_line 2]" w0 "wig_line 2" "Some ''wig-1''" 0]
      wig_found wig_found' s u
    by simp
qed

text \<open>
  C10. \<^verbatim>\<open>addToCart\<close>, \<^verbatim>\<open>updateQuantity\<close> and \<^verbatim>\<open>removeFromCart\<close> always return a boolean and
  never let an exception out. An invalid quantity, an unknown item and insufficient stock
  give \<^verbatim>\<open>false\<close>; a mutation that goes through gives \<^verbatim>\<open>true\<close> with the cart changed, in
  every state of the network, so also when the synchronisation request fails.
\<close>
theorem cart_mutations_return_booleans:
  "(\<exists>b. fst (addToCart cs p q w) = Inr b) \<and>
   (\<exists>b. fst (updateQuantity cs pid q w) = Inr b) \<and>
   (\<exists>b. fst (removeFromCart cs pid w) = Inr b) \<and>
   (q < 1 \<longrightarrow> fst (addToCart cs p q w) = Inr False) \<and>
   (1 \<le> q \<and> p_stock p = Some s \<and> s < q \<longrightarrow> fst (addToCart cs p q w) = Inr False) \<and>
   (1 \<le> q \<and> findIndex (matches pid) (cart cs) = None \<longrightarrow> fst (updateQuantity cs pid q w) = Inr False) \<and>
   (1 \<le> q \<and> findIndex (matches pid) (cart cs) = Some i \<and> stock (cart cs ! i) = Some s \<and> s < q \<longrightarrow>
      fst (updateQuantity cs pid q w) = Inr False) \<and>
   (findIndex (matches pid) (cart cs) = None \<longrightarrow> fst (removeFromCart cs pid w) = Inr False) \<and>
   (1 \<le> q \<and> findCartItem cs (js_or (p_id p) (p__id p)) = None \<and> (p_stock p = None \<or> q \<le> the (p_stock p)) \<longrightarrow>
      fst (addToCart cs p q w) = Inr True \<and>
      cart (fst (snd (addToCart cs p q w))) = cart cs @
        [\<lparr> productId = js_or (p_id p) (p__id p), item_id = None, name = p_name p,
           price = p_price p, salePrice = p_salePrice p, quantity = q, stock = p_stock p \<rparr>]) \<and>
   (1 \<le> q \<and> findIndex (matches pid) (cart cs) = Some i \<and>
    (stock (cart cs ! i) = None \<or> q \<le> the (stock (cart cs ! i))) \<longrightarrow>
      fst (updateQuantity cs pid q w) = Inr True \<and>
      cart (fst (snd (updateQuantity cs pid q w))) = (cart cs)[i := (cart cs ! i)\<lparr>quantity := q\<rparr>]) \<and>
   (findIndex (matches pid) (cart cs) = Some i \<longrightarrow>
      fst (removeFromCart cs pid w) = Inr True \<and>
      cart (fst (snd (removeFromCart cs pid w))) = take i (cart cs) @ drop (Suc i) (cart cs))"
proof (intro conjI impI)
  show "\<exists>b. fst (addToCart cs p q w) = Inr b"
    unfolding addToCart_def by (rule catch_notify_returns)
  show "\<exists>b. fst (updateQuantity cs pid q w) = Inr b"
    unfolding updateQuantity_def by (rule catch_notify_returns)
  show "\<exists>b. fst (removeFromCart cs pid w) = Inr b"
    unfolding removeFromCart_def by (rule catch_notify_returns)
next
  assume "q < 1"
  then show "fst (addToCart cs p q w) = Inr False" by (simp add: addToCart_low)
next
  assume "1 \<le> q \<and> p_stock p = Some s \<and> s < q"
  then show "fst (addToCart cs p q w) = Inr False" by (simp add: addToCart_over)
next
  assume "1 \<le> q \<and> findIndex (matches pid) (cart cs) = None"
  then show "fst (updateQuantity cs pid q w) = Inr False" by (simp add: updateQuantity_missing)
next
  assume "1 \<le> q \<and> findIndex (matches pid) (cart cs) = Some i \<and> stock (cart cs ! i) = Some s \<and> s < q"
  then show "fst (updateQuantity cs pid q w) = Inr False" by (simp add: updateQuantity_over)
next
  assume "findIndex (matches pid) (cart cs) = None"
  then show "fst (removeFromCart cs pid w) = Inr False" by (simp add: removeFromCart_missing)
next
  assume a: "1 \<le> q \<and> findCartItem cs (js_or (p_id p) (p__id p)) = None \<and> (p_stock p = None \<or> q \<le> the (p_stock p))"
  then show "fst (addToCart cs p q w) = Inr True" by (simp add: addToCart_new(1))
  from a show "cart (fst (snd (addToCart cs p q w))) = cart cs @
        [\<lparr> productId = js_or (p_id p) (p__id p), item_id = None, name = p_name p,
           price = p_price p, salePrice = p_salePrice p, quantity = q, stock = p_stock p \<rparr>]"
    by (simp add: addToCart_new(2))
next
  assume a: "1 \<le> q \<and> findIndex (matches pid) (cart cs) = Some i \<and>
    (stock (cart cs ! i) = None \<or> q \<le> the (stock (cart cs ! i)))"
  then show "fst (updateQuantity cs pid q w) = Inr True" by (simp add: updateQuantity_set(1))
  from a show "cart (fst (snd (updateQuantity cs pid q w))) = (cart cs)[i := (cart cs ! i)\<lparr>quantity := q\<rparr>]"
    by (simp add: updateQuantity_set(2))
next
  assume a: "findIndex (matches pid) (cart cs) = Some i"
  then show "fst (removeFromCart cs pid w) = Inr True" by (simp add: removeFromCart_found(1))
  from a show "cart (fst (snd (removeFromCart cs pid w))) = take i (cart cs) @ drop (Suc i) (cart cs)"
    by (simp add: removeFromCart_found(2))
qed

lemma offline_sync_fails:
  "fst (api_post (cs_api (member_cart c)) EpCart (ItemsBody c) True (offline_member\<lparr>ls_cart := Some c\<rparr>)) =
     Inl (Error ''Failed to fetch'')"
  by (simp add: api_post_def member_cart_def new_APIService_def offline_member_def w0_def
      retryRequest_def attempt_def fetchWithTimeout_def client_error_def numeral_3_eq_3)

text \<open>
  The three operations for a signed-in user whose network is down: every synchronisation
  request fails, and the successful mutations still return \<^verbatim>\<open>true\<close>.
\<close>
theorem cart_mutations_return_booleans_witness:
  "fst (addToCart (member_cart [wig_line 2]) wig 0 offline_member) = Inr False \<and>
   fst (addToCart (member_cart [wig_line 2]) wig 6 offline_member) = Inr False \<and>
   fst (updateQuantity (member_cart [wig_line 2]) (Some ''hat-9'') 1 offline_member) = Inr False \<and>
   fst (updateQuantity (member_cart [wig_line 2]) (Some ''wig-1'') 6 offline_member) = Inr False \<and>
   fst (removeFromCart (member_cart [wig_line 2]) (Some ''hat-9'') offline_member) = Inr False \<and>
   fst (api_post (cs_api (member_cart [wig_line 2])) EpCart (ItemsBody [wig_line 2]) True
          (offline_member\<lparr>ls_cart := Some [wig_line 2]\<rparr>)) = Inl (Error ''Failed to fetch'') \<and>
   fst (addToCart (member_cart []) wig 2 offline_member) = Inr True \<and>
   cart (fst (snd (addToCart (member_cart []) wig 2 offline_member))) = [wig_line 2] \<and>
   fst (updateQuantity (member_cart [wig_line 2]) (Some ''wig-1'') 3 offline_member) = Inr True \<and>
   cart (fst (snd (updateQuantity (member_cart [wig_line 2]) (Some ''wig-1'') 3 offline_member))) = [wig_line 3] \<and>
   fst (removeFromCart (member_cart [wig_line 2]) (Some ''wig-1'') offline_member) = Inr True \<and>
   cart (fst (snd (removeFromCart (member_cart [wig_line 2]) (Some ''wig-1'') offline_member))) = []"
proof -
  have found: "findIndex (matches (Some ''wig-1'')) (cart (member_cart [wig_line 2])) = Some 0"
    and missing: "findIndex (matches (Some ''hat-9'')) (cart (member_cart [wig_line 2])) = None"
    and fresh: "findCartItem (member_cart []) (js_or (p_id wig) (p__id wig)) = None"
    by (simp_all add: member_cart_def wig_line_def matches_def findCartItem_def)
  have vals: "p_stock wig = Some 5" "stock (cart (member_cart [wig_line 2]) ! 0) = Some 5"
    "cart (member_cart [wig_line 2]) = [wig_line 2]" "cart (member_cart []) = []"
    "[wig_line 2][0 := (wig_line 2)\<lparr>quantity := 3\<rparr>] = [wig_line 3]"
    "\<lparr> productId = js_or (p_id wig) (p__id wig), item_id = None, name = p_name wig,
        price = p_price wig, salePrice = p_salePrice wig, quantity = 2, stock = p_stock wig \<rparr> = wig_line 2"
    by (simp_all add: wig_def member_cart_def wig_line_def js_or_def truthy_def)
  show ?thesis
    using cart_mutations_return_booleans[of "member_cart [wig_line 2]" wig 0 offline_member "Some ''hat-9''" 5 0]
      cart_mutations_return_booleans[of "member_cart [wig_line 2]" wig 6 offline_member "Some ''wig-1''" 5 0]
      cart_mutations_return_booleans[of "member_cart [wig_line 2]" wig 1 offline_member "Some ''hat-9''" 5 0]
      cart_mutations_return_booleans[of "member_cart []" wig 2 offline_member "Some ''hat-9''" 5 0]
      cart_mutations_return_booleans[of "member_cart [wig_line 2]" wig 3 offline_member "Some ''wig-1''" 5 0]
      offline_sync_fails[of "[wig_line 2]"] found missing fresh vals
    by simp
qed

lemma keyed_matches: "keyed x \<Longrightarrow> pid \<noteq> None \<Longrightarrow> matches pid x \<longleftrightarrow> productId x = pid"
  by (auto simp: keyed_def matches_def)

lemma unique_lines_find:
  assumes u: "unique_lines c" and x: "x \<in> set c"
  shows "\<exists>i. findIndex (matches (productId x)) c = Some i \<and> c ! i = x"
proof -
  from u x have kx: "keyed x" by (simp add: unique_lines_def)
  then have px: "productId x \<noteq> None" by (simp add: keyed_def)
  have "matches (productId x) x" by (simp add: matches_def)
  with x have "findIndex (matches (productId x)) c \<noteq> None" by (auto simp: findIndex_None)
  then obtain i where i: "findIndex (matches (productId x)) c = Some i" by auto
  from findIndex_Some[OF i] have il: "i < length c" and m: "matches (productId x) (c ! i)" by auto
  from u il have "keyed (c ! i)" by (simp add: unique_lines_def)
  with m px have pi: "productId (c ! i) = productId x" by (simp add: keyed_matches)
  from x obtain j where j: "j < length c" "c ! j = x" by (auto simp: in_set_conv_nth)
  from u have "distinct (map productId c)" by (simp add: unique_lines_def)
  with il j pi have "i = j"
    by (metis length_map nth_eq_iff_index_eq nth_map)
  with i j show ?thesis by auto
qed

lemma unique_lines_removed:
  assumes u: "unique_lines c" and i: "i < length c"
  shows "unique_lines (take i c @ drop (Suc i) c)"
    and "findIndex (matches (productId (c ! i))) (take i c @ drop (Suc i) c) = None"
    and "c ! i \<notin> set (take i c @ drop (Suc i) c)"
proof -
  let ?c' = "take i c @ drop (Suc i) c"
  from i have c: "c = take i c @ (c ! i) # drop (Suc i) c" by (simp add: id_take_nth_drop)
  from u have d: "distinct (map productId c)" and k: "\<forall>x\<in>set c. keyed x" by (simp_all add: unique_lines_def)
  have sub: "set ?c' \<subseteq> set c" by (auto dest: in_set_takeD in_set_dropD)
  from d have d': "distinct (map productId (take i c @ (c ! i) # drop (Suc i) c))" using c by simp
  then have d'': "distinct (map productId ?c')" and ni: "productId (c ! i) \<notin> productId ` set ?c'"
    by auto
  from k sub d'' show "unique_lines ?c'" by (auto simp: unique_lines_def)
  from k i have pi: "productId (c ! i) \<noteq> None" by (auto simp: keyed_def)
  have "\<not> matches (productId (c ! i)) x" if "x \<in> set ?c'" for x
  proof -
    from that sub k have "keyed x" by auto
    moreover from that ni have "productId x \<noteq> productId (c ! i)"
      by (metis imageI)
    ultimately show ?thesis using pi by (simp add: keyed_matches)
  qed
  then show "findIndex (matches (productId (c ! i))) ?c' = None"
    by (simp add: findIndex_None)
  from ni show "c ! i \<notin> set ?c'" by auto
qed

lemma positive_removed: "positive c \<Longrightarrow> positive (take i c @ drop (Suc i) c)"
  by (auto simp: positive_def dest: in_set_takeD in_set_dropD)

lemma positive_set: "positive c \<Longrightarrow> 1 \<le> q \<Longrightarrow> positive (c[i := (c ! i)\<lparr>quantity := q\<rparr>])"
  by (auto simp: positive_def dest!: set_update_subset_insert[THEN subsetD])

lemma removeFromCart_positive:
  assumes "positive (cart cs)"
  shows "positive (cart (fst (snd (removeFromCart cs pid w))))"
proof (cases "findIndex (matches pid) (cart cs)")
  case None
  then show ?thesis using assms by (simp add: removeFromCart_missing)
next
  case (Some i)
  then show ?thesis using assms by (simp add: removeFromCart_found(2) positive_removed)
qed

lemma updateQuantity_positive:
  assumes "positive (cart cs)"
  shows "positive (cart (fst (snd (updateQuantity cs pid q w))))"
proof (cases "q < 1")
  case True
  then show ?thesis using assms by (simp add: updateQuantity_low removeFromCart_positive)
next
  case False
  then have q: "1 \<le> q" by simp
  show ?thesis
  proof (cases "findIndex (matches pid) (cart cs)")
    case None
    then show ?thesis using assms q by (simp add: updateQuantity_missing)
  next
    case (Some i)
    show ?thesis
    proof (cases "stock (cart cs ! i) = None \<or> q \<le> the (stock (cart cs ! i))")
      case True
      then show ?thesis using assms q Some by (simp add: updateQuantity_set(2) positive_set)
    next
      case False
      then obtain s where "stock (cart cs ! i) = Some s" "s < q" by auto
      then show ?thesis using assms q Some by (simp add: updateQuantity_over)
    qed
  qed
qed

lemma addToCart_positive:
  assumes "positive (cart cs)"
  shows "positive (cart (fst (snd (addToCart cs p q w))))"
proof (cases "q < 1")
  case True
  then show ?thesis using assms by (simp add: addToCart_low)
next
  case False
  then have q: "1 \<le> q" by simp
  show ?thesis
  proof (cases "p_stock p = None \<or> q \<le> the (p_stock p)")
    case False
    then obtain s where "p_stock p = Some s" "s < q" by auto
    then show ?thesis using assms q by (simp add: addToCart_over)
  next
    case ok: True
    show ?thesis
    proof (cases "findCartItem cs (js_or (p_id p) (p__id p))")
      case None
      then show ?thesis using assms q ok by (simp add: addToCart_new(2) positive_def)
    next
      case (Some x)
      show ?thesis
      proof (cases "p_stock p = None \<or> quantity x + q \<le> the (p_stock p)")
        case True
        with ok have "p_stock p = None \<or> (q \<le> the (p_stock p) \<and> quantity x + q \<le> the (p_stock p))" by auto
        then show ?thesis using assms q Some by (simp add: addToCart_existing updateQuantity_positive)
      next
        case False
        then obtain s where "p_stock p = Some s" "s < quantity x + q" by auto
        moreover from this ok have "q \<le> s" by auto
        ultimately show ?thesis using assms q Some by (simp add: addToCart_existing_over)
      qed
    qed
  qed
qed

lemma clearCart_cart: "cart (fst (clearCart cs w)) = []"
proof -
  obtain cs2 w2 where s: "syncWithBackend (cs\<lparr>cart := []\<rparr>) (saveCart (cs\<lparr>cart := []\<rparr>) w) = (cs2, w2)"
    by (cases "syncWithBackend (cs\<lparr>cart := []\<rparr>) (saveCart (cs\<lparr>cart := []\<rparr>) w)")
  from sync_local(1)[OF s] s show ?thesis by (simp add: clearCart_def Let_def)
qed

lemma merge_item_positive:
  assumes "positive c" "1 \<le> quantity b"
  shows "positive (merge_item c b)"
proof (cases "findIndex (matches (productId b)) c")
  case None
  then show ?thesis using assms by (simp add: merge_item_def positive_def)
next
  case (Some i)
  then show ?thesis using positive_set[OF assms, of i] by (simp add: merge_item_def)
qed

lemma merge_positive: "positive c \<Longrightarrow> positive bs \<Longrightarrow> positive (foldl merge_item c bs)"
proof (induction bs arbitrary: c)
  case Nil
  then show ?case by simp
next
  case (Cons b bs)
  from Cons.prems have b: "1 \<le> quantity b" and bs: "positive bs" by (simp_all add: positive_def)
  from merge_item_positive[OF Cons.prems(1) b] bs have "positive (merge_item c b)" "positive bs"
    by simp_all
  then show ?case using Cons.IH by simp
qed

lemma loadFromBackend_cart:
  "cart (fst (loadFromBackend cs w)) =
     (case api_get (cs_api cs) EpCart True w of
        (Inr response, w') \<Rightarrow>
          (if d_success response then
             (case d_cart response of
                None \<Rightarrow> cart cs
              | Some None \<Rightarrow> cart cs
              | Some (Some items) \<Rightarrow> foldl merge_item (cart cs) items)
           else cart cs)
      | (Inl e, w') \<Rightarrow> cart cs)"
  by (auto simp: loadFromBackend_def Let_def split: prod.splits sum.splits option.splits)

lemma isInCart_findIndex: "isInCart cs pid \<longleftrightarrow> findIndex (matches pid) (cart cs) \<noteq> None"
  by (simp add: isInCart_def findCartItem_def find_findIndex)

text \<open>
  C5, as the code has it. \<^verbatim>\<open>updateQuantity\<close> with a quantity below 1 removes the line that
  \<^verbatim>\<open>findCartItem\<close> designates, and in a cart with one line per product that line is gone
  afterwards. Quantities of at least 1 are kept by \<^verbatim>\<open>addToCart\<close>, \<^verbatim>\<open>updateQuantity\<close>,
  \<^verbatim>\<open>removeFromCart\<close> and \<^verbatim>\<open>clearCart\<close> on every input, and by \<^verbatim>\<open>loadFromBackend\<close> when the
  lines the backend sends have quantities of at least 1: the merge copies the backend
  quantities unchecked.
\<close>

theorem quantity_floor_with_positive_backend:
  "(q < 1 \<and> findIndex (matches pid) (cart cs) = Some i \<longrightarrow>
      fst (updateQuantity cs pid q w) = Inr True \<and>
      cart (fst (snd (updateQuantity cs pid q w))) = take i (cart cs) @ drop (Suc i) (cart cs)) \<and>
   (q < 1 \<and> unique_lines (cart cs) \<and> x \<in> set (cart cs) \<longrightarrow>
      x \<notin> set (cart (fst (snd (updateQuantity cs (productId x) q w)))) \<and>
      \<not> isInCart (fst (snd (updateQuantity cs (productId x) q w))) (productId x)) \<and>
   (positive (cart cs) \<longrightarrow>
      positive (cart (fst (snd (addToCart cs p q w)))) \<and>
      positive (cart (fst (snd (updateQuantity cs pid q w)))) \<and>
      positive (cart (fst (snd (removeFromCart cs pid w)))) \<and>
      positive (cart (fst (clearCart cs w)))) \<and>
   (positive (cart cs) \<and>
    (\<forall>response w' items.
        api_get (cs_api cs) EpCart True w = (Inr response, w') \<and> d_cart response = Some (Some items)
        \<longrightarrow> positive items) \<longrightarrow>
      positive (cart (fst (loadFromBackend cs w))))"
proof (intro conjI impI)
  assume a: "q < 1 \<and> findIndex (matches pid) (cart cs) = Some i"
  then show "fst (updateQuantity cs pid q w) = Inr True"
    by (simp add: updateQuantity_low removeFromCart_found(1))
  from a show "cart (fst (snd (updateQuantity cs pid q w))) = take i (cart cs) @ drop (Suc i) (cart cs)"
    by (simp add: updateQuantity_low removeFromCart_found(2))
next
  assume a: "q < 1 \<and> unique_lines (cart cs) \<and> x \<in> set (cart cs)"
  then obtain i where i: "findIndex (matches (productId x)) (cart cs) = Some i" "cart cs ! i = x"
    using unique_lines_find by blast
  from findIndex_Some[OF i(1)] have il: "i < length (cart cs)" by simp
  from a i have c: "cart (fst (snd (updateQuantity cs (productId x) q w))) =
      take i (cart cs) @ drop (Suc i) (cart cs)"
    by (simp add: updateQuantity_low removeFromCart_found(2))
  from a il i(2) unique_lines_removed(3)[of "cart cs" i] c
  show "x \<notin> set (cart (fst (snd (updateQuantity cs (productId x) q w))))" by simp
  from a il i(2) unique_lines_removed(2)[of "cart cs" i] c
  show "\<not> isInCart (fst (snd (updateQuantity cs (productId x) q w))) (productId x)"
    by (simp add: isInCart_findIndex)
next
  assume a: "positive (cart cs)"
  then show "positive (cart (fst (snd (addToCart cs p q w))))" by (rule addToCart_positive)
  from a show "positive (cart (fst (snd (updateQuantity cs pid q w))))" by (rule updateQuantity_positive)
  from a show "positive (cart (fst (snd (removeFromCart cs pid w))))" by (rule removeFromCart_positive)
  show "positive (cart (fst (clearCart cs w)))" by (simp add: clearCart_cart positive_def)
next
  assume a: "positive (cart cs) \<and>
    (\<forall>response w' items.
        api_get (cs_api cs) EpCart True w = (Inr response, w') \<and> d_cart response = Some (Some items)
        \<longrightarrow> positive items)"
  then show "positive (cart (fst (loadFromBackend cs w)))"
    by (auto simp: loadFromBackend_cart merge_positive split: prod.splits sum.splits option.splits)
qed

lemma get_remote_cart:
  "api_get guest_api EpCart True (backend_answers items) =
     (Inr (success_only\<lparr>d_cart := Some (Some items)\<rparr>),
      w0\<lparr>requests := [\<lparr> r_method = GET, r_url = EpCart, r_auth = None, r_body = NoBody \<rparr>]\<rparr>)"
  by (simp add: api_get_def guest_api_def new_APIService_def w0_def retryRequest_def attempt_def
      fetchWithTimeout_def handleResponse_def ok_def getHeaders_def truthy_def numeral_3_eq_3
      backend_answers_def remote_cart_def)

text \<open>
  C5 as stated fails for the merge: the backend reports quantity 0 for a line the cart
  holds with quantity 2, and after \<^verbatim>\<open>loadFromBackend\<close> the cart holds it with quantity 0.
\<close>

theorem backend_zero_quantity_enters_cart:
  "map quantity (cart (cart_of [wig_line 2])) = [2] \<and>
   map quantity (cart (fst (loadFromBackend (cart_of [wig_line 2]) (backend_answers [wig_line 0])))) = [0]"
  by (simp add: loadFromBackend_cart cart_of_def get_remote_cart success_only_def merge_item_def
      matches_def wig_line_def)

text \<open>The quantity floor on a cart of two wigs, and a merge with a backend line of quantity 4.\<close>

theorem quantity_floor_with_positive_backend_witness:
  "fst (updateQuantity (cart_of [wig_line 2]) (Some ''wig-1'') 0 w0) = Inr True \<and>
   cart (fst (snd (updateQuantity (cart_of [wig_line 2]) (Some ''wig-1'') 0 w0))) = [] \<and>
   \<not> isInCart (fst (snd (updateQuantity (cart_of [wig_line 2]) (Some ''wig-1'') 0 w0))) (Some ''wig-1'') \<and>
   positive (cart (fst (snd (addToCart (cart_of [wig_line 2]) wig 0 w0)))) \<and>
   positive (cart (fst (snd (removeFromCart (cart_of [wig_line 2]) (Some ''wig-1'') w0)))) \<and>
   positive (cart (fst (clearCart (cart_of [wig_line 2]) w0))) \<and>
   positive (cart (fst (loadFromBackend (cart_of [wig_line 2]) (backend_answers [wig_line 4]))))"
proof -
  have u: "unique_lines (cart (cart_of [wig_line 2]))" "positive (cart (cart_of [wig_line 2]))"
    "wig_line 2 \<in> set (cart (cart_of [wig_line 2]))" "productId (wig_line 2) = Some ''wig-1''"
    "cart (cart_of [wig_line 2]) = [wig_line 2]" "positive [wig_line 4]"
    by (simp_all add: unique_lines_def keyed_def positive_def cart_of_def wig_line_def)
  have g: "cs_api (cart_of [wig_line 2]) = guest_api" by (simp add: cart_of_def)
  show ?thesis
    using quantity_floor_with_positive_backend[of 0 "Some ''wig-1''" "cart_of [wig_line 2]" 0 w0 "wig_line 2" wig]
      quantity_floor_with_positive_backend[of 0 "Some ''wig-1''" "cart_of [wig_line 2]" 0
        "backend_answers [wig_line 4]" "wig_line 2" wig]
      wig_found u
    by (simp add: g get_remote_cart success_only_def)
qed

lemma unique_lines_findIndex:
  assumes u: "unique_lines c" and p: "pid \<noteq> None"
  shows "findIndex (matches pid) c = Some i \<longleftrightarrow> i < length c \<and> productId (c ! i) = pid"
proof
  assume f: "findIndex (matches pid) c = Some i"
  from findIndex_Some[OF f] have "i < length c" "matches pid (c ! i)" by auto
  moreover from this u have "keyed (c ! i)" by (simp add: unique_lines_def)
  ultimately show "i < length c \<and> productId (c ! i) = pid" using p by (simp add: keyed_matches)
next
  assume a: "i < length c \<and> productId (c ! i) = pid"
  then have "c ! i \<in> set c" by simp
  from unique_lines_find[OF u this] a obtain j where j: "findIndex (matches pid) c = Some j" "c ! j = c ! i"
    by auto
  from findIndex_Some[OF j(1)] have "j < length c" by simp
  moreover from u have "distinct (map productId c)" by (simp add: unique_lines_def)
  ultimately have "j = i" using a j(2) by (metis length_map nth_eq_iff_index_eq nth_map)
  with j show "findIndex (matches pid) c = Some i" by simp
qed

lemma unique_lines_findIndex_None:
  assumes u: "unique_lines c" and p: "pid \<noteq> None"
  shows "findIndex (matches pid) c = None \<longleftrightarrow> pid \<notin> productId ` set c"
proof -
  from u have "\<forall>x\<in>set c. matches pid x \<longleftrightarrow> productId x = pid"
    using p by (simp add: unique_lines_def keyed_matches)
  then show ?thesis by (auto simp: findIndex_None)
qed

lemma requantified_ids: "map productId (c[i := (c ! i)\<lparr>quantity := q\<rparr>]) = map productId c"
proof (cases "i < length c")
  case True
  then show ?thesis by (simp add: map_update list_update_same_conv)
next
  case False
  then have "length c \<le> i" by simp
  then show ?thesis by (simp only: list_update_beyond)
qed

lemma unique_lines_requantified:
  "unique_lines c \<Longrightarrow> unique_lines (c[i := (c ! i)\<lparr>quantity := q\<rparr>])"
proof -
  assume u: "unique_lines c"
  have m: "map productId (c[i := (c ! i)\<lparr>quantity := q\<rparr>]) = map productId c"
    by (rule requantified_ids)
  have "keyed x" if "x \<in> set (c[i := (c ! i)\<lparr>quantity := q\<rparr>])" for x
  proof -
    from that have "x = (c ! i)\<lparr>quantity := q\<rparr> \<and> i < length c \<or> x \<in> set c"
      by (metis set_update_subset_insert subsetD insertE list_update_beyond linorder_not_le)
    with u show ?thesis by (auto simp: unique_lines_def keyed_def)
  qed
  with u m show ?thesis by (simp add: unique_lines_def)
qed

lemma unique_lines_pushed:
  assumes "unique_lines c" "keyed b" "productId b \<notin> productId ` set c"
  shows "unique_lines (c @ [b])"
  using assms by (auto simp: unique_lines_def)

lemma find_absent: "pid \<notin> productId ` set bs \<Longrightarrow> find (\<lambda>r. productId r = pid) bs = None"
  by (auto simp: find_None_iff)

lemma merge_closed_form:
  assumes "unique_lines c" "unique_lines remote"
  shows "foldl merge_item c remote = map (remote_wins remote) c @ remote_only c remote"
  using assms
proof (induction remote arbitrary: c)
  case Nil
  show ?case by (simp add: remote_wins_def remote_only_def)
next
  case (Cons b bs)
  from Cons.prems(2) have kb: "keyed b" and pb: "productId b \<noteq> None"
    and nb: "productId b \<notin> productId ` set bs" and ubs: "unique_lines bs"
    by (auto simp: unique_lines_def keyed_def)
  show ?case
  proof (cases "findIndex (matches (productId b)) c")
    case None
    with Cons.prems(1) pb have absent: "productId b \<notin> productId ` set c"
      by (simp add: unique_lines_findIndex_None)
    have step: "merge_item c b = c @ [b]" using None by (simp add: merge_item_def)
    have u': "unique_lines (c @ [b])" using Cons.prems(1) kb absent by (rule unique_lines_pushed)
    have same: "map (remote_wins (b # bs)) c = map (remote_wins bs) c"
      using absent by (auto simp: remote_wins_def)
    have bb: "remote_wins bs b = b" using nb by (simp add: remote_wins_def find_absent)
    have "\<forall>x\<in>set bs. productId x \<noteq> productId b" using nb by (metis image_eqI)
    then have ro: "remote_only (c @ [b]) bs = remote_only c bs"
      by (auto simp: remote_only_def intro!: filter_cong)
    have ro': "remote_only c (b # bs) = b # remote_only c bs"
      using absent by (simp add: remote_only_def)
    show ?thesis using Cons.IH[OF u' ubs] step same bb ro ro' by simp
  next
    case (Some i)
    with Cons.prems(1) pb have i: "i < length c" "productId (c ! i) = productId b"
      by (simp_all add: unique_lines_findIndex)
    let ?c' = "c[i := (c ! i)\<lparr>quantity := quantity b\<rparr>]"
    have step: "merge_item c b = ?c'" using Some by (simp add: merge_item_def)
    have u': "unique_lines ?c'" using Cons.prems(1) by (rule unique_lines_requantified)
    have ids: "map productId ?c' = map productId c"
      by (rule requantified_ids)
    then have "productId ` set ?c' = productId ` set c" by (metis set_map)
    then have ro: "remote_only ?c' bs = remote_only c bs" by (simp add: remote_only_def)
    have present: "productId b \<in> productId ` set c" using i by (metis imageI nth_mem)
    then have ro': "remote_only c (b # bs) = remote_only c bs" by (simp add: remote_only_def)
    from Cons.prems(1) have d: "distinct (map productId c)" by (simp add: unique_lines_def)
    have "map (remote_wins bs) ?c' = map (remote_wins (b # bs)) c"
    proof (rule nth_equalityI)
      show "length (map (remote_wins bs) ?c') = length (map (remote_wins (b # bs)) c)" by simp
    next
      fix j assume "j < length (map (remote_wins bs) ?c')"
      then have j: "j < length c" by simp
      show "map (remote_wins bs) ?c' ! j = map (remote_wins (b # bs)) c ! j"
      proof (cases "j = i")
        case True
        have "remote_wins bs ((c ! i)\<lparr>quantity := quantity b\<rparr>) = (c ! i)\<lparr>quantity := quantity b\<rparr>"
          using nb i(2) by (simp add: remote_wins_def find_absent)
        moreover have "remote_wins (b # bs) (c ! i) = (c ! i)\<lparr>quantity := quantity b\<rparr>"
          using i(2) by (simp add: remote_wins_def)
        ultimately show ?thesis using True i(1) by simp
      next
        case False
        with d j i have "productId (c ! j) \<noteq> productId b"
          by (metis length_map nth_eq_iff_index_eq nth_map)
        then have "remote_wins (b # bs) (c ! j) = remote_wins bs (c ! j)"
          by (auto simp: remote_wins_def)
        then show ?thesis using False j by simp
      qed
    qed
    then show ?thesis using Cons.IH[OF u' ubs] step ro ro' by simp
  qed
qed

lemma find_distinct:
  "distinct (map f xs) \<Longrightarrow> r \<in> set xs \<Longrightarrow> find (\<lambda>x. f x = f r) xs = Some r"
  by (induction xs) (auto simp: image_iff)

lemma loadFromBackend_merged:
  assumes "api_get (cs_api cs) EpCart True w = (Inr response, w')"
    and "d_success response" "d_cart response = Some (Some remote)"
  shows "cart (fst (loadFromBackend cs w)) = foldl merge_item (cart cs) remote"
    and "ls_cart (snd (loadFromBackend cs w)) = Some (foldl merge_item (cart cs) remote)"
  using assms by (simp_all add: loadFromBackend_def Let_def saveCart_def)

lemma merge_item_keeps:
  assumes "i < length c"
  shows "i < length (merge_item c b)"
    and "\<exists>q. merge_item c b ! i = (c ! i)\<lparr>quantity := q\<rparr>"
    and "\<not> matches (productId b) (c ! i) \<Longrightarrow> merge_item c b ! i = c ! i"
proof -
  show "i < length (merge_item c b)"
    using assms by (simp add: merge_item_def split: option.split)
  show "\<exists>q. merge_item c b ! i = (c ! i)\<lparr>quantity := q\<rparr>"
  proof (cases "findIndex (matches (productId b)) c")
    case None
    then have "merge_item c b ! i = (c ! i)\<lparr>quantity := quantity (c ! i)\<rparr>"
      using assms by (simp add: merge_item_def nth_append)
    then show ?thesis by blast
  next
    case (Some j)
    show ?thesis
    proof (cases "j = i")
      case True
      with Some assms have "merge_item c b ! i = (c ! i)\<lparr>quantity := quantity b\<rparr>"
        by (simp add: merge_item_def)
      then show ?thesis by blast
    next
      case False
      with Some assms have "merge_item c b ! i = (c ! i)\<lparr>quantity := quantity (c ! i)\<rparr>"
        by (simp add: merge_item_def)
      then show ?thesis by blast
    qed
  qed
  show "merge_item c b ! i = c ! i" if n: "\<not> matches (productId b) (c ! i)"
  proof (cases "findIndex (matches (productId b)) c")
    case None
    then show ?thesis using assms by (simp add: merge_item_def nth_append)
  next
    case (Some j)
    from findIndex_Some[OF Some] n have "j \<noteq> i" by auto
    with Some show ?thesis by (simp add: merge_item_def)
  qed
qed

lemma merge_keeps_lines:
  "i < length c \<Longrightarrow>
   i < length (foldl merge_item c bs) \<and>
   (\<exists>q. foldl merge_item c bs ! i = (c ! i)\<lparr>quantity := q\<rparr>) \<and>
   ((\<forall>b\<in>set bs. \<not> matches (productId b) (c ! i)) \<longrightarrow> foldl merge_item c bs ! i = c ! i)"
proof (induction bs arbitrary: c)
  case Nil
  have "c ! i = (c ! i)\<lparr>quantity := quantity (c ! i)\<rparr>" by simp
  then have "\<exists>q. c ! i = (c ! i)\<lparr>quantity := q\<rparr>" by blast
  with Nil show ?case by simp
next
  case (Cons b bs)
  note k = merge_item_keeps[OF Cons.prems, of b]
  note ih = Cons.IH[OF k(1)]
  from k(2) obtain q where q: "merge_item c b ! i = (c ! i)\<lparr>quantity := q\<rparr>" by blast
  from ih obtain q' where
    "foldl merge_item (merge_item c b) bs ! i = (merge_item c b ! i)\<lparr>quantity := q'\<rparr>" by blast
  with q have "foldl merge_item c (b # bs) ! i = (c ! i)\<lparr>quantity := q'\<rparr>" by simp
  then have two: "\<exists>q. foldl merge_item c (b # bs) ! i = (c ! i)\<lparr>quantity := q\<rparr>" by blast
  have three: "foldl merge_item c (b # bs) ! i = c ! i"
    if n: "\<forall>b'\<in>set (b # bs). \<not> matches (productId b') (c ! i)"
  proof -
    from n have nb: "\<not> matches (productId b) (c ! i)" by simp
    from k(3)[OF nb] have e: "merge_item c b ! i = c ! i" .
    with n have "\<forall>b'\<in>set bs. \<not> matches (productId b') (merge_item c b ! i)" by simp
    with ih e show ?thesis by simp
  qed
  from ih two three show ?case by simp
qed

text \<open>
  C2. After \<^verbatim>\<open>loadFromBackend\<close> has fetched a cart: for carts with one line per product id, a
  local line whose product id a backend line carries stays in its place with the backend
  quantity, a backend line whose product id the cart does not hold is appended after the
  local lines, and a local line whose product id the backend does not carry is unchanged.
  For all carts, every local line keeps its place and everything but its quantity, a local
  line that no backend line's \<^verbatim>\<open>productId\<close> finds is unchanged, and the merged cart is saved.
\<close>

theorem backend_merge_remote_wins:
  "api_get (cs_api cs) EpCart True w = (Inr response, w') \<Longrightarrow>
   d_success response \<Longrightarrow> d_cart response = Some (Some remote) \<Longrightarrow>
   (unique_lines (cart cs) \<and> unique_lines remote \<longrightarrow>
      (\<forall>r\<in>set remote. \<forall>i<length (cart cs). productId (cart cs ! i) = productId r \<longrightarrow>
         cart (fst (loadFromBackend cs w)) ! i = (cart cs ! i)\<lparr>quantity := quantity r\<rparr>) \<and>
      (\<forall>r\<in>set remote. productId r \<notin> productId ` set (cart cs) \<longrightarrow>
         r \<in> set (drop (length (cart cs)) (cart (fst (loadFromBackend cs w))))) \<and>
      (\<forall>i<length (cart cs). productId (cart cs ! i) \<notin> productId ` set remote \<longrightarrow>
         cart (fst (loadFromBackend cs w)) ! i = cart cs ! i)) \<and>
   (\<forall>i<length (cart cs). (\<forall>r\<in>set remote. \<not> matches (productId r) (cart cs ! i)) \<longrightarrow>
      cart (fst (loadFromBackend cs w)) ! i = cart cs ! i) \<and>
   (\<forall>i<length (cart cs). \<exists>q. cart (fst (loadFromBackend cs w)) ! i = (cart cs ! i)\<lparr>quantity := q\<rparr>) \<and>
   length (cart cs) \<le> length (cart (fst (loadFromBackend cs w))) \<and>
   ls_cart (snd (loadFromBackend cs w)) = Some (cart (fst (loadFromBackend cs w)))"
proof -
  assume get: "api_get (cs_api cs) EpCart True w = (Inr response, w')"
    and ok: "d_success response" "d_cart response = Some (Some remote)"
  let ?m = "cart (fst (loadFromBackend cs w))"
  note f = loadFromBackend_merged[OF get ok]
  have uniq: "(\<forall>r\<in>set remote. \<forall>i<length (cart cs). productId (cart cs ! i) = productId r \<longrightarrow>
         ?m ! i = (cart cs ! i)\<lparr>quantity := quantity r\<rparr>) \<and>
      (\<forall>r\<in>set remote. productId r \<notin> productId ` set (cart cs) \<longrightarrow>
         r \<in> set (drop (length (cart cs)) ?m)) \<and>
      (\<forall>i<length (cart cs). productId (cart cs ! i) \<notin> productId ` set remote \<longrightarrow>
         ?m ! i = cart cs ! i)"
    if u: "unique_lines (cart cs)" "unique_lines remote"
  proof -
    have m: "?m = map (remote_wins remote) (cart cs) @ remote_only (cart cs) remote"
      using f(1) merge_closed_form[OF u] by simp
    from u(2) have d: "distinct (map productId remote)" by (simp add: unique_lines_def)
    have a: "?m ! i = (cart cs ! i)\<lparr>quantity := quantity r\<rparr>"
      if "r \<in> set remote" "i < length (cart cs)" "productId (cart cs ! i) = productId r" for r i
      using that m find_distinct[OF d that(1)] by (simp add: nth_append remote_wins_def)
    have b: "r \<in> set (drop (length (cart cs)) ?m)"
      if "r \<in> set remote" "productId r \<notin> productId ` set (cart cs)" for r
      using that m by (simp add: remote_only_def)
    have c: "?m ! i = cart cs ! i"
      if "i < length (cart cs)" "productId (cart cs ! i) \<notin> productId ` set remote" for i
      using that m by (simp add: nth_append remote_wins_def find_absent)
    from a b c show ?thesis by blast
  qed
  have keep: "?m ! i = cart cs ! i"
    if "i < length (cart cs)" "\<forall>r\<in>set remote. \<not> matches (productId r) (cart cs ! i)" for i
    using merge_keeps_lines[OF that(1), of remote] that(2) f(1) by simp
  have place: "\<exists>q. ?m ! i = (cart cs ! i)\<lparr>quantity := q\<rparr>" if "i < length (cart cs)" for i
    using merge_keeps_lines[OF that, of remote] f(1) by simp
  have l: "length (cart cs) \<le> length ?m"
  proof (cases "cart cs")
    case Nil
    then show ?thesis by simp
  next
    case (Cons x xs)
    then have p: "length (cart cs) - 1 < length (cart cs)" by simp
    from merge_keeps_lines[OF p, of remote]
    have "length (cart cs) - 1 < length (foldl merge_item (cart cs) remote)" by blast
    with p f(1) show ?thesis by simp
  qed
  have s: "ls_cart (snd (loadFromBackend cs w)) = Some ?m" using f by simp
  from uniq keep place l s show ?thesis by blast
qed

text \<open>
  Local wig with quantity 3 and local cap; the backend holds the wig with quantity 5 and a
  bundle: the wig gets quantity 5, the cap stays, the bundle is appended.
\<close>

theorem backend_merge_remote_wins_witness:
  "cart (fst (loadFromBackend (cart_of [wig_line 3, hat_line 1]) (backend_answers [wig_line 5, bundle_line 2]))) ! 0
     = wig_line 5 \<and>
   cart (fst (loadFromBackend (cart_of [wig_line 3, hat_line 1]) (backend_answers [wig_line 5, bundle_line 2]))) ! 1
     = hat_line 1 \<and>
   bundle_line 2 \<in> set (drop 2 (cart (fst (loadFromBackend (cart_of [wig_line 3, hat_line 1])
        (backend_answers [wig_line 5, bundle_line 2])))))"
proof -
  let ?cs = "cart_of [wig_line 3, hat_line 1]"
  let ?remote = "[wig_line 5, bundle_line 2]"
  have get: "api_get (cs_api ?cs) EpCart True (backend_answers ?remote) =
     (Inr (success_only\<lparr>d_cart := Some (Some ?remote)\<rparr>),
      w0\<lparr>requests := [\<lparr> r_method = GET, r_url = EpCart, r_auth = None, r_body = NoBody \<rparr>]\<rparr>)"
    using get_remote_cart[of ?remote] by (simp add: cart_of_def)
  have ok: "d_success (success_only\<lparr>d_cart := Some (Some ?remote)\<rparr>)"
    "d_cart (success_only\<lparr>d_cart := Some (Some ?remote)\<rparr>) = Some (Some ?remote)"
    by (simp_all add: success_only_def)
  have u: "unique_lines (cart ?cs)" "unique_lines ?remote"
    by (simp_all add: unique_lines_def keyed_def cart_of_def wig_line_def hat_line_def bundle_line_def)
  have v: "cart ?cs = [wig_line 3, hat_line 1]" "(wig_line 3)\<lparr>quantity := quantity (wig_line 5)\<rparr> = wig_line 5"
    "productId (wig_line 3) = productId (wig_line 5)"
    "productId (hat_line 1) \<notin> productId ` set ?remote"
    "productId (bundle_line 2) \<notin> productId ` set [wig_line 3, hat_line 1]"
    by (simp_all add: cart_of_def wig_line_def hat_line_def bundle_line_def)
  from backend_merge_remote_wins[OF get ok] u v show ?thesis
    by (simp add: All_less_Suc2 numeral_2_eq_2)
qed

text \<open>
  C2 as stated fails for a backend line without a \<^verbatim>\<open>productId\<close>: the cart holds three wigs,
  the backend holds seven bundles under an \<^verbatim>\<open>id\<close> of its own, and after
  \<^verbatim>\<open>loadFromBackend\<close> the cart holds seven wigs and no bundle. \<^verbatim>\<open>findCartItem\<close> with an
  undefined id finds the first line without an \<^verbatim>\<open>id\<close>, here the wig.
\<close>

theorem backend_line_without_product_id_overwrites:
  "cart (cart_of [wig_line 3]) = [wig_line 3] \<and>
   productId (variant_only_line 7) \<noteq> productId (wig_line 3) \<and>
   item_id (variant_only_line 7) \<noteq> item_id (wig_line 3) \<and>
   name (variant_only_line 7) \<noteq> name (wig_line 3) \<and>
   cart (fst (loadFromBackend (cart_of [wig_line 3]) (backend_answers [variant_only_line 7]))) = [wig_line 7] \<and>
   variant_only_line 7 \<notin> set (cart (fst (loadFromBackend (cart_of [wig_line 3])
     (backend_answers [variant_only_line 7]))))"
  by (simp add: loadFromBackend_cart cart_of_def get_remote_cart success_only_def merge_item_def
      matches_def wig_line_def variant_only_line_def)

















section \<open>Properties of the checkout service\<close>

lemmas round64_eval = round64_def ilog2_def bitlen.simps pow2_def round_even_def Let_def

lemma calculateTotals_fields:
  "t_shipping (calculateTotals cfg co) = calculateShipping cfg co (shippingMethod (checkoutData co))"
  "t_vat (calculateTotals cfg co) =
     num_mul (num_sub (getCartSubtotal (co_cart co))
                (if num_truthy (discount (checkoutData co)) then discount (checkoutData co) else Fin 0))
       (VAT_RATE cfg)"
  "t_total (calculateTotals cfg co) =
     num_add
       (num_add
          (num_sub (getCartSubtotal (co_cart co))
             (if num_truthy (discount (checkoutData co)) then discount (checkoutData co) else Fin 0))
          (t_vat (calculateTotals cfg co)))
       (t_shipping (calculateTotals cfg co))"
  by (simp_all add: calculateTotals_def Let_def)

text \<open>
  C6, as the code has it. Shipping is free when the cart subtotal before the discount reaches
  the threshold; below it the standard cost is charged (the express cost, or nothing for
  pickup, when that method is selected). The VAT is the discounted subtotal times the VAT
  rate and the total is the discounted subtotal plus the VAT plus the shipping, each
  operation rounded to a double. With the rate \<^verbatim>\<open>0.15\<close>, the standard method and amounts up
  to \<open>2 ^ 29\<close> the total is finite and within a millionth of the discounted subtotal times
  1.15 plus the shipping.
\<close>

theorem totals_estimate_threshold_on_cart_subtotal:
  "t_shipping (calculateTotals cfg co) =
     (if num_ge (getCartSubtotal (co_cart co)) (FREE_THRESHOLD cfg) then Fin 0
      else if shippingMethod (checkoutData co) = ''express'' then EXPRESS_COST cfg
      else if shippingMethod (checkoutData co) = ''pickup'' then Fin 0
      else STANDARD_COST cfg) \<and>
   t_vat (calculateTotals cfg co) =
     num_mul (num_sub (getCartSubtotal (co_cart co))
                (if num_truthy (discount (checkoutData co)) then discount (checkoutData co) else Fin 0))
       (VAT_RATE cfg) \<and>
   t_total (calculateTotals cfg co) =
     num_add
       (num_add
          (num_sub (getCartSubtotal (co_cart co))
             (if num_truthy (discount (checkoutData co)) then discount (checkoutData co) else Fin 0))
          (t_vat (calculateTotals cfg co)))
       (t_shipping (calculateTotals cfg co)) \<and>
   (VAT_RATE cfg = round64 (15 / 100) \<and> STANDARD_COST cfg = Fin c \<and>
    shippingMethod (checkoutData co) = ''standard'' \<and>
    getCartSubtotal (co_cart co) = Fin s \<and> discount (checkoutData co) = Fin d \<and>
    \<bar>s\<bar> \<le> 2 ^ 29 \<and> \<bar>d\<bar> \<le> 2 ^ 29 \<and> \<bar>c\<bar> \<le> 2 ^ 29 \<longrightarrow>
      (\<exists>t. t_total (calculateTotals cfg co) = Fin t \<and>
           \<bar>t - ((s - d) * (115 / 100) +
                  (if num_ge (Fin s) (FREE_THRESHOLD cfg) then 0 else c))\<bar> \<le> 1 / 10 ^ 6))"
proof (intro conjI impI)
  show "t_shipping (calculateTotals cfg co) =
     (if num_ge (getCartSubtotal (co_cart co)) (FREE_THRESHOLD cfg) then Fin 0
      else if shippingMethod (checkoutData co) = ''express'' then EXPRESS_COST cfg
      else if shippingMethod (checkoutData co) = ''pickup'' then Fin 0
      else STANDARD_COST cfg)"
    by (simp add: calculateTotals_fields calculateShipping_def Let_def)
  show "t_vat (calculateTotals cfg co) =
     num_mul (num_sub (getCartSubtotal (co_cart co))
                (if num_truthy (discount (checkoutData co)) then discount (checkoutData co) else Fin 0))
       (VAT_RATE cfg)"
    by (rule calculateTotals_fields)
  show "t_total (calculateTotals cfg co) =
     num_add
       (num_add
          (num_sub (getCartSubtotal (co_cart co))
             (if num_truthy (discount (checkoutData co)) then discount (checkoutData co) else Fin 0))
          (t_vat (calculateTotals cfg co)))
       (t_shipping (calculateTotals cfg co))"
    by (rule calculateTotals_fields)
next
  assume a: "VAT_RATE cfg = round64 (15 / 100) \<and> STANDARD_COST cfg = Fin c \<and>
    shippingMethod (checkoutData co) = ''standard'' \<and>
    getCartSubtotal (co_cart co) = Fin s \<and> discount (checkoutData co) = Fin d \<and>
    \<bar>s\<bar> \<le> 2 ^ 29 \<and> \<bar>d\<bar> \<le> 2 ^ 29 \<and> \<bar>c\<bar> \<le> 2 ^ 29"
  let ?sh = "if num_ge (Fin s) (FREE_THRESHOLD cfg) then 0 else c"
  have sh: "t_shipping (calculateTotals cfg co) = Fin ?sh"
    using a by (simp add: calculateTotals_fields calculateShipping_def Let_def)
  have dd: "(if num_truthy (discount (checkoutData co)) then discount (checkoutData co) else Fin 0) = Fin d"
    using a by simp
  from a have b: "\<bar>s\<bar> \<le> 2 ^ 29" "\<bar>d\<bar> \<le> 2 ^ 29" "\<bar>?sh\<bar> \<le> 2 ^ 29" by simp_all
  from totals_near[OF b] obtain t where
    t: "num_add (num_add (num_sub (Fin s) (Fin d))
          (num_mul (num_sub (Fin s) (Fin d)) (round64 (15 / 100)))) (Fin ?sh) = Fin t"
       "\<bar>t - ((s - d) * (115 / 100) + ?sh)\<bar> \<le> 1 / 10 ^ 6" by blast
  have "t_total (calculateTotals cfg co) = Fin t"
    using a t(1) sh dd by (simp only: calculateTotals_fields)
  with t(2) show "\<exists>t. t_total (calculateTotals cfg co) = Fin t \<and>
           \<bar>t - ((s - d) * (115 / 100) +
                  (if num_ge (Fin s) (FREE_THRESHOLD cfg) then 0 else c))\<bar> \<le> 1 / 10 ^ 6"
    by blast
qed

lemma subtotals:
  "getCartSubtotal (cart_of [priced_line (Fin 800) 2]) = Fin 1600"
  "getCartSubtotal (cart_of [priced_line (Fin 1000) 1]) = Fin 1000"
  by (simp_all add: getCartSubtotal_def cart_of_def priced_line_def unit_price_def num_of_int_def
      round64_eval)

lemma cents_subtotal:
  "getCartSubtotal (cart_of [priced_line (round64 (7757 / 100)) 13, priced_line (round64 (49159 / 100)) 1]) =
     Fin (6597069766655999 / 2 ^ 42)"
  by (simp add: getCartSubtotal_def cart_of_def priced_line_def unit_price_def num_of_int_def
      round64_eval)

lemma checkout_of_data:
  "discount (checkoutData (checkout_of c d)) = d"
  "shippingMethod (checkoutData (checkout_of c d)) = ''standard''"
  "co_cart (checkout_of c d) = cart_of c"
  by (simp_all add: checkout_of_def getDefaultCheckoutData_def)

lemma config_values:
  "VAT_RATE APP_CONFIG = Fin (5404319552844595 / 2 ^ 55)" "FREE_THRESHOLD APP_CONFIG = Fin 1500"
  "STANDARD_COST APP_CONFIG = Fin 150" "EXPRESS_COST APP_CONFIG = Fin 250"
  by (simp_all add: APP_CONFIG_def round64_eval)

text \<open>
  C6 as stated fails when the discount takes the subtotal below the threshold: for a cart
  of 1600 and a discount of 200 the code ships for free and totals 1610, where the
  claim's formula charges 150 for shipping and gives 1760.
\<close>

theorem discounted_order_below_threshold_ships_free:
  "getCartSubtotal (co_cart (checkout_of [priced_line (Fin 800) 2] (Fin 200))) = Fin 1600 \<and>
   discount (checkoutData (checkout_of [priced_line (Fin 800) 2] (Fin 200))) = Fin 200 \<and>
   t_shipping (calculateTotals APP_CONFIG (checkout_of [priced_line (Fin 800) 2] (Fin 200))) = Fin 0 \<and>
   t_total (calculateTotals APP_CONFIG (checkout_of [priced_line (Fin 800) 2] (Fin 200))) = Fin 1610 \<and>
   (1600 - 200) * (115 / 100) + (if (1600 - 200 :: real) \<ge> 1500 then 0 else 150) = (1760 :: real)"
  by (simp add: calculateTotals_def calculateShipping_def Let_def subtotals checkout_of_data config_values)
    (simp add: round64_eval)

text \<open>
  The example of the specification, 1000 less 100 giving 1185, and a cart of thirteen
  bundles at 77.57 and one at 491.59: its subtotal in doubles is just below 1500, so the
  standard cost is charged.
\<close>

theorem totals_estimate_threshold_on_cart_subtotal_witness:
  "t_total (calculateTotals APP_CONFIG (checkout_of [priced_line (Fin 1000) 1] (Fin 100))) = Fin 1185 \<and>
   t_vat (calculateTotals APP_CONFIG (checkout_of [priced_line (Fin 1000) 1] (Fin 100))) = Fin 135 \<and>
   t_shipping (calculateTotals APP_CONFIG (checkout_of [priced_line (Fin 1000) 1] (Fin 100))) = Fin 150 \<and>
   (\<exists>t. t_total (calculateTotals APP_CONFIG (checkout_of [priced_line (Fin 1000) 1] (Fin 100))) = Fin t \<and>
        \<bar>t - 1185\<bar> \<le> 1 / 10 ^ 6) \<and>
   getCartSubtotal (cart_of [priced_line (round64 (7757 / 100)) 13, priced_line (round64 (49159 / 100)) 1]) =
     Fin (6597069766655999 / 2 ^ 42) \<and>
   t_shipping (calculateTotals APP_CONFIG
     (checkout_of [priced_line (round64 (7757 / 100)) 13, priced_line (round64 (49159 / 100)) 1] (Fin 0))) =
     Fin 150"
proof -
  let ?co = "checkout_of [priced_line (Fin 1000) 1] (Fin 100)"
  let ?cents = "checkout_of [priced_line (round64 (7757 / 100)) 13, priced_line (round64 (49159 / 100)) 1] (Fin 0)"
  note t = totals_estimate_threshold_on_cart_subtotal[of APP_CONFIG ?co 150 1000 100]
  note u = totals_estimate_threshold_on_cart_subtotal[of APP_CONFIG ?cents 150 0 0]
  have h: "VAT_RATE APP_CONFIG = round64 (15 / 100) \<and> STANDARD_COST APP_CONFIG = Fin 150 \<and>
    shippingMethod (checkoutData ?co) = ''standard'' \<and>
    getCartSubtotal (co_cart ?co) = Fin 1000 \<and> discount (checkoutData ?co) = Fin 100 \<and>
    \<bar>1000 :: real\<bar> \<le> 2 ^ 29 \<and> \<bar>100 :: real\<bar> \<le> 2 ^ 29 \<and> \<bar>150 :: real\<bar> \<le> 2 ^ 29"
    by (simp add: checkout_of_data subtotals) (simp add: APP_CONFIG_def)
  have sh: "t_shipping (calculateTotals APP_CONFIG ?co) = Fin 150"
    by (simp add: t[THEN conjunct1] checkout_of_data subtotals config_values)
  have vat: "t_vat (calculateTotals APP_CONFIG ?co) = Fin 135"
    by (simp add: t[THEN conjunct2, THEN conjunct1] checkout_of_data subtotals config_values round64_eval)
  have tot: "t_total (calculateTotals APP_CONFIG ?co) = Fin 1185"
    by (simp add: t[THEN conjunct2, THEN conjunct2, THEN conjunct1] vat sh checkout_of_data subtotals
        round64_eval)
  from t h have "\<exists>t. t_total (calculateTotals APP_CONFIG ?co) = Fin t \<and>
      \<bar>t - ((1000 - 100) * (115 / 100) + (if num_ge (Fin 1000) (FREE_THRESHOLD APP_CONFIG) then 0 else 150))\<bar>
        \<le> 1 / 10 ^ 6" by blast
  then have near: "\<exists>t. t_total (calculateTotals APP_CONFIG ?co) = Fin t \<and> \<bar>t - 1185\<bar> \<le> 1 / 10 ^ 6"
    by (simp add: config_values)
  have csh: "t_shipping (calculateTotals APP_CONFIG ?cents) = Fin 150"
    by (simp add: u[THEN conjunct1] checkout_of_data cents_subtotal config_values)
  from tot vat sh near cents_subtotal csh show ?thesis by blast
qed

lemma attempt_requests: "requests (snd (attempt req w)) = requests w @ [req]"
  by (auto simp: attempt_def fetchWithTimeout_def handleResponse_def Let_def
      split: list.splits fetch_result.splits option.splits)

lemma retry_loop_requests:
  "\<exists>m. requests (snd (retry_loop d a (attempt req) n i l w)) = requests w @ replicate m req \<and>
       (0 < n \<longrightarrow> 0 < m) \<and> m \<le> n"
proof (induction n arbitrary: i l w)
  case 0
  show ?case by (auto split: option.split)
next
  case (Suc n)
  obtain r w' where rw: "attempt req w = (r, w')" by (cases "attempt req w")
  then have w': "requests w' = requests w @ [req]" using attempt_requests[of req w] by simp
  show ?case
  proof (cases r)
    case (Inr v)
    with rw w' have "requests (snd (retry_loop d a (attempt req) (Suc n) i l w)) = requests w @ replicate 1 req"
      by simp
    then show ?thesis by (intro exI[of _ 1]) simp
  next
    case (Inl e)
    show ?thesis
    proof (cases "client_error e")
      case True
      with Inl rw w' have "requests (snd (retry_loop d a (attempt req) (Suc n) i l w)) = requests w @ replicate 1 req"
        by simp
      then show ?thesis by (intro exI[of _ 1]) simp
    next
      case False
      let ?w'' = "if i < a - 1 then w'\<lparr>sleeps := sleeps w' @ [d * 2 ^ i]\<rparr> else w'"
      from Suc.IH[of "Suc i" "Some e" ?w''] obtain m where
        m: "requests (snd (retry_loop d a (attempt req) n (Suc i) (Some e) ?w'')) = requests ?w'' @ replicate m req"
          "m \<le> n"
        by blast
      have "requests ?w'' = requests w @ [req]" using w' by simp
      with m Inl rw False
      have "requests (snd (retry_loop d a (attempt req) (Suc n) i l w)) = requests w @ replicate (Suc m) req"
        by (simp add: replicate_app_Cons_same)
      with m(2) show ?thesis by (intro exI[of _ "Suc m"]) simp
    qed
  qed
qed

lemma api_post_requests:
  "\<exists>m. requests (snd (api_post api url body auth w)) =
         requests w @ replicate m \<lparr> r_method = POST, r_url = url, r_auth = getHeaders api auth, r_body = body \<rparr> \<and>
       (0 < retryAttempts api \<longrightarrow> 0 < m) \<and> m \<le> retryAttempts api"
  unfolding api_post_def retryRequest_def by (rule retry_loop_requests)

lemma sync_requests: "\<exists>rs. requests (snd (syncWithBackend cs w)) = requests w @ rs"
proof (cases "\<not> truthy (ls_authToken w) \<or> syncInProgress cs")
  case True
  then show ?thesis by (simp add: syncWithBackend_def)
next
  case False
  obtain r w' where p: "api_post (cs_api cs) EpCart (ItemsBody (cart cs)) True w = (r, w')"
    by (cases "api_post (cs_api cs) EpCart (ItemsBody (cart cs)) True w")
  from api_post_requests[of "cs_api cs" EpCart "ItemsBody (cart cs)" True w] p
  obtain m where "requests w' = requests w @ replicate m
      \<lparr> r_method = POST, r_url = EpCart, r_auth = getHeaders (cs_api cs) True, r_body = ItemsBody (cart cs) \<rparr>"
    by auto
  with False p show ?thesis by (auto simp: syncWithBackend_def)
qed

lemma clearCart_requests: "\<exists>rs. requests (snd (clearCart cs w)) = requests w @ rs"
proof -
  let ?cs1 = "cs\<lparr>cart := []\<rparr>"
  obtain cs2 w2 where s: "syncWithBackend ?cs1 (saveCart ?cs1 w) = (cs2, w2)"
    by (cases "syncWithBackend ?cs1 (saveCart ?cs1 w)")
  from sync_requests[of ?cs1 "saveCart ?cs1 w"] s obtain rs where "requests w2 = requests w @ rs"
    by (auto simp: saveCart_def)
  with s show ?thesis by (simp add: clearCart_def Let_def)
qed

lemma validateCart_empty:
  "cart cs = [] \<Longrightarrow> validateCart cs = \<lparr> isValid = False, errors = [CartEmpty] \<rparr>"
  by (simp add: validateCart_def)

lemma validateCart_stock:
  assumes "x \<in> set (cart cs)" "stock x = Some s" "s < quantity x"
  shows "\<not> isValid (validateCart cs)" "OnlyAvailable (name x) s \<in> set (errors (validateCart cs))"
proof -
  from assms have i: "OnlyAvailable (name x) s \<in> set (item_issues x)" by (simp add: item_issues_def)
  from assms(1) have ne: "cart cs \<noteq> []" by auto
  from i assms(1) have m: "OnlyAvailable (name x) s \<in> set (concat (map item_issues (cart cs)))" by auto
  then have "concat (map item_issues (cart cs)) \<noteq> []"
    by (metis empty_iff list.set(1))
  with ne show "\<not> isValid (validateCart cs)" by (simp add: validateCart_def Let_def)
  from ne m show "OnlyAvailable (name x) s \<in> set (errors (validateCart cs))"
    by (simp add: validateCart_def Let_def)
qed

lemma validateCheckout_cart:
  assumes "\<not> isValid (validateCart (co_cart co))" "e \<in> set (errors (validateCart (co_cart co)))"
  shows "\<not> isValid (validateCheckout co)" "e \<in> set (errors (validateCheckout co))"
  using assms by (auto simp: validateCheckout_def Let_def)

lemma createOrder_halts:
  assumes "\<not> isValid (validateCheckout co)"
  shows "createOrder cfg co w =
    (Inl (ValidationFailed (errors (validateCheckout co))), co,
     w\<lparr>shown := shown w @ [CheckoutFailure (ValidationFailed (errors (validateCheckout co)))]\<rparr>)"
  using assms by (simp add: createOrder_def createOrder_try_def Let_def)

lemma createOrder_posts_first:
  assumes "isValid (validateCheckout co)" "0 < retryAttempts (co_api co)"
  shows "\<exists>rs. requests (snd (snd (createOrder cfg co w))) = requests w @ order_request cfg co # rs"
proof -
  obtain r w1 where p: "api_post (co_api co) EpOrders (OrderBody (orderData cfg co)) True w = (r, w1)"
    by (cases "api_post (co_api co) EpOrders (OrderBody (orderData cfg co)) True w")
  from api_post_requests[of "co_api co" EpOrders "OrderBody (orderData cfg co)" True w] p assms(2)
  obtain m where m: "requests w1 = requests w @ replicate m (order_request cfg co)" "0 < m"
    by (auto simp: order_request_def)
  then obtain m' where "m = Suc m'" by (cases m) auto
  with m have w1: "requests w1 = requests w @ order_request cfg co # replicate m' (order_request cfg co)"
    by simp
  show ?thesis
  proof (cases r)
    case (Inl e)
    with p assms(1) w1 show ?thesis by (simp add: createOrder_def createOrder_try_def Let_def)
  next
    case (Inr response)
    show ?thesis
    proof (cases "d_success response \<and> d_order response \<noteq> None")
      case False
      with Inr p assms(1) w1 show ?thesis by (auto simp: createOrder_def createOrder_try_def Let_def)
    next
      case True
      obtain cs2 w2 where c: "clearCart (co_cart co) w1 = (cs2, w2)" by (cases "clearCart (co_cart co) w1")
      from clearCart_requests[of "co_cart co" w1] c obtain rs where "requests w2 = requests w1 @ rs" by auto
      with True Inr p assms(1) w1 c show ?thesis
        by (simp add: createOrder_def createOrder_try_def Let_def)
    qed
  qed
qed

text \<open>
  C1, as the code has it. With an empty cart, and with a cart line whose quantity exceeds
  the stock kept on that line, \<^verbatim>\<open>createOrder\<close> throws the validation errors (the empty-cart
  message, or the line's name with its stock), leaves the checkout as it was and sends no
  request at all. The check reads the cart lines only: when the validation passes, the
  first request sent is the order itself.
\<close>

theorem checkout_gated_by_cached_stock:
  "(cart (co_cart co) = [] \<longrightarrow>
      (\<exists>errs. createOrder cfg co w =
          (Inl (ValidationFailed errs), co, w\<lparr>shown := shown w @ [CheckoutFailure (ValidationFailed errs)]\<rparr>) \<and>
        CartEmpty \<in> set errs) \<and>
      requests (snd (snd (createOrder cfg co w))) = requests w) \<and>
   (x \<in> set (cart (co_cart co)) \<and> stock x = Some s \<and> s < quantity x \<longrightarrow>
      (\<exists>errs. createOrder cfg co w =
          (Inl (ValidationFailed errs), co, w\<lparr>shown := shown w @ [CheckoutFailure (ValidationFailed errs)]\<rparr>) \<and>
        OnlyAvailable (name x) s \<in> set errs) \<and>
      requests (snd (snd (createOrder cfg co w))) = requests w) \<and>
   (isValid (validateCheckout co) \<and> 0 < retryAttempts (co_api co) \<longrightarrow>
      (\<exists>rs. requests (snd (snd (createOrder cfg co w))) = requests w @ order_request cfg co # rs))"
proof (intro conjI impI)
  assume e: "cart (co_cart co) = []"
  then have c: "\<not> isValid (validateCart (co_cart co))" "CartEmpty \<in> set (errors (validateCart (co_cart co)))"
    by (simp_all add: validateCart_empty)
  note h = createOrder_halts[OF validateCheckout_cart(1)[OF c], of cfg w]
  from h validateCheckout_cart(2)[OF c]
  show "\<exists>errs. createOrder cfg co w =
          (Inl (ValidationFailed errs), co, w\<lparr>shown := shown w @ [CheckoutFailure (ValidationFailed errs)]\<rparr>) \<and>
        CartEmpty \<in> set errs" by blast
  from h show "requests (snd (snd (createOrder cfg co w))) = requests w" by simp
next
  assume a: "x \<in> set (cart (co_cart co)) \<and> stock x = Some s \<and> s < quantity x"
  then have c: "\<not> isValid (validateCart (co_cart co))"
    "OnlyAvailable (name x) s \<in> set (errors (validateCart (co_cart co)))"
    using validateCart_stock[of x "co_cart co" s] by simp_all
  note h = createOrder_halts[OF validateCheckout_cart(1)[OF c], of cfg w]
  from h validateCheckout_cart(2)[OF c]
  show "\<exists>errs. createOrder cfg co w =
          (Inl (ValidationFailed errs), co, w\<lparr>shown := shown w @ [CheckoutFailure (ValidationFailed errs)]\<rparr>) \<and>
        OnlyAvailable (name x) s \<in> set errs" by blast
  from h show "requests (snd (snd (createOrder cfg co w))) = requests w" by simp
next
  assume "isValid (validateCheckout co) \<and> 0 < retryAttempts (co_api co)"
  then show "\<exists>rs. requests (snd (snd (createOrder cfg co w))) = requests w @ order_request cfg co # rs"
    using createOrder_posts_first[of co cfg w] by simp
qed

lemma thandi_valid: "validateShippingInfo thandi = \<lparr> isValid = True, errors = [] \<rparr>"
  by (simp add: validateShippingInfo_def validateName_def validateEmail_def validatePhone_def
      validateAddress_def validatePostalCode_def thandi_def trim_def is_space_def is_letter_def
      is_digit_def name_pattern_def email_pattern_def email_char_def phone_pattern_def
      postal_pattern_def Let_def)

lemma default_shipping_rejected:
  "\<not> isValid (validateShippingInfo (shippingInfo getDefaultCheckoutData))"
  by (simp add: validateShippingInfo_def validateName_def getDefaultCheckoutData_def Let_def)

lemma ready_checkout_valid: "validateCheckout ready_checkout = \<lparr> isValid = True, errors = [] \<rparr>"
  by (simp add: validateCheckout_def validateCart_def ready_checkout_def cart_of_def wig_line_def
      item_issues_def thandi_valid getDefaultCheckoutData_def Let_def)

lemma ready_checkout_posts:
  "api_post guest_api EpOrders body True backend_accepts =
     (Inr (success_only\<lparr>d_order := Some order_17\<rparr>),
      w0\<lparr>requests := [\<lparr> r_method = POST, r_url = EpOrders, r_auth = None, r_body = body \<rparr>]\<rparr>)"
  by (simp add: api_post_def guest_api_def new_APIService_def w0_def retryRequest_def attempt_def
      fetchWithTimeout_def handleResponse_def ok_def getHeaders_def truthy_def numeral_3_eq_3
      backend_accepts_def order_created_def)

text \<open>
  C1 as stated fails in its last part: the shipping details pass the field validators, the
  validation of a cart of two wigs passes on the stock kept on the line, and the only
  request \<^verbatim>\<open>createOrder\<close> sends is the order; no stock or availability is fetched before it.
\<close>

theorem order_posted_without_stock_request:
  "validateShippingInfo (shippingInfo (checkoutData ready_checkout)) = \<lparr> isValid = True, errors = [] \<rparr> \<and>
   validateCart (co_cart ready_checkout) = \<lparr> isValid = True, errors = [] \<rparr> \<and>
   fst (createOrder APP_CONFIG ready_checkout backend_accepts) = Inr order_17 \<and>
   requests (snd (snd (createOrder APP_CONFIG ready_checkout backend_accepts))) =
     [order_request APP_CONFIG ready_checkout]"
proof -
  have a: "co_api ready_checkout = guest_api" "co_cart ready_checkout = cart_of [wig_line 2]"
    "shippingInfo (checkoutData ready_checkout) = thandi"
    by (simp_all add: ready_checkout_def getDefaultCheckoutData_def)
  have c: "clearCart (cart_of [wig_line 2]) w = (cart_of [], w\<lparr>ls_cart := Some [], shown := shown w @ [CartCleared]\<rparr>)"
    if "ls_authToken w = None" for w
    using that by (simp add: clearCart_def cart_of_def syncWithBackend_def saveCart_def truthy_def Let_def)
  have v: "validateCart (cart_of [wig_line 2]) = \<lparr> isValid = True, errors = [] \<rparr>"
    by (simp add: validateCart_def cart_of_def wig_line_def item_issues_def Let_def)
  have g: "getHeaders guest_api True = None"
    by (simp add: getHeaders_def guest_api_def new_APIService_def w0_def truthy_def)
  show ?thesis
    by (simp add: createOrder_def createOrder_try_def ready_checkout_valid a ready_checkout_posts c
        w0_def success_only_def v order_request_def g thandi_valid)
qed

text \<open>
  The ready checkout with an empty cart, with seven wigs where the line says five are in
  stock, and with two wigs.
\<close>

theorem checkout_gated_by_cached_stock_witness:
  "((\<exists>errs. createOrder APP_CONFIG (checkout_with []) backend_accepts =
        (Inl (ValidationFailed errs), checkout_with [],
         backend_accepts\<lparr>shown := shown backend_accepts @ [CheckoutFailure (ValidationFailed errs)]\<rparr>) \<and>
      CartEmpty \<in> set errs) \<and>
    requests (snd (snd (createOrder APP_CONFIG (checkout_with []) backend_accepts))) =
      requests backend_accepts) \<and>
   ((\<exists>errs. createOrder APP_CONFIG (checkout_with [wig_line 7]) backend_accepts =
        (Inl (ValidationFailed errs), checkout_with [wig_line 7],
         backend_accepts\<lparr>shown := shown backend_accepts @ [CheckoutFailure (ValidationFailed errs)]\<rparr>) \<and>
      OnlyAvailable (name (wig_line 7)) 5 \<in> set errs) \<and>
    requests (snd (snd (createOrder APP_CONFIG (checkout_with [wig_line 7]) backend_accepts))) =
      requests backend_accepts) \<and>
   (\<exists>rs. requests (snd (snd (createOrder APP_CONFIG ready_checkout backend_accepts))) =
      requests backend_accepts @ order_request APP_CONFIG ready_checkout # rs)"
proof -
  have e: "cart (co_cart (checkout_with [])) = []"
    by (simp add: checkout_with_def cart_of_def)
  have s: "wig_line 7 \<in> set (cart (co_cart (checkout_with [wig_line 7]))) \<and> stock (wig_line 7) = Some 5 \<and>
      5 < quantity (wig_line 7)"
    by (simp add: checkout_with_def cart_of_def wig_line_def)
  have r: "isValid (validateCheckout ready_checkout) \<and> 0 < retryAttempts (co_api ready_checkout)"
    by (simp add: ready_checkout_valid) (simp add: ready_checkout_def guest_api_def new_APIService_def)
  from checkout_gated_by_cached_stock[of "checkout_with []" APP_CONFIG backend_accepts
      "wig_line 7" 5] e
  have a: "(\<exists>errs. createOrder APP_CONFIG (checkout_with []) backend_accepts =
        (Inl (ValidationFailed errs), checkout_with [],
         backend_accepts\<lparr>shown := shown backend_accepts @ [CheckoutFailure (ValidationFailed errs)]\<rparr>) \<and>
      CartEmpty \<in> set errs) \<and>
    requests (snd (snd (createOrder APP_CONFIG (checkout_with []) backend_accepts))) =
      requests backend_accepts" by blast
  from checkout_gated_by_cached_stock[of "checkout_with [wig_line 7]" APP_CONFIG
      backend_accepts "wig_line 7" 5] s
  have b: "(\<exists>errs. createOrder APP_CONFIG (checkout_with [wig_line 7]) backend_accepts =
        (Inl (ValidationFailed errs), checkout_with [wig_line 7],
         backend_accepts\<lparr>shown := shown backend_accepts @ [CheckoutFailure (ValidationFailed errs)]\<rparr>) \<and>
      OnlyAvailable (name (wig_line 7)) 5 \<in> set errs) \<and>
    requests (snd (snd (createOrder APP_CONFIG (checkout_with [wig_line 7]) backend_accepts))) =
      requests backend_accepts" by blast
  from checkout_gated_by_cached_stock[of ready_checkout APP_CONFIG backend_accepts
      "wig_line 7" 5] r
  have c: "\<exists>rs. requests (snd (snd (createOrder APP_CONFIG ready_checkout backend_accepts))) =
      requests backend_accepts @ order_request APP_CONFIG ready_checkout # rs" by blast
  from a b c show ?thesis by blast
qed

section \<open>Properties of the checkout page\<close>

lemma attempt_scheduled: "scheduled (snd (attempt req w)) = scheduled w"
  by (auto simp: attempt_def fetchWithTimeout_def handleResponse_def Let_def
      split: list.splits fetch_result.splits option.splits)

lemma api_post_scheduled: "scheduled (snd (api_post a url b auth w)) = scheduled w"
  unfolding api_post_def retryRequest_def
  by (rule retry_loop_keeps) (simp_all add: attempt_scheduled)

lemma redirect_fields:
  assumes "distinct (map fst pd)"
  shows "set (f_fields (redirectToPayFast pd)) = {(k, to_string v) | k v. (k, v) \<in> set pd \<and> k \<noteq> ''sandbox''}"
proof -
  have "(\<lambda>key. (key, to_string (the (map_of pd key)))) ` {k \<in> fst ` set pd. k \<noteq> ''sandbox''} =
      {(k, to_string v) | k v. (k, v) \<in> set pd \<and> k \<noteq> ''sandbox''}"
  proof (intro set_eqI iffI)
    fix x assume "x \<in> (\<lambda>key. (key, to_string (the (map_of pd key)))) ` {k \<in> fst ` set pd. k \<noteq> ''sandbox''}"
    then obtain k v where k: "x = (k, to_string (the (map_of pd k)))" "(k, v) \<in> set pd" "k \<noteq> ''sandbox''"
      by auto
    from assms k(2) have "map_of pd k = Some v" by simp
    with k show "x \<in> {(k, to_string v) | k v. (k, v) \<in> set pd \<and> k \<noteq> ''sandbox''}" by auto
  next
    fix x assume "x \<in> {(k, to_string v) | k v. (k, v) \<in> set pd \<and> k \<noteq> ''sandbox''}"
    then obtain k v where k: "x = (k, to_string v)" "(k, v) \<in> set pd" "k \<noteq> ''sandbox''" by auto
    from assms k(2) have "map_of pd k = Some v" by simp
    with k show "x \<in> (\<lambda>key. (key, to_string (the (map_of pd key)))) ` {k \<in> fst ` set pd. k \<noteq> ''sandbox''}"
      by force
  qed
  then show ?thesis by (simp add: redirectToPayFast_def)
qed

lemma handleCheckoutSubmit_complete:
  assumes "form_complete currentUser emailRegex terms formData"
    and "api_createOrder api formData w = (Inr response, w1)"
    and "d_success response \<or> d_data response \<noteq> None"
  shows "handleCheckoutSubmit api currentUser emailRegex terms formData w =
    (case response_paymentData response of
       Some paymentData \<Rightarrow>
         schedule (SubmitForm (redirectToPayFast paymentData))
           (showSuccess ''Order created! Redirecting to payment...'' w1)
     | None \<Rightarrow>
         schedule
           (case response_order response of
              None \<Rightarrow> TimerTypeError
            | Some order \<Rightarrow> NavigateOrderDetails (js_or (ord_id order) (ord__id order)))
           (showSuccess ''Order created successfully!'' w1))"
  using assms by (auto simp: handleCheckoutSubmit_def form_complete_def)

text \<open>
  C9. When the checkout form passes the page's checks and the order request is answered
  with a body that has \<^verbatim>\<open>success\<close> or \<^verbatim>\<open>data\<close>: with a payment payload the page schedules the
  submission of a form whose method is POST, whose action is the sandbox gateway when the
  payload's \<^verbatim>\<open>sandbox\<close> flag is true and the live gateway otherwise, and whose fields are
  exactly the payload's other keys with their values, in the payload's order; without a
  payment payload no form is built and the page schedules the navigation to the order's page.
\<close>

theorem payment_handoff_form:
  "form_complete currentUser emailRegex terms formData \<Longrightarrow>
   api_createOrder api formData w = (Inr response, w1) \<Longrightarrow>
   d_success response \<or> d_data response \<noteq> None \<Longrightarrow>
   (\<forall>pd. response_paymentData response = Some pd \<and> distinct (map fst pd) \<longrightarrow>
      (\<exists>f. scheduled (handleCheckoutSubmit api currentUser emailRegex terms formData w) =
             scheduled w @ [SubmitForm f] \<and>
           f_method f = POST \<and>
           f_action f = (if pval_truthy (map_of pd ''sandbox'')
                         then ''https://sandbox.payfast.co.za/eng/process''
                         else ''https://www.payfast.co.za/eng/process'') \<and>
           (\<forall>b. (''sandbox'', PBool b) \<in> set pd \<longrightarrow>
              f_action f = (if b then ''https://sandbox.payfast.co.za/eng/process''
                            else ''https://www.payfast.co.za/eng/process'')) \<and>
           set (f_fields f) = {(k, to_string v) | k v. (k, v) \<in> set pd \<and> k \<noteq> ''sandbox''} \<and>
           map fst (f_fields f) = filter (\<lambda>k. k \<noteq> ''sandbox'') (map fst pd))) \<and>
   (response_paymentData response = None \<longrightarrow>
      (\<forall>order. response_order response = Some order \<longrightarrow>
         scheduled (handleCheckoutSubmit api currentUser emailRegex terms formData w) =
           scheduled w @ [NavigateOrderDetails (js_or (ord_id order) (ord__id order))]))"
proof -
  assume c: "form_complete currentUser emailRegex terms formData"
    and p: "api_createOrder api formData w = (Inr response, w1)"
    and s: "d_success response \<or> d_data response \<noteq> None"
  note h = handleCheckoutSubmit_complete[OF c p s]
  have w1: "scheduled w1 = scheduled w"
    using api_post_scheduled[of api EpOrders "FormBody formData" True w] p
    by (simp add: api_createOrder_def)
  have a: "\<exists>f. scheduled (handleCheckoutSubmit api currentUser emailRegex terms formData w) =
             scheduled w @ [SubmitForm f] \<and>
           f_method f = POST \<and>
           f_action f = (if pval_truthy (map_of pd ''sandbox'')
                         then ''https://sandbox.payfast.co.za/eng/process''
                         else ''https://www.payfast.co.za/eng/process'') \<and>
           (\<forall>b. (''sandbox'', PBool b) \<in> set pd \<longrightarrow>
              f_action f = (if b then ''https://sandbox.payfast.co.za/eng/process''
                            else ''https://www.payfast.co.za/eng/process'')) \<and>
           set (f_fields f) = {(k, to_string v) | k v. (k, v) \<in> set pd \<and> k \<noteq> ''sandbox''} \<and>
           map fst (f_fields f) = filter (\<lambda>k. k \<noteq> ''sandbox'') (map fst pd)"
    if pd: "response_paymentData response = Some pd" "distinct (map fst pd)" for pd
  proof (intro exI[of _ "redirectToPayFast pd"] conjI)
    show "scheduled (handleCheckoutSubmit api currentUser emailRegex terms formData w) =
        scheduled w @ [SubmitForm (redirectToPayFast pd)]"
      using h pd(1) w1 by (simp add: schedule_def showSuccess_def)
    show "f_method (redirectToPayFast pd) = POST" by (simp add: redirectToPayFast_def)
    show "f_action (redirectToPayFast pd) = (if pval_truthy (map_of pd ''sandbox'')
                         then ''https://sandbox.payfast.co.za/eng/process''
                         else ''https://www.payfast.co.za/eng/process'')"
      by (simp add: redirectToPayFast_def)
    show "\<forall>b. (''sandbox'', PBool b) \<in> set pd \<longrightarrow>
              f_action (redirectToPayFast pd) = (if b then ''https://sandbox.payfast.co.za/eng/process''
                            else ''https://www.payfast.co.za/eng/process'')"
      using pd(2) by (auto simp: redirectToPayFast_def pval_truthy_def)
    show "set (f_fields (redirectToPayFast pd)) = {(k, to_string v) | k v. (k, v) \<in> set pd \<and> k \<noteq> ''sandbox''}"
      using pd(2) by (rule redirect_fields)
    show "map fst (f_fields (redirectToPayFast pd)) = filter (\<lambda>k. k \<noteq> ''sandbox'') (map fst pd)"
      by (simp add: redirectToPayFast_def comp_def)
  qed
  have b: "scheduled (handleCheckoutSubmit api currentUser emailRegex terms formData w) =
           scheduled w @ [NavigateOrderDetails (js_or (ord_id order) (ord__id order))]"
    if "response_paymentData response = None" "response_order response = Some order" for order
    using h that w1 by (simp add: schedule_def showSuccess_def)
  from a b show ?thesis by blast
qed

lemma order_answered:
  "api_createOrder guest_api guest_form (backend_answers_order d) =
     (Inr d, w0\<lparr>requests := [\<lparr> r_method = POST, r_url = EpOrders, r_auth = None,
                                 r_body = FormBody guest_form \<rparr>]\<rparr>)"
  by (simp add: api_createOrder_def api_post_def guest_api_def new_APIService_def w0_def
      retryRequest_def attempt_def fetchWithTimeout_def handleResponse_def ok_def getHeaders_def
      truthy_def numeral_3_eq_3 backend_answers_order_def)

text \<open>
  An order answered with a sandbox payment payload of two fields, and an order answered
  without a payment payload.
\<close>

theorem payment_handoff_form_witness:
  "(\<exists>f. scheduled (handleCheckoutSubmit guest_api False any_email (Some True) guest_form
             (backend_answers_order order_with_payment)) = [SubmitForm f] \<and>
        f_method f = POST \<and>
        f_action f = ''https://sandbox.payfast.co.za/eng/process'' \<and>
        set (f_fields f) = {(''merchant_id'', ''10000100''), (''amount'', ''1185.00'')}) \<and>
   scheduled (handleCheckoutSubmit guest_api False any_email (Some True) guest_form
     (backend_answers_order order_without_payment)) = [NavigateOrderDetails (Some ''order-17'')]"
proof -
  have c: "form_complete False any_email (Some True) guest_form"
    by (simp add: form_complete_def guest_form_def any_email_def)
  have s: "d_success order_with_payment \<or> d_data order_with_payment \<noteq> None"
    "d_success order_without_payment \<or> d_data order_without_payment \<noteq> None"
    by (simp_all add: order_with_payment_def order_without_payment_def success_only_def)
  have pd: "response_paymentData order_with_payment = Some payfast_data \<and> distinct (map fst payfast_data)"
    by (simp add: response_paymentData_def order_with_payment_def success_only_def payfast_data_def)
  have fields: "{(k, to_string v) | k v. (k, v) \<in> set payfast_data \<and> k \<noteq> ''sandbox''} =
      {(''merchant_id'', ''10000100''), (''amount'', ''1185.00'')}"
    by (auto simp: payfast_data_def to_string_def)
  have flag: "pval_truthy (map_of payfast_data ''sandbox'')"
    by (simp add: payfast_data_def pval_truthy_def)
  have none: "response_paymentData order_without_payment = None"
    "response_order order_without_payment = Some order_17"
    "js_or (ord_id order_17) (ord__id order_17) = Some ''order-17''"
    by (simp_all add: response_paymentData_def response_order_def order_without_payment_def
        success_only_def order_17_def js_or_def truthy_def)
  have e: "scheduled (backend_answers_order d) = []" for d
    by (simp add: backend_answers_order_def w0_def)
  from payment_handoff_form[OF c order_answered[of order_with_payment] s(1)] pd
  obtain f where f: "scheduled (handleCheckoutSubmit guest_api False any_email (Some True) guest_form
             (backend_answers_order order_with_payment)) =
        scheduled (backend_answers_order order_with_payment) @ [SubmitForm f]"
      "f_method f = POST"
      "f_action f = (if pval_truthy (map_of payfast_data ''sandbox'')
                         then ''https://sandbox.payfast.co.za/eng/process''
                         else ''https://www.payfast.co.za/eng/process'')"
      "set (f_fields f) = {(k, to_string v) | k v. (k, v) \<in> set payfast_data \<and> k \<noteq> ''sandbox''}"
    by blast
  then have a: "\<exists>f. scheduled (handleCheckoutSubmit guest_api False any_email (Some True) guest_form
             (backend_answers_order order_with_payment)) = [SubmitForm f] \<and>
        f_method f = POST \<and>
        f_action f = ''https://sandbox.payfast.co.za/eng/process'' \<and>
        set (f_fields f) = {(''merchant_id'', ''10000100''), (''amount'', ''1185.00'')}"
    using fields flag e by auto
  from payment_handoff_form[OF c order_answered[of order_without_payment] s(2)] none
  have b: "scheduled (handleCheckoutSubmit guest_api False any_email (Some True) guest_form
     (backend_answers_order order_without_payment)) = [NavigateOrderDetails (Some ''order-17'')]"
    using e by simp
  from a b show ?thesis by blast
qed

section \<open>Properties of the login flow\<close>

lemma attempt_ok_any:
  assumes "net w = Responds r # rest" "ok r"
  shows "\<exists>d. attempt req w = (Inr d, w\<lparr>requests := requests w @ [req], net := rest\<rparr>) \<and>
    (\<forall>d'. json r = Some d' \<longrightarrow> d = d')"
  using assms by (auto simp: attempt_def fetchWithTimeout_def handleResponse_def Let_def split: option.splits)

lemma retry_first_ok:
  assumes "0 < attempts" "requestFn w = (Inr d, w')"
  shows "retryRequest api requestFn attempts w = (Inr d, w')"
proof -
  from assms(1) obtain n where "attempts = Suc n" by (cases attempts) auto
  with assms(2) show ?thesis by (simp add: retryRequest_def)
qed

lemma api_post_first_ok:
  assumes "0 < retryAttempts api" "net w = Responds r # rest" "ok r"
  shows "\<exists>d. api_post api url body auth w =
      (Inr d, w\<lparr>requests := requests w @
          [\<lparr> r_method = POST, r_url = url, r_auth = getHeaders api auth, r_body = body \<rparr>], net := rest\<rparr>) \<and>
    (\<forall>d'. json r = Some d' \<longrightarrow> d = d')"
proof -
  from attempt_ok_any[OF assms(2,3)] obtain d where
    d: "attempt \<lparr> r_method = POST, r_url = url, r_auth = getHeaders api auth, r_body = body \<rparr> w =
      (Inr d, w\<lparr>requests := requests w @
          [\<lparr> r_method = POST, r_url = url, r_auth = getHeaders api auth, r_body = body \<rparr>], net := rest\<rparr>)"
      "\<forall>d'. json r = Some d' \<longrightarrow> d = d'" by blast
  from retry_first_ok[where requestFn="attempt \<lparr> r_method = POST, r_url = url,
        r_auth = getHeaders api auth, r_body = body \<rparr>" and w=w and api=api, OF assms(1) d(1)] d(2)
  show ?thesis by (simp add: api_post_def)
qed

lemma api_get_first_ok:
  assumes "0 < retryAttempts api" "net w = Responds r # rest" "ok r"
  shows "\<exists>d. api_get api url auth w =
      (Inr d, w\<lparr>requests := requests w @
          [\<lparr> r_method = GET, r_url = url, r_auth = getHeaders api auth, r_body = NoBody \<rparr>], net := rest\<rparr>) \<and>
    (\<forall>d'. json r = Some d' \<longrightarrow> d = d')"
proof -
  from attempt_ok_any[OF assms(2,3)] obtain d where
    d: "attempt \<lparr> r_method = GET, r_url = url, r_auth = getHeaders api auth, r_body = NoBody \<rparr> w =
      (Inr d, w\<lparr>requests := requests w @
          [\<lparr> r_method = GET, r_url = url, r_auth = getHeaders api auth, r_body = NoBody \<rparr>], net := rest\<rparr>)"
      "\<forall>d'. json r = Some d' \<longrightarrow> d = d'" by blast
  from retry_first_ok[where requestFn="attempt \<lparr> r_method = GET, r_url = url,
        r_auth = getHeaders api auth, r_body = NoBody \<rparr>" and w=w and api=api, OF assms(1) d(1)] d(2)
  show ?thesis by (simp add: api_get_def)
qed

lemma attempt_ls_sessionId: "ls_sessionId (snd (attempt req w)) = ls_sessionId w"
  by (auto simp: attempt_def fetchWithTimeout_def handleResponse_def Let_def
      split: list.splits fetch_result.splits option.splits)

lemma api_post_ls_sessionId: "ls_sessionId (snd (api_post a url b auth w)) = ls_sessionId w"
  unfolding api_post_def retryRequest_def
  by (rule retry_loop_keeps) (simp_all add: attempt_ls_sessionId)

lemma api_post_returned:
  assumes "api_post api url body auth w = (Inr d, w')"
  shows "0 < retryAttempts api"
proof (rule ccontr)
  assume "\<not> 0 < retryAttempts api"
  then have "retryAttempts api = 0" by simp
  with assms show False by (simp add: api_post_def retryRequest_def)
qed

text \<open>
  \<^verbatim>\<open>mergeCart\<close> for a stored session id and a token: the merge request is sent at least once
  and at most as often as attempts are configured, and the session id is removed exactly
  when the request succeeded.
\<close>

lemma mergeCart_outcome:
  assumes sid: "ls_sessionId w = Some sid" "sid \<noteq> []" and tok: "token api = Some t" "t \<noteq> []"
  shows "\<exists>m. requests (mergeCart api w) = requests w @ replicate m (merge_request t sid) \<and>
             (0 < retryAttempts api \<longrightarrow> 0 < m) \<and> m \<le> retryAttempts api"
    and "ls_sessionId (mergeCart api w) =
           (case fst (api_post api EpCartMerge (SessionBody sid) True w) of Inl e \<Rightarrow> Some sid | Inr r \<Rightarrow> None)"
proof -
  obtain r w1 where p: "api_post api EpCartMerge (SessionBody sid) True w = (r, w1)"
    by (cases "api_post api EpCartMerge (SessionBody sid) True w")
  have h: "getHeaders api True = Some t" using tok by (simp add: getHeaders_def truthy_def)
  have m: "mergeCart api w = (case r of Inr response \<Rightarrow> w1\<lparr>ls_sessionId := None\<rparr> | Inl e \<Rightarrow> w1)"
    using sid tok p by (simp add: mergeCart_def truthy_def split: sum.split)
  from api_post_requests[of api EpCartMerge "SessionBody sid" True w] p h
  obtain k where k: "requests w1 = requests w @ replicate k (merge_request t sid)"
    "0 < retryAttempts api \<longrightarrow> 0 < k" "k \<le> retryAttempts api"
    by (auto simp: merge_request_def)
  have "requests (mergeCart api w) = requests w1" using m by (cases r) simp_all
  with k show "\<exists>m. requests (mergeCart api w) = requests w @ replicate m (merge_request t sid) \<and>
             (0 < retryAttempts api \<longrightarrow> 0 < m) \<and> m \<le> retryAttempts api" by auto
  have "ls_sessionId w1 = Some sid"
    using api_post_ls_sessionId[of api EpCartMerge "SessionBody sid" True w] p sid by simp
  then show "ls_sessionId (mergeCart api w) =
           (case fst (api_post api EpCartMerge (SessionBody sid) True w) of Inl e \<Rightarrow> Some sid | Inr r \<Rightarrow> None)"
    using m p by (cases r) simp_all
qed

lemma mergeCart_first_ok:
  assumes sid: "ls_sessionId w = Some sid" "sid \<noteq> []" and tok: "token api = Some t" "t \<noteq> []"
    and att: "0 < retryAttempts api" and net: "net w = Responds r_merge # rest" "ok r_merge"
  shows "mergeCart api w = w\<lparr>requests := requests w @ [merge_request t sid], net := rest, ls_sessionId := None\<rparr>"
proof -
  have h: "getHeaders api True = Some t" using tok by (simp add: getHeaders_def truthy_def)
  from api_post_first_ok[OF att net, of EpCartMerge "SessionBody sid" True] obtain dm where
    "api_post api EpCartMerge (SessionBody sid) True w =
      (Inr dm, w\<lparr>requests := requests w @
          [\<lparr> r_method = POST, r_url = EpCartMerge, r_auth = getHeaders api True, r_body = SessionBody sid \<rparr>],
          net := rest\<rparr>)" by blast
  then show ?thesis using sid tok h by (simp add: mergeCart_def truthy_def merge_request_def)
qed

lemma store_token_returned:
  assumes "store_token (api_post api url body False w) api = (Inr d, api1, w1)"
    and "response_token d = Some t" "t \<noteq> []"
  shows "api1 = api\<lparr>token := Some t\<rparr>" and "\<exists>w'. api_post api url body False w = (Inr d, w') \<and> w1 = w'\<lparr>ls_authToken := Some t\<rparr>"
    and "0 < retryAttempts api"
proof -
  obtain r w' where p: "api_post api url body False w = (r, w')" by (cases "api_post api url body False w")
  with assms(1) obtain d' where r: "r = Inr d'" by (cases r) (auto simp: store_token_def)
  with assms p have d': "d' = d"
    by (auto simp: store_token_def setToken_def split: if_splits)
  have tr: "truthy (response_token d)" using assms(2,3) by (simp add: truthy_def)
  from assms p r d' tr show "api1 = api\<lparr>token := Some t\<rparr>"
    by (simp add: store_token_def setToken_def)
  from assms p r d' tr show "\<exists>w'. api_post api url body False w = (Inr d, w') \<and> w1 = w'\<lparr>ls_authToken := Some t\<rparr>"
    by (simp add: store_token_def setToken_def)
  from p r d' show "0 < retryAttempts api" using api_post_returned by simp
qed

lemma token_means_success:
  assumes "response_token d = Some t" "t \<noteq> []"
  shows "d_success d \<or> d_data d \<noteq> None \<or> truthy (d_token d)"
  using assms by (auto simp: response_token_def js_or_def truthy_def split: if_splits option.splits)

lemma auth_then_merge:
  assumes st: "store_token (api_post api url body False w) api = (Inr d, api1, w1)"
    and tok: "response_token d = Some t" "t \<noteq> []"
    and sid: "ls_sessionId w = Some sid" "sid \<noteq> []"
  shows "after_auth (store_token (api_post api url body False w) api) greeting target failed failed_catch =
      (api1, schedule (Navigate target) (showSuccess greeting (mergeCart api1 w1)))"
    and "token api1 = Some t" and "0 < retryAttempts api1" and "ls_sessionId w1 = Some sid"
    and "\<exists>k. 1 \<le> k \<and> requests w1 = requests w @
           replicate k \<lparr> r_method = POST, r_url = url, r_auth = None, r_body = body \<rparr>"
proof -
  note s = store_token_returned[OF st tok]
  from s(2) obtain w' where w': "api_post api url body False w = (Inr d, w')" "w1 = w'\<lparr>ls_authToken := Some t\<rparr>"
    by blast
  show "after_auth (store_token (api_post api url body False w) api) greeting target failed failed_catch =
      (api1, schedule (Navigate target) (showSuccess greeting (mergeCart api1 w1)))"
    using st token_means_success[OF tok] by (auto simp: after_auth_def)
  show "token api1 = Some t" using s(1) by simp
  show "0 < retryAttempts api1" using s(1,3) by simp
  show "ls_sessionId w1 = Some sid"
    using api_post_ls_sessionId[of api url body False w] w' sid by simp
  have h: "getHeaders api False = None" by (simp add: getHeaders_def)
  from api_post_requests[of api url body False w] w' s(3) h
  show "\<exists>k. 1 \<le> k \<and> requests w1 = requests w @
           replicate k \<lparr> r_method = POST, r_url = url, r_auth = None, r_body = body \<rparr>"
    by (auto simp: Suc_le_eq)
qed


lemma getCart_after_merge:
  assumes att: "0 < retryAttempts api" and tk: "token api = Some t" "t \<noteq> []"
    and net: "net w = Responds r_cart # rest" "ok r_cart" "json r_cart = Some c"
    and sid: "ls_sessionId w = None"
  shows "\<exists>w''. getCart api fresh w = (Inr c, w'') \<and>
    requests w'' = requests w @ [cart_request t (''session_'' @ fresh)] \<and>
    ls_sessionId w'' = Some (''session_'' @ fresh)"
proof -
  let ?w1 = "w\<lparr>ls_sessionId := Some (''session_'' @ fresh)\<rparr>"
  have g: "getOrCreateSessionId fresh w = (''session_'' @ fresh, ?w1)"
    using sid by (simp add: getOrCreateSessionId_def truthy_def Let_def)
  have n1: "net ?w1 = Responds r_cart # rest" using net by simp
  have h: "getHeaders api (truthy (token api)) = Some t" using tk by (simp add: getHeaders_def truthy_def)
  from api_get_first_ok[OF att n1 net(2), of "EpCartQuery (''session_'' @ fresh)" "truthy (token api)"] net(3)
  have "api_get api (EpCartQuery (''session_'' @ fresh)) (truthy (token api)) ?w1 =
      (Inr c, ?w1\<lparr>requests := requests ?w1 @ [cart_request t (''session_'' @ fresh)], net := rest\<rparr>)"
    using h by (auto simp: cart_request_def)
  with g show ?thesis by (simp add: getCart_def)
qed

lemma email_pattern_nonempty: "email_pattern s \<Longrightarrow> s \<noteq> []"
  by (auto simp: email_pattern_def Let_def)

lemma merge_follows:
  assumes st: "store_token (api_post api url body False w) api = (Inr d, api1, w1)"
    and tok: "response_token d = Some t" "t \<noteq> []"
    and sid: "ls_sessionId w = Some sid" "sid \<noteq> []"
  shows "case after_auth (store_token (api_post api url body False w) api) greeting target failed failed_catch of
      (api', w') \<Rightarrow>
        api' = api1 \<and> token api1 = Some t \<and>
        (\<exists>m. 1 \<le> m \<and> m \<le> retryAttempts api1 \<and>
             requests w' = requests w1 @ replicate m (merge_request t sid)) \<and>
        ls_sessionId w' =
          (case fst (api_post api1 EpCartMerge (SessionBody sid) True w1) of
             Inl e \<Rightarrow> Some sid | Inr r \<Rightarrow> None) \<and>
        (net w1 = Responds r_merge # rest \<and> ok r_merge \<longrightarrow>
           requests w' = requests w1 @ [merge_request t sid] \<and> ls_sessionId w' = None \<and>
           (rest = Responds r_cart # rest' \<and> ok r_cart \<and> json r_cart = Some c \<longrightarrow>
              (case getCart api' fresh w' of
                 (r, w'') \<Rightarrow>
                   r = Inr c \<and> requests w'' = requests w' @ [cart_request t (''session_'' @ fresh)] \<and>
                   ls_sessionId w'' = Some (''session_'' @ fresh))))"
proof -
  note a = auth_then_merge[OF st tok sid]
  let ?w' = "schedule (Navigate target) (showSuccess greeting (mergeCart api1 w1))"
  note mo = mergeCart_outcome[OF a(4) sid(2) a(2) tok(2)]
  have rq: "requests ?w' = requests (mergeCart api1 w1)" "ls_sessionId ?w' = ls_sessionId (mergeCart api1 w1)"
    "net ?w' = net (mergeCart api1 w1)"
    by (simp_all add: schedule_def showSuccess_def)
  from mo(1) a(3) obtain m where m: "requests (mergeCart api1 w1) = requests w1 @ replicate m (merge_request t sid)"
    "0 < m" "m \<le> retryAttempts api1" by auto
  then have one: "\<exists>m. 1 \<le> m \<and> m \<le> retryAttempts api1 \<and>
             requests ?w' = requests w1 @ replicate m (merge_request t sid)"
    using rq(1) by (intro exI[of _ m]) simp
  have two: "ls_sessionId ?w' =
          (case fst (api_post api1 EpCartMerge (SessionBody sid) True w1) of
             Inl e \<Rightarrow> Some sid | Inr r \<Rightarrow> None)"
    using mo(2) rq(2) by simp
  have three: "requests ?w' = requests w1 @ [merge_request t sid] \<and> ls_sessionId ?w' = None \<and>
           (rest = Responds r_cart # rest' \<and> ok r_cart \<and> json r_cart = Some c \<longrightarrow>
              (case getCart api1 fresh ?w' of
                 (r, w'') \<Rightarrow>
                   r = Inr c \<and> requests w'' = requests ?w' @ [cart_request t (''session_'' @ fresh)] \<and>
                   ls_sessionId w'' = Some (''session_'' @ fresh)))"
    if n: "net w1 = Responds r_merge # rest \<and> ok r_merge"
  proof -
    from n have n1: "net w1 = Responds r_merge # rest" and n2: "ok r_merge" by simp_all
    note f = mergeCart_first_ok[OF a(4) sid(2) a(2) tok(2) a(3) n1 n2]
    have r1: "requests ?w' = requests w1 @ [merge_request t sid]" "ls_sessionId ?w' = None" "net ?w' = rest"
      using f rq by simp_all
    have g: "case getCart api1 fresh ?w' of
                 (r, w'') \<Rightarrow>
                   r = Inr c \<and> requests w'' = requests ?w' @ [cart_request t (''session_'' @ fresh)] \<and>
                   ls_sessionId w'' = Some (''session_'' @ fresh)"
      if c: "rest = Responds r_cart # rest' \<and> ok r_cart \<and> json r_cart = Some c"
    proof -
      from c r1(3) have nc: "net ?w' = Responds r_cart # rest'" "ok r_cart" "json r_cart = Some c" by simp_all
      from getCart_after_merge[OF a(3) a(2) tok(2) nc r1(2), of fresh]
      show ?thesis by auto
    qed
    from r1 g show ?thesis by blast
  qed
  have res: "api1 = api1 \<and> token api1 = Some t \<and>
        (\<exists>m. 1 \<le> m \<and> m \<le> retryAttempts api1 \<and>
             requests ?w' = requests w1 @ replicate m (merge_request t sid)) \<and>
        ls_sessionId ?w' =
          (case fst (api_post api1 EpCartMerge (SessionBody sid) True w1) of
             Inl e \<Rightarrow> Some sid | Inr r \<Rightarrow> None) \<and>
        (net w1 = Responds r_merge # rest \<and> ok r_merge \<longrightarrow>
           requests ?w' = requests w1 @ [merge_request t sid] \<and> ls_sessionId ?w' = None \<and>
           (rest = Responds r_cart # rest' \<and> ok r_cart \<and> json r_cart = Some c \<longrightarrow>
              (case getCart api1 fresh ?w' of
                 (r, w'') \<Rightarrow>
                   r = Inr c \<and> requests w'' = requests ?w' @ [cart_request t (''session_'' @ fresh)] \<and>
                   ls_sessionId w'' = Some (''session_'' @ fresh))))"
    using a(2) one two three by blast
  show ?thesis unfolding a(1) prod.case by (rule res)
qed

text \<open>
  C8, as the code has it. A guest with a stored session id logs in or registers, and the
  call returns a response that carries a token. Then the requests the handler sends after
  those of the login or registration are the merge request alone, carrying the token and
  the guest's session id, at least once and at most as often as attempts are configured;
  the session id is removed from the storage exactly when the merge request succeeded. When
  the first answer to the merge request is a success it is sent exactly once, and a
  following \<^verbatim>\<open>getCart\<close> returns the cart the backend answers with and, since it asks
  \<^verbatim>\<open>getOrCreateSessionId\<close> for a session id, leaves a newly generated one in the storage.
\<close>

theorem guest_cart_merge_after_auth:
  "response_token d = Some t \<Longrightarrow> t \<noteq> [] \<Longrightarrow> ls_sessionId w = Some sid \<Longrightarrow> sid \<noteq> [] \<Longrightarrow>
   (trim emailValue \<noteq> [] \<and> password \<noteq> [] \<and>
    login api (trim emailValue) password w = (Inr d, api_auth, w_auth) \<longrightarrow>
      (\<exists>k. 1 \<le> k \<and>
           requests w_auth = requests w @ replicate k (login_request (trim emailValue) password)) \<and>
      (case handleLogin api emailValue password redirect w of
         (api', w') \<Rightarrow>
           api' = api_auth \<and> token api_auth = Some t \<and>
           (\<exists>m. 1 \<le> m \<and> m \<le> retryAttempts api_auth \<and>
                requests w' = requests w_auth @ replicate m (merge_request t sid)) \<and>
           ls_sessionId w' =
             (case fst (api_post api_auth EpCartMerge (SessionBody sid) True w_auth) of
                Inl e \<Rightarrow> Some sid | Inr r \<Rightarrow> None) \<and>
           (net w_auth = Responds r_merge # rest \<and> ok r_merge \<longrightarrow>
              requests w' = requests w_auth @ [merge_request t sid] \<and> ls_sessionId w' = None \<and>
              (rest = Responds r_cart # rest' \<and> ok r_cart \<and> json r_cart = Some c \<longrightarrow>
                 (case getCart api' fresh w' of
                    (r, w'') \<Rightarrow>
                      r = Inr c \<and> requests w'' = requests w' @ [cart_request t (''session_'' @ fresh)] \<and>
                      ls_sessionId w'' = Some (''session_'' @ fresh)))))) \<and>
   (2 \<le> length (trim nameValue) \<and> email_pattern (trim emailValue) \<and> 8 \<le> length password \<and>
    (confirmPassword = None \<or> confirmPassword = Some password) \<and>
    register api (trim nameValue) (trim emailValue) password w = (Inr d, api_auth, w_auth) \<longrightarrow>
      (\<exists>k. 1 \<le> k \<and>
           requests w_auth = requests w @
             replicate k (register_request (trim nameValue) (trim emailValue) password)) \<and>
      (case handleRegister api nameValue emailValue password confirmPassword w of
         (api', w') \<Rightarrow>
           api' = api_auth \<and> token api_auth = Some t \<and>
           (\<exists>m. 1 \<le> m \<and> m \<le> retryAttempts api_auth \<and>
                requests w' = requests w_auth @ replicate m (merge_request t sid)) \<and>
           ls_sessionId w' =
             (case fst (api_post api_auth EpCartMerge (SessionBody sid) True w_auth) of
                Inl e \<Rightarrow> Some sid | Inr r \<Rightarrow> None) \<and>
           (net w_auth = Responds r_merge # rest \<and> ok r_merge \<longrightarrow>
              requests w' = requests w_auth @ [merge_request t sid] \<and> ls_sessionId w' = None \<and>
              (rest = Responds r_cart # rest' \<and> ok r_cart \<and> json r_cart = Some c \<longrightarrow>
                 (case getCart api' fresh w' of
                    (r, w'') \<Rightarrow>
                      r = Inr c \<and> requests w'' = requests w' @ [cart_request t (''session_'' @ fresh)] \<and>
                      ls_sessionId w'' = Some (''session_'' @ fresh))))))"
proof -
  assume tok: "response_token d = Some t" "t \<noteq> []" and sid: "ls_sessionId w = Some sid" "sid \<noteq> []"
  show ?thesis
  proof (intro conjI impI)
    assume a: "trim emailValue \<noteq> [] \<and> password \<noteq> [] \<and>
      login api (trim emailValue) password w = (Inr d, api_auth, w_auth)"
    then have st: "store_token (api_post api EpLogin (CredentialsBody (trim emailValue) password) False w) api =
        (Inr d, api_auth, w_auth)" by (simp add: login_def)
    from a have h: "handleLogin api emailValue password redirect w =
        after_auth (store_token (api_post api EpLogin (CredentialsBody (trim emailValue) password) False w) api)
          ''Login successful! Redirecting...'' (the (js_or redirect (Some ''/index.html''))) ''Login failed''
          ''Login failed. Please check your credentials.''"
      by (simp add: handleLogin_def login_def Let_def)
    from auth_then_merge(5)[OF st tok sid]
    show "\<exists>k. 1 \<le> k \<and>
           requests w_auth = requests w @ replicate k (login_request (trim emailValue) password)"
      by (simp add: login_request_def)
    from merge_follows[OF st tok sid, where greeting="''Login successful! Redirecting...''"
        and target="the (js_or redirect (Some ''/index.html''))" and failed="''Login failed''"
        and failed_catch="''Login failed. Please check your credentials.''" and r_merge=r_merge
        and rest=rest and r_cart=r_cart and rest'=rest' and c=c and fresh=fresh]
    show "case handleLogin api emailValue password redirect w of
         (api', w') \<Rightarrow>
           api' = api_auth \<and> token api_auth = Some t \<and>
           (\<exists>m. 1 \<le> m \<and> m \<le> retryAttempts api_auth \<and>
                requests w' = requests w_auth @ replicate m (merge_request t sid)) \<and>
           ls_sessionId w' =
             (case fst (api_post api_auth EpCartMerge (SessionBody sid) True w_auth) of
                Inl e \<Rightarrow> Some sid | Inr r \<Rightarrow> None) \<and>
           (net w_auth = Responds r_merge # rest \<and> ok r_merge \<longrightarrow>
              requests w' = requests w_auth @ [merge_request t sid] \<and> ls_sessionId w' = None \<and>
              (rest = Responds r_cart # rest' \<and> ok r_cart \<and> json r_cart = Some c \<longrightarrow>
                 (case getCart api' fresh w' of
                    (r, w'') \<Rightarrow>
                      r = Inr c \<and> requests w'' = requests w' @ [cart_request t (''session_'' @ fresh)] \<and>
                      ls_sessionId w'' = Some (''session_'' @ fresh))))"
      unfolding h .
  next
    assume a: "2 \<le> length (trim nameValue) \<and> email_pattern (trim emailValue) \<and> 8 \<le> length password \<and>
      (confirmPassword = None \<or> confirmPassword = Some password) \<and>
      register api (trim nameValue) (trim emailValue) password w = (Inr d, api_auth, w_auth)"
    then have st: "store_token (api_post api EpRegister
          (RegistrationBody (trim nameValue) (trim emailValue) password) False w) api = (Inr d, api_auth, w_auth)"
      by (simp add: register_def)
    from a have ne: "trim emailValue \<noteq> []" using email_pattern_nonempty by blast
    from a ne have h: "handleRegister api nameValue emailValue password confirmPassword w =
        after_auth (store_token (api_post api EpRegister
            (RegistrationBody (trim nameValue) (trim emailValue) password) False w) api)
          ''Account created successfully! Redirecting...'' ''/index.html'' ''Registration failed''
          ''Registration failed. Please try again.''"
      by (auto simp: handleRegister_def register_def Let_def)
    from auth_then_merge(5)[OF st tok sid]
    show "\<exists>k. 1 \<le> k \<and>
           requests w_auth = requests w @
             replicate k (register_request (trim nameValue) (trim emailValue) password)"
      by (simp add: register_request_def)
    from merge_follows[OF st tok sid, where greeting="''Account created successfully! Redirecting...''"
        and target="''/index.html''" and failed="''Registration failed''"
        and failed_catch="''Registration failed. Please try again.''" and r_merge=r_merge
        and rest=rest and r_cart=r_cart and rest'=rest' and c=c and fresh=fresh]
    show "case handleRegister api nameValue emailValue password confirmPassword w of
         (api', w') \<Rightarrow>
           api' = api_auth \<and> token api_auth = Some t \<and>
           (\<exists>m. 1 \<le> m \<and> m \<le> retryAttempts api_auth \<and>
                requests w' = requests w_auth @ replicate m (merge_request t sid)) \<and>
           ls_sessionId w' =
             (case fst (api_post api_auth EpCartMerge (SessionBody sid) True w_auth) of
                Inl e \<Rightarrow> Some sid | Inr r \<Rightarrow> None) \<and>
           (net w_auth = Responds r_merge # rest \<and> ok r_merge \<longrightarrow>
              requests w' = requests w_auth @ [merge_request t sid] \<and> ls_sessionId w' = None \<and>
              (rest = Responds r_cart # rest' \<and> ok r_cart \<and> json r_cart = Some c \<longrightarrow>
                 (case getCart api' fresh w' of
                    (r, w'') \<Rightarrow>
                      r = Inr c \<and> requests w'' = requests w' @ [cart_request t (''session_'' @ fresh)] \<and>
                      ls_sessionId w'' = Some (''session_'' @ fresh))))"
      unfolding h .
  qed
qed


lemmas request_eval = api_post_def api_get_def guest_api_def new_APIService_def retryRequest_def
  attempt_def fetchWithTimeout_def handleResponse_def ok_def getHeaders_def numeral_3_eq_3
  client_error_def

lemma guest_adds_value:
  "guest_adds = (Inr success_only,
     w0\<lparr>ls_sessionId := Some ''session_1700000000000_k3j9x2m1q'',
        net := [Responds token_response, Responds accepted, Responds (remote_cart [variant_line 2])],
        requests := [\<lparr> r_method = POST, r_url = EpCartItems, r_auth = None,
          r_body = AddItemBody (Some ''variant-V'') 2 ''session_1700000000000_k3j9x2m1q'' \<rparr>]\<rparr>)"
  by (simp add: guest_adds_def api_addToCart_def getOrCreateSessionId_def guest_network_def w0_def
      truthy_def Let_def request_eval accepted_def)

lemma thandi_trimmed:
  "trim '' Thandi'' = ''Thandi''" "trim ''thandi@example.com '' = ''thandi@example.com''"
  "trim ''thandi@example.com'' = ''thandi@example.com''"
  "email_pattern ''thandi@example.com''"
  by (simp_all add: trim_def is_space_def email_pattern_def email_char_def)

lemma registered:
  "register guest_api ''Thandi'' ''thandi@example.com'' ''correct-horse'' (snd guest_adds) =
     (Inr (success_only\<lparr>d_token := Some ''token-1''\<rparr>), guest_api\<lparr>token := Some ''token-1''\<rparr>,
      w0\<lparr>ls_authToken := Some ''token-1'', ls_sessionId := Some ''session_1700000000000_k3j9x2m1q'',
         net := [Responds accepted, Responds (remote_cart [variant_line 2])],
         requests := [\<lparr> r_method = POST, r_url = EpCartItems, r_auth = None,
             r_body = AddItemBody (Some ''variant-V'') 2 ''session_1700000000000_k3j9x2m1q'' \<rparr>,
           register_request ''Thandi'' ''thandi@example.com'' ''correct-horse'']\<rparr>)"
  by (simp add: guest_adds_value register_def request_eval token_response_def w0_def
      store_token_def response_token_def js_or_def truthy_def setToken_def success_only_def
      register_request_def)

lemma logged_in:
  "login guest_api ''thandi@example.com'' ''correct-horse'' (snd guest_adds) =
     (Inr (success_only\<lparr>d_token := Some ''token-1''\<rparr>), guest_api\<lparr>token := Some ''token-1''\<rparr>,
      w0\<lparr>ls_authToken := Some ''token-1'', ls_sessionId := Some ''session_1700000000000_k3j9x2m1q'',
         net := [Responds accepted, Responds (remote_cart [variant_line 2])],
         requests := [\<lparr> r_method = POST, r_url = EpCartItems, r_auth = None,
             r_body = AddItemBody (Some ''variant-V'') 2 ''session_1700000000000_k3j9x2m1q'' \<rparr>,
           login_request ''thandi@example.com'' ''correct-horse'']\<rparr>)"
  by (simp add: guest_adds_value login_def request_eval token_response_def w0_def
      store_token_def response_token_def js_or_def truthy_def setToken_def success_only_def
      login_request_def)

lemma logged_in_merge_down:
  "login guest_api ''thandi@example.com'' ''correct-horse'' merge_down =
     (Inr (success_only\<lparr>d_token := Some ''token-1''\<rparr>), guest_api\<lparr>token := Some ''token-1''\<rparr>,
      w0\<lparr>ls_authToken := Some ''token-1'', ls_sessionId := Some ''session_1700000000000_k3j9x2m1q'',
         net := [Responds unavailable, Responds unavailable, Responds unavailable],
         requests := [\<lparr> r_method = POST, r_url = EpCartItems, r_auth = None,
             r_body = AddItemBody (Some ''variant-V'') 2 ''session_1700000000000_k3j9x2m1q'' \<rparr>,
           login_request ''thandi@example.com'' ''correct-horse'']\<rparr>)"
  by (simp add: merge_down_def guest_adds_value login_def request_eval token_response_def w0_def
      store_token_def response_token_def js_or_def truthy_def setToken_def success_only_def
      login_request_def)

lemma merge_down_posts:
  "api_post (guest_api\<lparr>token := Some ''token-1''\<rparr>) EpCartMerge
     (SessionBody ''session_1700000000000_k3j9x2m1q'') True
     (w0\<lparr>ls_authToken := Some ''token-1'', ls_sessionId := Some ''session_1700000000000_k3j9x2m1q'',
         net := [Responds unavailable, Responds unavailable, Responds unavailable],
         requests := rs\<rparr>) =
   (Inl (Error ''Service temporarily unavailable. Please try again later.''),
    w0\<lparr>ls_authToken := Some ''token-1'', ls_sessionId := Some ''session_1700000000000_k3j9x2m1q'',
         net := [],
         requests := rs @ replicate 3 (merge_request ''token-1'' ''session_1700000000000_k3j9x2m1q''),
         sleeps := [1000, 2000]\<rparr>)"
  by (simp add: request_eval unavailable_def failure_body_def success_only_def w0_def truthy_def
      merge_request_def)

text \<open>
  C8 as stated fails at its end: in the scenario the registration removes the guest's
  session id and the cart read returns the two units, but after that read the storage
  holds a session id again.
\<close>

theorem session_id_created_again_by_cart_read:
  "ls_sessionId (snd guest_adds) = Some ''session_1700000000000_k3j9x2m1q'' \<and>
   map r_url (requests (snd then_registers)) = [EpCartItems, EpRegister, EpCartMerge] \<and>
   ls_sessionId (snd then_registers) = None \<and>
   fst then_reads = Inr (success_only\<lparr>d_cart := Some (Some [variant_line 2])\<rparr>) \<and>
   ls_sessionId (snd then_reads) = Some ''session_1700000009999_z8y7x6w5v''"
proof -
  have r: "then_registers = (guest_api\<lparr>token := Some ''token-1''\<rparr>,
     w0\<lparr>ls_authToken := Some ''token-1'',
        net := [Responds (remote_cart [variant_line 2])],
        requests := [\<lparr> r_method = POST, r_url = EpCartItems, r_auth = None,
            r_body = AddItemBody (Some ''variant-V'') 2 ''session_1700000000000_k3j9x2m1q'' \<rparr>,
          register_request ''Thandi'' ''thandi@example.com'' ''correct-horse'',
          merge_request ''token-1'' ''session_1700000000000_k3j9x2m1q''],
        shown := [PageSuccess ''Account created successfully! Redirecting...''],
        scheduled := [Navigate ''/index.html'']\<rparr>)"
    by (simp add: then_registers_def handleRegister_def thandi_trimmed registered Let_def
        after_auth_def truthy_def success_only_def)
      (simp add: mergeCart_def showSuccess_def schedule_def truthy_def request_eval accepted_def
        w0_def merge_request_def)
  show ?thesis
    by (simp add: guest_adds_value r then_reads_def w0_def register_request_def
      merge_request_def getCart_def getOrCreateSessionId_def truthy_def Let_def request_eval
      remote_cart_def)
qed

text \<open>
  The scenario's registration and cart read, a login in place of the registration, and a
  login while the merge endpoint answers 503: the merge request is sent three times and the
  session id stays.
\<close>

theorem guest_cart_merge_after_auth_witness:
  "token (fst then_registers) = Some ''token-1'' \<and>
   requests (snd then_registers) = requests (snd guest_adds) @
     [register_request ''Thandi'' ''thandi@example.com'' ''correct-horse'',
      merge_request ''token-1'' ''session_1700000000000_k3j9x2m1q''] \<and>
   ls_sessionId (snd then_registers) = None \<and>
   fst then_reads = Inr (success_only\<lparr>d_cart := Some (Some [variant_line 2])\<rparr>) \<and>
   requests (snd then_reads) = requests (snd then_registers) @
     [cart_request ''token-1'' ''session_1700000009999_z8y7x6w5v''] \<and>
   ls_sessionId (snd then_reads) = Some ''session_1700000009999_z8y7x6w5v'' \<and>
   requests (snd (handleLogin guest_api ''thandi@example.com '' ''correct-horse'' None (snd guest_adds))) =
     requests (snd guest_adds) @
     [login_request ''thandi@example.com'' ''correct-horse'',
      merge_request ''token-1'' ''session_1700000000000_k3j9x2m1q''] \<and>
   ls_sessionId (snd (handleLogin guest_api ''thandi@example.com '' ''correct-horse'' None (snd guest_adds))) = None \<and>
   requests (snd (handleLogin guest_api ''thandi@example.com'' ''correct-horse'' None merge_down)) =
     requests merge_down @
     [login_request ''thandi@example.com'' ''correct-horse'',
      merge_request ''token-1'' ''session_1700000000000_k3j9x2m1q'',
      merge_request ''token-1'' ''session_1700000000000_k3j9x2m1q'',
      merge_request ''token-1'' ''session_1700000000000_k3j9x2m1q''] \<and>
   ls_sessionId (snd (handleLogin guest_api ''thandi@example.com'' ''correct-horse'' None merge_down)) =
     Some ''session_1700000000000_k3j9x2m1q''"
proof -
  let ?d = "success_only\<lparr>d_token := Some ''token-1''\<rparr>"
  let ?sid = "''session_1700000000000_k3j9x2m1q''"
  let ?api1 = "guest_api\<lparr>token := Some ''token-1''\<rparr>"
  let ?add = "\<lparr> r_method = POST, r_url = EpCartItems, r_auth = None,
             r_body = AddItemBody (Some ''variant-V'') 2 ''session_1700000000000_k3j9x2m1q'' \<rparr>"
  have h: "response_token ?d = Some ''token-1''" "''token-1'' \<noteq> []"
    "ls_sessionId (snd guest_adds) = Some ?sid" "?sid \<noteq> []"
    by (simp_all add: response_token_def js_or_def truthy_def success_only_def guest_adds_value)
  have hd: "ls_sessionId merge_down = Some ?sid"
    by (simp add: merge_down_def guest_adds_value)
  have r: "2 \<le> length (trim '' Thandi'') \<and> email_pattern (trim ''thandi@example.com '') \<and>
      8 \<le> length ''correct-horse'' \<and>
      (Some ''correct-horse'' = None \<or> Some ''correct-horse'' = Some ''correct-horse'') \<and>
      register guest_api (trim '' Thandi'') (trim ''thandi@example.com '') ''correct-horse'' (snd guest_adds) =
        (Inr ?d, ?api1,
         w0\<lparr>ls_authToken := Some ''token-1'', ls_sessionId := Some ?sid,
            net := [Responds accepted, Responds (remote_cart [variant_line 2])],
            requests := [?add, register_request ''Thandi'' ''thandi@example.com'' ''correct-horse'']\<rparr>)"
    by (simp add: thandi_trimmed registered)
  note t = guest_cart_merge_after_auth[OF h, where nameValue="'' Thandi''"
      and emailValue="''thandi@example.com ''" and password="''correct-horse''"
      and confirmPassword="Some ''correct-horse''" and api=guest_api and api_auth="?api1"
      and r_merge=accepted and rest="[Responds (remote_cart [variant_line 2])]"
      and r_cart="remote_cart [variant_line 2]" and rest'="[]"
      and c="success_only\<lparr>d_cart := Some (Some [variant_line 2])\<rparr>"
      and fresh="''1700000009999_z8y7x6w5v''",
      THEN conjunct2, THEN mp, OF r, THEN conjunct2]
  have l: "trim ''thandi@example.com '' \<noteq> [] \<and> ''correct-horse'' \<noteq> [] \<and>
      login guest_api (trim ''thandi@example.com '') ''correct-horse'' (snd guest_adds) =
        (Inr ?d, ?api1,
         w0\<lparr>ls_authToken := Some ''token-1'', ls_sessionId := Some ?sid,
            net := [Responds accepted, Responds (remote_cart [variant_line 2])],
            requests := [?add, login_request ''thandi@example.com'' ''correct-horse'']\<rparr>)"
    by (simp add: thandi_trimmed logged_in)
  note u = guest_cart_merge_after_auth[OF h, where emailValue="''thandi@example.com ''"
      and password="''correct-horse''" and api=guest_api and api_auth="?api1" and redirect=None
      and r_merge=accepted and rest="[Responds (remote_cart [variant_line 2])]"
      and r_cart="remote_cart [variant_line 2]" and rest'="[]"
      and c="success_only\<lparr>d_cart := Some (Some [variant_line 2])\<rparr>"
      and fresh="''1700000009999_z8y7x6w5v''",
      THEN conjunct1, THEN mp, OF l, THEN conjunct2]
  have ld: "trim ''thandi@example.com'' \<noteq> [] \<and> ''correct-horse'' \<noteq> [] \<and>
      login guest_api (trim ''thandi@example.com'') ''correct-horse'' merge_down =
        (Inr ?d, ?api1,
         w0\<lparr>ls_authToken := Some ''token-1'', ls_sessionId := Some ?sid,
            net := [Responds unavailable, Responds unavailable, Responds unavailable],
            requests := [?add, login_request ''thandi@example.com'' ''correct-horse'']\<rparr>)"
    by (simp add: thandi_trimmed logged_in_merge_down)
  note v = guest_cart_merge_after_auth[OF h(1,2) hd h(4), where emailValue="''thandi@example.com''"
      and password="''correct-horse''" and api=guest_api and api_auth="?api1" and redirect=None
      and r_merge=unavailable and rest="[Responds unavailable, Responds unavailable]"
      and r_cart=unavailable and rest'="[Responds unavailable]"
      and c="success_only" and fresh="''1700000009999_z8y7x6w5v''",
      THEN conjunct1, THEN mp, OF ld, THEN conjunct2]
  have facts: "ok accepted" "ok (remote_cart [variant_line 2])"
    "json (remote_cart [variant_line 2]) = Some (success_only\<lparr>d_cart := Some (Some [variant_line 2])\<rparr>)"
    "requests (snd guest_adds) = [?add]" "requests merge_down = [?add]"
    by (simp_all add: ok_def accepted_def remote_cart_def guest_adds_value merge_down_def)
  obtain A W where aw: "handleRegister guest_api '' Thandi'' ''thandi@example.com ''
      ''correct-horse'' (Some ''correct-horse'') (snd guest_adds) = (A, W)"
    by (cases "handleRegister guest_api '' Thandi'' ''thandi@example.com ''
      ''correct-horse'' (Some ''correct-horse'') (snd guest_adds)")
  obtain R W2 where rw: "getCart A ''1700000009999_z8y7x6w5v'' W = (R, W2)"
    by (cases "getCart A ''1700000009999_z8y7x6w5v'' W")
  from t have a1: "A = ?api1" "requests W = [?add, register_request ''Thandi'' ''thandi@example.com'' ''correct-horse'',
      merge_request ''token-1'' ?sid]" "ls_sessionId W = None"
    "R = Inr (success_only\<lparr>d_cart := Some (Some [variant_line 2])\<rparr>)"
    "requests W2 = requests W @ [cart_request ''token-1'' ''session_1700000009999_z8y7x6w5v'']"
    "ls_sessionId W2 = Some ''session_1700000009999_z8y7x6w5v''"
    unfolding aw prod.case by (auto simp: facts rw)
  have a: "token (fst then_registers) = Some ''token-1'' \<and>
   requests (snd then_registers) = requests (snd guest_adds) @
     [register_request ''Thandi'' ''thandi@example.com'' ''correct-horse'',
      merge_request ''token-1'' ''session_1700000000000_k3j9x2m1q''] \<and>
   ls_sessionId (snd then_registers) = None \<and>
   fst then_reads = Inr (success_only\<lparr>d_cart := Some (Some [variant_line 2])\<rparr>) \<and>
   requests (snd then_reads) = requests (snd then_registers) @
     [cart_request ''token-1'' ''session_1700000009999_z8y7x6w5v''] \<and>
   ls_sessionId (snd then_reads) = Some ''session_1700000009999_z8y7x6w5v''"
    using a1 rw[unfolded a1(1)] by (simp add: then_reads_def then_registers_def aw facts)
  obtain B V where bv: "handleLogin guest_api ''thandi@example.com '' ''correct-horse'' None (snd guest_adds) = (B, V)"
    by (cases "handleLogin guest_api ''thandi@example.com '' ''correct-horse'' None (snd guest_adds)")
  from u have b1: "requests V = [?add, login_request ''thandi@example.com'' ''correct-horse'',
      merge_request ''token-1'' ?sid]" "ls_sessionId V = None"
    unfolding bv prod.case by (auto simp: facts)
  have b: "requests (snd (handleLogin guest_api ''thandi@example.com '' ''correct-horse'' None (snd guest_adds))) =
     requests (snd guest_adds) @
     [login_request ''thandi@example.com'' ''correct-horse'',
      merge_request ''token-1'' ''session_1700000000000_k3j9x2m1q''] \<and>
   ls_sessionId (snd (handleLogin guest_api ''thandi@example.com '' ''correct-horse'' None (snd guest_adds))) = None"
    using b1 by (simp add: bv facts)
  obtain C U where cu: "handleLogin guest_api ''thandi@example.com'' ''correct-horse'' None merge_down = (C, U)"
    by (cases "handleLogin guest_api ''thandi@example.com'' ''correct-horse'' None merge_down")
  from v have c1: "ls_sessionId U = Some ?sid"
    "\<exists>m. 1 \<le> m \<and> m \<le> retryAttempts ?api1 \<and> requests U =
       [?add, login_request ''thandi@example.com'' ''correct-horse''] @ replicate m (merge_request ''token-1'' ?sid)"
    unfolding cu prod.case by (auto simp: merge_down_posts)
  have c2: "requests U = [?add, login_request ''thandi@example.com'' ''correct-horse''] @
      replicate 3 (merge_request ''token-1'' ?sid)"
    using cu by (simp add: handleLogin_def thandi_trimmed logged_in_merge_down after_auth_def Let_def
        truthy_def success_only_def)
      (auto simp: mergeCart_def truthy_def merge_down_posts schedule_def showSuccess_def)
  have c: "requests (snd (handleLogin guest_api ''thandi@example.com'' ''correct-horse'' None merge_down)) =
     requests merge_down @
     [login_request ''thandi@example.com'' ''correct-horse'',
      merge_request ''token-1'' ''session_1700000000000_k3j9x2m1q'',
      merge_request ''token-1'' ''session_1700000000000_k3j9x2m1q'',
      merge_request ''token-1'' ''session_1700000000000_k3j9x2m1q''] \<and>
   ls_sessionId (snd (handleLogin guest_api ''thandi@example.com'' ''correct-horse'' None merge_down)) =
     Some ''session_1700000000000_k3j9x2m1q''"
    using c1(1) c2 by (simp add: cu facts numeral_3_eq_3)
  from a b c show ?thesis by blast
qed

end
